theory Spec2Isabelle
  imports Main
begin

section \<open>Python values and the built-in operations the program uses\<close>

text \<open>
  The raw records of the remote service are decoded JSON, that is, Python objects built
  from \<open>None\<close>, booleans, integers, strings, lists and dictionaries with string keys.
  JSON numbers with a fraction are left out of the model. A string is a list of
  characters with code points below 256. A dictionary is an association list in
  insertion order; a decoded JSON object has no key twice, and a lookup reads the
  first entry of a key.
\<close>

datatype pyval =
    PyNone
  | PyBool bool
  | PyInt int
  | PyStr string
  | PyList "pyval list"
  | PyDict "(string \<times> pyval) list"

text \<open>
  The exceptions the handlers and the parser can see. \<open>KeyError\<close> carries the missing
  key; the others carry the text \<open>str(e)\<close> gives. The texts of the interpreter's own
  errors are worded as CPython 3.12 words them.
\<close>

datatype error =
    KeyError string
  | TypeError string
  | AttributeError string
  | ValueError string
  | UnicodeEncodeError string
  | ValidationError string
  | Exception string

subsection \<open>Rendering: \<open>str\<close> and \<open>repr\<close>\<close>

definition digit :: "nat \<Rightarrow> char" where
  "digit d = ''0123456789abcdef'' ! (d mod 16)"

fun str_nat :: "nat \<Rightarrow> string" where
  "str_nat n =
     (if n < 10 then [digit n]
      else str_nat (n div 10) @ [digit (n mod 10)])"

declare str_nat.simps [simp del]

definition str_int :: "int \<Rightarrow> string" where
  "str_int i = (if i < 0 then CHR ''-'' # str_nat (nat (- i)) else str_nat (nat i))"

definition hex2 :: "char \<Rightarrow> string" where
  "hex2 c = [digit (of_char c div 16), digit (of_char c mod 16)]"

fun join :: "string \<Rightarrow> string list \<Rightarrow> string" where
  "join sep [] = []"
| "join sep [x] = x"
| "join sep (x # y # ys) = x @ sep @ join sep (y # ys)"

definition backslash :: char where
  "backslash = CHR 0x5C"

definition squote :: char where
  "squote = CHR 0x27"

definition dquote :: char where
  "dquote = CHR 0x22"

definition newline :: char where
  "newline = CHR 0x0A"

text \<open>
  \<open>repr\<close> of a string: single quotes, unless the string holds a single quote and no
  double quote; the quote in use and the backslash are escaped, tab, newline and
  carriage return are written \<open>\t\<close>, \<open>\n\<close>, \<open>\r\<close>, every other character that is not
  printable as \<open>\xhh\<close>.
\<close>

definition printable :: "char \<Rightarrow> bool" where
  "printable c =
     (let n = (of_char c :: nat)
      in (32 \<le> n \<and> n < 127) \<or> (161 \<le> n \<and> n \<noteq> 173))"

definition repr_char :: "char \<Rightarrow> char \<Rightarrow> string" where
  "repr_char quote c =
     (if c = quote \<or> c = backslash then [backslash, c]
      else if c = CHR 0x09 then [backslash, CHR ''t'']
      else if c = CHR 0x0A then [backslash, CHR ''n'']
      else if c = CHR 0x0D then [backslash, CHR ''r'']
      else if printable c then [c]
      else [backslash, CHR ''x''] @ hex2 c)"

definition repr_str :: "string \<Rightarrow> string" where
  "repr_str s =
     (let quote = (if squote \<in> set s \<and> dquote \<notin> set s then dquote else squote)
      in [quote] @ concat (map (repr_char quote) s) @ [quote])"

fun py_repr :: "pyval \<Rightarrow> string"
  and repr_list :: "pyval list \<Rightarrow> string list"
  and repr_items :: "(string \<times> pyval) list \<Rightarrow> string list" where
  "py_repr PyNone = ''None''"
| "py_repr (PyBool b) = (if b then ''True'' else ''False'')"
| "py_repr (PyInt i) = str_int i"
| "py_repr (PyStr s) = repr_str s"
| "py_repr (PyList xs) = ''['' @ join '', '' (repr_list xs) @ '']''"
| "py_repr (PyDict kvs) = ''{'' @ join '', '' (repr_items kvs) @ ''}''"
| "repr_list [] = []"
| "repr_list (x # xs) = py_repr x # repr_list xs"
| "repr_items [] = []"
| "repr_items ((k, v) # kvs) = (repr_str k @ '': '' @ py_repr v) # repr_items kvs"

definition py_str :: "pyval \<Rightarrow> string" where
  "py_str v = (case v of PyStr s \<Rightarrow> s | _ \<Rightarrow> py_repr v)"

definition str_exc :: "error \<Rightarrow> string" where
  "str_exc e =
     (case e of
        KeyError k \<Rightarrow> repr_str k
      | TypeError m \<Rightarrow> m
      | AttributeError m \<Rightarrow> m
      | ValueError m \<Rightarrow> m
      | UnicodeEncodeError m \<Rightarrow> m
      | ValidationError m \<Rightarrow> m
      | Exception m \<Rightarrow> m)"

subsection \<open>Dictionaries, membership, subscripts, iteration\<close>

definition type_name :: "pyval \<Rightarrow> string" where
  "type_name v =
     (case v of
        PyNone \<Rightarrow> ''NoneType''
      | PyBool _ \<Rightarrow> ''bool''
      | PyInt _ \<Rightarrow> ''int''
      | PyStr _ \<Rightarrow> ''str''
      | PyList _ \<Rightarrow> ''list''
      | PyDict _ \<Rightarrow> ''dict'')"

definition quoted :: "string \<Rightarrow> string" where
  "quoted s = [squote] @ s @ [squote]"

text \<open>\<open>d.get(k, default)\<close>: only a dictionary has the method.\<close>

definition lookup_or :: "(string \<times> pyval) list \<Rightarrow> string \<Rightarrow> pyval \<Rightarrow> pyval" where
  "lookup_or kvs k dflt = (case map_of kvs k of Some v \<Rightarrow> v | None \<Rightarrow> dflt)"

definition py_get :: "pyval \<Rightarrow> string \<Rightarrow> pyval \<Rightarrow> error + pyval" where
  "py_get d k dflt =
     (case d of
        PyDict kvs \<Rightarrow> Inr (lookup_or kvs k dflt)
      | _ \<Rightarrow> Inl (AttributeError
                 (quoted (type_name d) @ '' object has no attribute '' @ quoted ''get'')))"

fun is_substring :: "string \<Rightarrow> string \<Rightarrow> bool" where
  "is_substring k [] = (k = [])"
| "is_substring k (c # cs) = (take (length k) (c # cs) = k \<or> is_substring k cs)"

text \<open>\<open>k in c\<close> for a string \<open>k\<close>.\<close>

definition py_in :: "string \<Rightarrow> pyval \<Rightarrow> error + bool" where
  "py_in k c =
     (case c of
        PyDict kvs \<Rightarrow> Inr (k \<in> fst ` set kvs)
      | PyList xs \<Rightarrow> Inr (PyStr k \<in> set xs)
      | PyStr s \<Rightarrow> Inr (is_substring k s)
      | _ \<Rightarrow> Inl (TypeError
                 (''argument of type '' @ quoted (type_name c) @ '' is not iterable'')))"

text \<open>\<open>c[k]\<close> for a string \<open>k\<close>.\<close>

definition py_getitem :: "pyval \<Rightarrow> string \<Rightarrow> error + pyval" where
  "py_getitem c k =
     (case c of
        PyDict kvs \<Rightarrow> (case map_of kvs k of Some v \<Rightarrow> Inr v | None \<Rightarrow> Inl (KeyError k))
      | PyList _ \<Rightarrow> Inl (TypeError ''list indices must be integers or slices, not str'')
      | PyStr _ \<Rightarrow> Inl (TypeError (''string indices must be integers, not '' @ quoted ''str''))
      | _ \<Rightarrow> Inl (TypeError (quoted (type_name c) @ '' object is not subscriptable'')))"

text \<open>
  What a \<open>for\<close> loop runs over: the elements of a list, the keys of a dictionary, the
  characters of a string.
\<close>

definition py_iter :: "pyval \<Rightarrow> error + pyval list" where
  "py_iter c =
     (case c of
        PyList xs \<Rightarrow> Inr xs
      | PyDict kvs \<Rightarrow> Inr (map (\<lambda>kv. PyStr (fst kv)) kvs)
      | PyStr s \<Rightarrow> Inr (map (\<lambda>ch. PyStr [ch]) s)
      | _ \<Rightarrow> Inl (TypeError (quoted (type_name c) @ '' object is not iterable'')))"

text \<open>\<open>xs[:top]\<close>: a negative bound counts from the end.\<close>

definition slice_to :: "'a list \<Rightarrow> int \<Rightarrow> 'a list" where
  "slice_to xs n =
     (if 0 \<le> n then take (nat n) xs else take (length xs - nat (- n)) xs)"

text \<open>\<open>d[k] = v\<close>: a present key keeps its place, a new key goes last.\<close>

fun dict_set :: "(string \<times> 'v) list \<Rightarrow> string \<Rightarrow> 'v \<Rightarrow> (string \<times> 'v) list" where
  "dict_set [] k v = [(k, v)]"
| "dict_set ((k', v') # kvs) k v =
     (if k' = k then (k, v) # kvs else (k', v') # dict_set kvs k v)"

definition bnd :: "error + 'a \<Rightarrow> ('a \<Rightarrow> error + 'b) \<Rightarrow> error + 'b" where
  "bnd m f = (case m of Inl e \<Rightarrow> Inl e | Inr x \<Rightarrow> f x)"

definition opt_str :: "string option \<Rightarrow> pyval" where
  "opt_str a = (case a of None \<Rightarrow> PyNone | Some s \<Rightarrow> PyStr s)"

definition opt_int :: "int option \<Rightarrow> pyval" where
  "opt_int a = (case a of None \<Rightarrow> PyNone | Some i \<Rightarrow> PyInt i)"

section \<open>The record model (models.py)\<close>

text \<open>
  \<open>TestCase\<close> repeats the fields of \<open>WorkItem\<close> in the same order and adds three; the
  model writes it as an extension of the \<open>WorkItem\<close> record. The field \<open>id\<close> is named
  \<open>id'\<close> here.
\<close>

record WorkItem =
  id' :: int
  title :: string
  work_item_type :: string
  state :: string
  assigned_to :: "string option"
  area_path :: string
  iteration_path :: string
  description :: "string option"
  created_date :: string
  changed_date :: string
  tags :: "string option"

record TestCase = WorkItem +
  test_steps :: "string option"
  priority :: "int option"
  automation_status :: "string option"

text \<open>
  Both classes are pydantic models: the constructor validates every keyword argument
  against the declared type of its field and raises one \<open>ValidationError\<close> naming all
  the fields that failed. An \<open>int\<close> field takes an integer and a \<open>str\<close> field a string
  as they are, neither takes \<open>None\<close>, and an \<open>Optional\<close> field takes \<open>None\<close> as well.
  What the library does with any other input (its lax conversions, which differ between
  its versions) and how it words the error are parameters of the model.
\<close>

record pydantic =
  lax_int :: "pyval \<Rightarrow> int option"
  lax_str :: "pyval \<Rightarrow> string option"
  error_text :: "string \<Rightarrow> (string \<times> pyval) list \<Rightarrow> string"

definition validate_int :: "pydantic \<Rightarrow> pyval \<Rightarrow> int option" where
  "validate_int P v = (case v of PyInt i \<Rightarrow> Some i | PyNone \<Rightarrow> None | _ \<Rightarrow> lax_int P v)"

definition validate_str :: "pydantic \<Rightarrow> pyval \<Rightarrow> string option" where
  "validate_str P v = (case v of PyStr s \<Rightarrow> Some s | PyNone \<Rightarrow> None | _ \<Rightarrow> lax_str P v)"

definition validate_opt_int :: "pydantic \<Rightarrow> pyval \<Rightarrow> int option option" where
  "validate_opt_int P v =
     (case v of PyNone \<Rightarrow> Some None | _ \<Rightarrow> map_option Some (validate_int P v))"

definition validate_opt_str :: "pydantic \<Rightarrow> pyval \<Rightarrow> string option option" where
  "validate_opt_str P v =
     (case v of PyNone \<Rightarrow> Some None | _ \<Rightarrow> map_option Some (validate_str P v))"

definition field_error :: "string \<Rightarrow> pyval \<Rightarrow> 'a option \<Rightarrow> (string \<times> pyval) list" where
  "field_error name v r = (case r of None \<Rightarrow> [(name, v)] | Some _ \<Rightarrow> [])"

definition WorkItem_errors ::
  "pydantic \<Rightarrow> pyval \<Rightarrow> pyval \<Rightarrow> pyval \<Rightarrow> pyval \<Rightarrow> pyval \<Rightarrow> pyval \<Rightarrow> pyval \<Rightarrow> pyval \<Rightarrow> pyval \<Rightarrow>
   pyval \<Rightarrow> pyval \<Rightarrow> (string \<times> pyval) list" where
  "WorkItem_errors P a_id a_title a_type a_state a_assigned a_area a_iteration
     a_description a_created a_changed a_tags =
     field_error ''id'' a_id (validate_int P a_id)
     @ field_error ''title'' a_title (validate_str P a_title)
     @ field_error ''work_item_type'' a_type (validate_str P a_type)
     @ field_error ''state'' a_state (validate_str P a_state)
     @ field_error ''assigned_to'' a_assigned (validate_opt_str P a_assigned)
     @ field_error ''area_path'' a_area (validate_str P a_area)
     @ field_error ''iteration_path'' a_iteration (validate_str P a_iteration)
     @ field_error ''description'' a_description (validate_opt_str P a_description)
     @ field_error ''created_date'' a_created (validate_str P a_created)
     @ field_error ''changed_date'' a_changed (validate_str P a_changed)
     @ field_error ''tags'' a_tags (validate_opt_str P a_tags)"

definition WorkItem_fields ::
  "pydantic \<Rightarrow> pyval \<Rightarrow> pyval \<Rightarrow> pyval \<Rightarrow> pyval \<Rightarrow> pyval \<Rightarrow> pyval \<Rightarrow> pyval \<Rightarrow> pyval \<Rightarrow> pyval \<Rightarrow>
   pyval \<Rightarrow> pyval \<Rightarrow> WorkItem option" where
  "WorkItem_fields P a_id a_title a_type a_state a_assigned a_area a_iteration
     a_description a_created a_changed a_tags =
     Option.bind (validate_int P a_id) (\<lambda>v_id.
     Option.bind (validate_str P a_title) (\<lambda>v_title.
     Option.bind (validate_str P a_type) (\<lambda>v_type.
     Option.bind (validate_str P a_state) (\<lambda>v_state.
     Option.bind (validate_opt_str P a_assigned) (\<lambda>v_assigned.
     Option.bind (validate_str P a_area) (\<lambda>v_area.
     Option.bind (validate_str P a_iteration) (\<lambda>v_iteration.
     Option.bind (validate_opt_str P a_description) (\<lambda>v_description.
     Option.bind (validate_str P a_created) (\<lambda>v_created.
     Option.bind (validate_str P a_changed) (\<lambda>v_changed.
     Option.bind (validate_opt_str P a_tags) (\<lambda>v_tags.
       Some \<lparr> id' = v_id, title = v_title, work_item_type = v_type, state = v_state,
              assigned_to = v_assigned, area_path = v_area, iteration_path = v_iteration,
              description = v_description, created_date = v_created,
              changed_date = v_changed, tags = v_tags \<rparr>)))))))))))"

text \<open>The constructor \<open>WorkItem(id=..., title=..., ...)\<close>.\<close>

definition WorkItem_init ::
  "pydantic \<Rightarrow> pyval \<Rightarrow> pyval \<Rightarrow> pyval \<Rightarrow> pyval \<Rightarrow> pyval \<Rightarrow> pyval \<Rightarrow> pyval \<Rightarrow> pyval \<Rightarrow> pyval \<Rightarrow>
   pyval \<Rightarrow> pyval \<Rightarrow> error + WorkItem" where
  "WorkItem_init P a_id a_title a_type a_state a_assigned a_area a_iteration
     a_description a_created a_changed a_tags =
     (case WorkItem_fields P a_id a_title a_type a_state a_assigned a_area a_iteration
             a_description a_created a_changed a_tags of
        Some w \<Rightarrow> Inr w
      | None \<Rightarrow>
          Inl (ValidationError (error_text P ''WorkItem''
            (WorkItem_errors P a_id a_title a_type a_state a_assigned a_area a_iteration
               a_description a_created a_changed a_tags))))"

text \<open>The constructor \<open>TestCase(id=..., ..., automation_status=...)\<close>.\<close>

definition TestCase_init ::
  "pydantic \<Rightarrow> pyval \<Rightarrow> pyval \<Rightarrow> pyval \<Rightarrow> pyval \<Rightarrow> pyval \<Rightarrow> pyval \<Rightarrow> pyval \<Rightarrow> pyval \<Rightarrow> pyval \<Rightarrow>
   pyval \<Rightarrow> pyval \<Rightarrow> pyval \<Rightarrow> pyval \<Rightarrow> pyval \<Rightarrow> error + TestCase" where
  "TestCase_init P a_id a_title a_type a_state a_assigned a_area a_iteration
     a_description a_created a_changed a_tags a_steps a_priority a_automation =
     (case Option.bind
             (WorkItem_fields P a_id a_title a_type a_state a_assigned a_area a_iteration
                a_description a_created a_changed a_tags) (\<lambda>w.
           Option.bind (validate_opt_str P a_steps) (\<lambda>v_steps.
           Option.bind (validate_opt_int P a_priority) (\<lambda>v_priority.
           Option.bind (validate_opt_str P a_automation) (\<lambda>v_automation.
             Some (WorkItem.extend w
                     \<lparr> test_steps = v_steps, priority = v_priority,
                       automation_status = v_automation \<rparr>))))) of
        Some t \<Rightarrow> Inr t
      | None \<Rightarrow>
          Inl (ValidationError (error_text P ''TestCase''
            (WorkItem_errors P a_id a_title a_type a_state a_assigned a_area a_iteration
               a_description a_created a_changed a_tags
             @ field_error ''test_steps'' a_steps (validate_opt_str P a_steps)
             @ field_error ''priority'' a_priority (validate_opt_int P a_priority)
             @ field_error ''automation_status'' a_automation
                 (validate_opt_str P a_automation)))))"

text \<open>The method \<open>dict()\<close>: the fields in the order the class declares them.\<close>

definition WorkItem_items :: "'a WorkItem_scheme \<Rightarrow> (string \<times> pyval) list" where
  "WorkItem_items w =
     [(''id'', PyInt (id' w)),
      (''title'', PyStr (title w)),
      (''work_item_type'', PyStr (work_item_type w)),
      (''state'', PyStr (state w)),
      (''assigned_to'', opt_str (assigned_to w)),
      (''area_path'', PyStr (area_path w)),
      (''iteration_path'', PyStr (iteration_path w)),
      (''description'', opt_str (description w)),
      (''created_date'', PyStr (created_date w)),
      (''changed_date'', PyStr (changed_date w)),
      (''tags'', opt_str (tags w))]"

definition WorkItem_dict :: "WorkItem \<Rightarrow> pyval" where
  "WorkItem_dict w = PyDict (WorkItem_items w)"

definition TestCase_dict :: "TestCase \<Rightarrow> pyval" where
  "TestCase_dict t =
     PyDict (WorkItem_items t
       @ [(''test_steps'', opt_str (test_steps t)),
          (''priority'', opt_int (priority t)),
          (''automation_status'', opt_str (automation_status t))])"

section \<open>The response parser (parsers.py)\<close>

text \<open>
  Lines 14 to 20 of \<open>parse_work_item\<close>, and the same lines 42 to 48 of
  \<open>parse_test_case\<close>: the assignee is the \<open>displayName\<close> of a dictionary, any other
  value as it is, and \<open>None\<close> when the key is absent.
\<close>

definition extract_assigned_to :: "pyval \<Rightarrow> error + pyval" where
  "extract_assigned_to flds =
     bnd (py_in ''System.AssignedTo'' flds) (\<lambda>present.
       if present then
         bnd (py_getitem flds ''System.AssignedTo'') (\<lambda>assigned_to_field.
           case assigned_to_field of
             PyDict _ \<Rightarrow> py_get assigned_to_field ''displayName'' PyNone
           | _ \<Rightarrow> Inr assigned_to_field)
       else Inr PyNone)"

definition parse_work_item :: "pydantic \<Rightarrow> pyval \<Rightarrow> error + WorkItem" where
  "parse_work_item P work_item_data =
     bnd (py_get work_item_data ''fields'' (PyDict [])) (\<lambda>flds.
     bnd (extract_assigned_to flds) (\<lambda>a_assigned.
     bnd (py_getitem work_item_data ''id'') (\<lambda>a_id.
     bnd (py_get flds ''System.Title'' (PyStr [])) (\<lambda>a_title.
     bnd (py_get flds ''System.WorkItemType'' (PyStr [])) (\<lambda>a_type.
     bnd (py_get flds ''System.State'' (PyStr [])) (\<lambda>a_state.
     bnd (py_get flds ''System.AreaPath'' (PyStr [])) (\<lambda>a_area.
     bnd (py_get flds ''System.IterationPath'' (PyStr [])) (\<lambda>a_iteration.
     bnd (py_get flds ''System.Description'' PyNone) (\<lambda>a_description.
     bnd (py_get flds ''System.CreatedDate'' (PyStr [])) (\<lambda>a_created.
     bnd (py_get flds ''System.ChangedDate'' (PyStr [])) (\<lambda>a_changed.
     bnd (py_get flds ''System.Tags'' PyNone) (\<lambda>a_tags.
       WorkItem_init P a_id a_title a_type a_state a_assigned a_area a_iteration
         a_description a_created a_changed a_tags))))))))))))"

definition parse_test_case :: "pydantic \<Rightarrow> pyval \<Rightarrow> error + TestCase" where
  "parse_test_case P work_item_data =
     bnd (py_get work_item_data ''fields'' (PyDict [])) (\<lambda>flds.
     bnd (extract_assigned_to flds) (\<lambda>a_assigned.
     bnd (py_getitem work_item_data ''id'') (\<lambda>a_id.
     bnd (py_get flds ''System.Title'' (PyStr [])) (\<lambda>a_title.
     bnd (py_get flds ''System.WorkItemType'' (PyStr [])) (\<lambda>a_type.
     bnd (py_get flds ''System.State'' (PyStr [])) (\<lambda>a_state.
     bnd (py_get flds ''System.AreaPath'' (PyStr [])) (\<lambda>a_area.
     bnd (py_get flds ''System.IterationPath'' (PyStr [])) (\<lambda>a_iteration.
     bnd (py_get flds ''System.Description'' PyNone) (\<lambda>a_description.
     bnd (py_get flds ''System.CreatedDate'' (PyStr [])) (\<lambda>a_created.
     bnd (py_get flds ''System.ChangedDate'' (PyStr [])) (\<lambda>a_changed.
     bnd (py_get flds ''System.Tags'' PyNone) (\<lambda>a_tags.
     bnd (py_get flds ''Microsoft.VSTS.TCM.Steps'' PyNone) (\<lambda>a_steps.
     bnd (py_get flds ''Microsoft.VSTS.Common.Priority'' PyNone) (\<lambda>a_priority.
     bnd (py_get flds ''Microsoft.VSTS.TCM.AutomationStatus'' PyNone) (\<lambda>a_automation.
       TestCase_init P a_id a_title a_type a_state a_assigned a_area a_iteration
         a_description a_created a_changed a_tags a_steps a_priority
         a_automation)))))))))))))))"

section \<open>Configuration (config.py)\<close>

text \<open>
  What the process reads from outside: the environment variables (after the optional
  \<open>.env\<close> file is loaded), which paths exist, and the bundle of the \<open>certifi\<close> package
  when it is installed.
\<close>

record env =
  getenv :: "string \<Rightarrow> string option"
  path_exists :: "string \<Rightarrow> bool"
  certifi_where :: "string option"

record config =
  AZURE_DEVOPS_ORG :: string
  AZURE_DEVOPS_PROJECT :: string
  AZURE_DEVOPS_PAT :: string
  DISABLE_SSL_VERIFY :: bool

definition getenv_default :: "env \<Rightarrow> string \<Rightarrow> string \<Rightarrow> string" where
  "getenv_default E name dflt = (case getenv E name of None \<Rightarrow> dflt | Some s \<Rightarrow> s)"

definition lower_char :: "char \<Rightarrow> char" where
  "lower_char c =
     (let n = (of_char c :: nat)
      in if (65 \<le> n \<and> n \<le> 90) \<or> (192 \<le> n \<and> n \<le> 222 \<and> n \<noteq> 215)
         then char_of (n + 32) else c)"

definition lower :: "string \<Rightarrow> string" where
  "lower s = map lower_char s"

definition REQUEST_TIMEOUT :: int where
  "REQUEST_TIMEOUT = 30"

definition RETRY_TOTAL :: int where
  "RETRY_TOTAL = 3"

definition RETRY_BACKOFF_FACTOR :: int where
  "RETRY_BACKOFF_FACTOR = 1"

definition RETRY_STATUS_FORCELIST :: "int list" where
  "RETRY_STATUS_FORCELIST = [429, 500, 502, 503, 504]"

definition API_VERSION :: string where
  "API_VERSION = ''7.1-preview.3''"

definition WIQL_API_VERSION :: string where
  "WIQL_API_VERSION = ''7.1-preview.2''"

text \<open>
  Importing the module: it raises \<open>ValueError\<close> when the credential is unset or empty
  (\<open>if not AZURE_DEVOPS_PAT\<close>).
\<close>

definition load_config :: "env \<Rightarrow> error + config" where
  "load_config E =
     (case getenv E ''AZURE_DEVOPS_PAT'' of
        None \<Rightarrow> Inl (ValueError ''AZURE_DEVOPS_PAT environment variable is required'')
      | Some pat \<Rightarrow>
          if pat = [] then
            Inl (ValueError ''AZURE_DEVOPS_PAT environment variable is required'')
          else
            Inr \<lparr> AZURE_DEVOPS_ORG = getenv_default E ''AZURE_DEVOPS_ORG'' ''executeauto'',
                  AZURE_DEVOPS_PROJECT = getenv_default E ''AZURE_DEVOPS_PROJECT'' ''Udemy'',
                  AZURE_DEVOPS_PAT = pat,
                  DISABLE_SSL_VERIFY =
                    (lower (getenv_default E ''AZURE_DEVOPS_DISABLE_SSL_VERIFY'' []) = ''true'') \<rparr>)"

section \<open>The transport client (client.py)\<close>

subsection \<open>Construction\<close>

datatype verify = VerifyDefault | VerifyOff | VerifyBundle string

record retry =
  total :: int
  backoff_factor :: int
  status_forcelist :: "int list"

text \<open>
  The client object. \<open>headers\<close> holds the session headers the constructor sets (the
  defaults of the HTTP library that it leaves alone are not listed), \<open>max_retries\<close> the
  retry strategy mounted on the session, \<open>verify\<close> the session's certificate setting.
\<close>

record client =
  organization :: string
  project :: string
  base_url :: string
  headers :: "(string \<times> string) list"
  max_retries :: retry
  verify :: verify
  timeout :: int

text \<open>
  \<open>s.encode('ascii')\<close>: every character must be below 128. The error names the first
  run of characters that are not.
\<close>

definition is_ascii :: "char \<Rightarrow> bool" where
  "is_ascii c = ((of_char c :: nat) < 128)"

definition encode_ascii :: "string \<Rightarrow> error + nat list" where
  "encode_ascii s =
     (if list_all is_ascii s then Inr (map of_char s)
      else
        (let start = length (takeWhile is_ascii s);
             run = takeWhile (\<lambda>c. \<not> is_ascii c) (drop start s)
         in Inl (UnicodeEncodeError
              (quoted ''ascii'' @ '' codec can'' @ [squote] @ ''t encode ''
               @ (case run of
                    [c] \<Rightarrow> ''character '' @ quoted ([backslash, CHR ''x''] @ hex2 c)
                             @ '' in position '' @ str_nat start
                  | _ \<Rightarrow> ''characters in position '' @ str_nat start @ ''-''
                         @ str_nat (start + length run - 1))
               @ '': ordinal not in range(128)''))))"

definition b64_alphabet :: string where
  "b64_alphabet = ''ABCDEFGHIJKLMNOPQRSTUVWXYZabcdefghijklmnopqrstuvwxyz0123456789+/''"

definition b64_digit :: "nat \<Rightarrow> char" where
  "b64_digit n = b64_alphabet ! (n mod 64)"

fun b64encode :: "nat list \<Rightarrow> string" where
  "b64encode [] = []"
| "b64encode [a] =
     [b64_digit (a div 4), b64_digit ((a mod 4) * 16), CHR ''='', CHR ''='']"
| "b64encode [a, b] =
     [b64_digit (a div 4), b64_digit ((a mod 4) * 16 + b div 16),
      b64_digit ((b mod 16) * 4), CHR ''='']"
| "b64encode (a # b # c # rest) =
     [b64_digit (a div 4), b64_digit ((a mod 4) * 16 + b div 16),
      b64_digit ((b mod 16) * 4 + c div 64), b64_digit (c mod 64)] @ b64encode rest"

text \<open>\<open>a or b\<close> on optional strings: \<open>a\<close> when it is a non-empty string, else \<open>b\<close>.\<close>

definition py_or :: "string option \<Rightarrow> string option \<Rightarrow> string option" where
  "py_or a b = (case a of None \<Rightarrow> b | Some s \<Rightarrow> if s = [] then b else a)"

definition configure_ssl :: "env \<Rightarrow> config \<Rightarrow> verify" where
  "configure_ssl E cfg =
     (if DISABLE_SSL_VERIFY cfg then VerifyOff
      else
        (let cert_file = py_or (py_or (getenv E ''SSL_CERT_FILE'')
                                      (getenv E ''REQUESTS_CA_BUNDLE''))
                               (getenv E ''CURL_CA_BUNDLE'');
             by_certifi = (case certifi_where E of
                             Some bundle \<Rightarrow> VerifyBundle bundle
                           | None \<Rightarrow> VerifyDefault)
         in case cert_file of
              None \<Rightarrow> by_certifi
            | Some f \<Rightarrow> if f \<noteq> [] \<and> path_exists E f then VerifyBundle f else by_certifi))"

text \<open>
  \<open>AzureDevOpsClient.__init__\<close>. The module imports its settings from the configuration
  module, so a configuration is loaded wherever the class exists; the credential is the
  constructor's own argument.
\<close>

definition AzureDevOpsClient :: "env \<Rightarrow> config \<Rightarrow> string \<Rightarrow> string \<Rightarrow> string \<Rightarrow> error + client" where
  "AzureDevOpsClient E cfg org proj pat =
     bnd (encode_ascii ('':'' @ pat)) (\<lambda>auth_bytes.
       Inr \<lparr> organization = org,
             project = proj,
             base_url = ''https://dev.azure.com/'' @ org,
             headers = [(''Authorization'', ''Basic '' @ b64encode auth_bytes),
                        (''Content-Type'', ''application/json''),
                        (''User-Agent'', ''Azure-DevOps-MCP-Server/1.0'')],
             max_retries = \<lparr> total = RETRY_TOTAL, backoff_factor = RETRY_BACKOFF_FACTOR,
                             status_forcelist = RETRY_STATUS_FORCELIST \<rparr>,
             verify = configure_ssl E cfg,
             timeout = REQUEST_TIMEOUT \<rparr>)"

text \<open>
  \<open>main\<close> up to the client it builds (main.py): the configuration is loaded first and
  the client gets the configured credential. Registering the tools and running the
  server belong to the dispatch framework.
\<close>

definition main :: "env \<Rightarrow> error + client" where
  "main E =
     bnd (load_config E) (\<lambda>cfg.
       AzureDevOpsClient E cfg (AZURE_DEVOPS_ORG cfg) (AZURE_DEVOPS_PROJECT cfg)
         (AZURE_DEVOPS_PAT cfg))"

subsection \<open>Requests and responses\<close>

datatype verb = GET | POST | PATCH

record request =
  verb :: verb
  url :: string
  params :: "(string \<times> string) list"
  req_headers :: "(string \<times> string) list"
  json_body :: "pyval option"
  req_timeout :: int

text \<open>
  A response: its status code, its body as text, and what \<open>response.json()\<close> gives,
  the decoded body or the text of the error it raises on a body that is not JSON.
\<close>

record response =
  status_code :: int
  text_body :: string
  json :: "string + pyval"

text \<open>
  What can be raised inside an operation of the client, by the \<open>except\<close> clause that
  catches it (the first that matches, in the order of the source): \<open>SSLError\<close>,
  \<open>ProxyError\<close>, any other \<open>ConnectionError\<close>, any other \<open>Timeout\<close>, \<open>HTTPError\<close> with the
  status code and body of its response, and any other exception with its text.
\<close>

datatype exc =
    SSLError string
  | ProxyError string
  | ConnectionError string
  | Timeout
  | HTTPError int string
  | Other string

text \<open>
  The remote service, seen through the session with its retries: it answers a request,
  knowing the requests sent before, with a response or with an exception. Sending keeps
  a log of the requests.
\<close>

type_synonym remote = "request list \<Rightarrow> request \<Rightarrow> exc + response"

definition send :: "remote \<Rightarrow> request \<Rightarrow> request list \<Rightarrow> (exc + response) \<times> request list" where
  "send net req log = (net log req, log @ [req])"

definition ebnd :: "exc + 'a \<Rightarrow> ('a \<Rightarrow> exc + 'b) \<Rightarrow> exc + 'b" where
  "ebnd m f = (case m of Inl e \<Rightarrow> Inl e | Inr x \<Rightarrow> f x)"

definition lift :: "error + 'a \<Rightarrow> exc + 'a" where
  "lift m = (case m of Inl e \<Rightarrow> Inl (Other (str_exc e)) | Inr x \<Rightarrow> Inr x)"

definition raise_for_status :: "response \<Rightarrow> exc + unit" where
  "raise_for_status r =
     (if 400 \<le> status_code r \<and> status_code r < 600
      then Inl (HTTPError (status_code r) (text_body r)) else Inr ())"

definition response_json :: "response \<Rightarrow> exc + pyval" where
  "response_json r = (case json r of Inl m \<Rightarrow> Inl (Other m) | Inr v \<Rightarrow> Inr v)"

text \<open>
  The \<open>except\<close> clauses every operation ends with. The hint after the proxy message is
  \<open>(HTTP_PROXY, HTTPS_PROXY)\<close> in \<open>get_work_items\<close> and empty in the others.
\<close>

definition client_error :: "string \<Rightarrow> client \<Rightarrow> exc \<Rightarrow> error" where
  "client_error proxy_hint cl e =
     Exception
       (case e of
          SSLError m \<Rightarrow>
            ''SSL Error: '' @ m @ ''. Try installing/updating certificates or set ''
            @ ''AZURE_DEVOPS_DISABLE_SSL_VERIFY=true for debugging (insecure)''
        | ProxyError m \<Rightarrow> ''Proxy Error: '' @ m @ ''. Check your proxy settings'' @ proxy_hint
        | ConnectionError m \<Rightarrow> ''Connection Error: '' @ m @ ''. Check your network connection''
        | Timeout \<Rightarrow> ''Request timed out after '' @ str_int (timeout cl) @ '' seconds''
        | HTTPError code body \<Rightarrow> ''HTTP Error '' @ str_int code @ '': '' @ body
        | Other m \<Rightarrow> ''Unexpected error: '' @ m)"

subsection \<open>Queries\<close>

definition wiql_select :: string where
  "wiql_select =
     [newline]
     @ ''                SELECT [System.Id], [System.Title], [System.WorkItemType], '' @ [newline]
     @ ''                       [System.State], [System.AssignedTo], [System.AreaPath],'' @
         [newline]
     @ ''                       [System.IterationPath], [System.Description], '' @ [newline]
     @ ''                       [System.CreatedDate], [System.ChangedDate], [System.Tags],'' @
         [newline]
     @ ''                       [Microsoft.VSTS.TCM.Steps], [Microsoft.VSTS.Common.Priority],''
         @ [newline]
     @ ''                       [Microsoft.VSTS.TCM.AutomationStatus]'' @ [newline]
     @ ''                FROM workitems '' @ [newline]"

text \<open>
  The query text of the three query operations: the filter on project and type, then
  the extra condition of the operation (none, on the title, on the state).
\<close>

definition wiql_text :: "client \<Rightarrow> string \<Rightarrow> string \<Rightarrow> string" where
  "wiql_text cl wi_type extra =
     wiql_select
     @ ''                WHERE [System.TeamProject] = '' @ quoted (project cl) @ '' '' @ [newline]
     @ ''                    AND [System.WorkItemType] = '' @ quoted wi_type @ [newline]
     @ extra
     @ ''                ORDER BY [System.ChangedDate] DESC'' @ [newline]
     @ ''                ''"

fun getitem_all :: "pyval list \<Rightarrow> string \<Rightarrow> error + pyval list" where
  "getitem_all [] k = Inr []"
| "getitem_all (item # items) k =
     bnd (py_getitem item k) (\<lambda>v. bnd (getitem_all items k) (\<lambda>vs. Inr (v # vs)))"

text \<open>
  The body the three query operations share, from the query request to the value
  returned: the identifiers of the query result, none of them meaning an empty list at
  once, else the first \<open>top\<close> of them fetched in one batch request.
\<close>

definition wiql_request :: "client \<Rightarrow> string \<Rightarrow> request" where
  "wiql_request cl query_text =
     \<lparr> verb = POST,
       url = base_url cl @ ''/'' @ project cl @ ''/_apis/wit/wiql?api-version=''
             @ WIQL_API_VERSION,
       params = [],
       req_headers = headers cl,
       json_body = Some (PyDict [(''query'', PyStr query_text)]),
       req_timeout = timeout cl \<rparr>"

definition details_request :: "client \<Rightarrow> string \<Rightarrow> request" where
  "details_request cl ids_param =
     \<lparr> verb = GET,
       url = base_url cl @ ''/'' @ project cl @ ''/_apis/wit/workitems'',
       params = [(''ids'', ids_param), (''api-version'', API_VERSION),
                 (''$expand'', ''fields'')],
       req_headers = headers cl,
       json_body = None,
       req_timeout = timeout cl \<rparr>"

text \<open>
  The identifiers read from the answer to the query request:
  \<open>[item["id"] for item in response.json().get("workItems", [])]\<close>, after
  \<open>raise_for_status\<close>.
\<close>

definition read_ids :: "exc + response \<Rightarrow> exc + pyval list" where
  "read_ids r1 =
     ebnd r1 (\<lambda>response.
     ebnd (raise_for_status response) (\<lambda>_.
     ebnd (response_json response) (\<lambda>wiql_result.
     ebnd (lift (py_get wiql_result ''workItems'' (PyList []))) (\<lambda>work_items.
     ebnd (lift (py_iter work_items)) (\<lambda>items.
       lift (getitem_all items ''id''))))))"

definition run_query ::
  "remote \<Rightarrow> client \<Rightarrow> string \<Rightarrow> int \<Rightarrow> request list \<Rightarrow> (exc + pyval) \<times> request list" where
  "run_query net cl query_text top_n log =
     (let (r1, log1) = send net (wiql_request cl query_text) log
      in case read_ids r1 of
           Inl e \<Rightarrow> (Inl e, log1)
         | Inr work_item_ids \<Rightarrow>
             if work_item_ids = [] then (Inr (PyList []), log1)
             else
               (let ids_param = join '','' (map py_str (slice_to work_item_ids top_n));
                    (r2, log2) = send net (details_request cl ids_param) log1
                in (ebnd r2 (\<lambda>details_response.
                    ebnd (raise_for_status details_response) (\<lambda>_.
                    ebnd (response_json details_response) (\<lambda>details_result.
                      lift (py_get details_result ''value'' (PyList []))))), log2)))"

definition finish :: "string \<Rightarrow> client \<Rightarrow> (exc + pyval) \<times> request list \<Rightarrow> (error + pyval) \<times>
    request list" where
  "finish proxy_hint cl r =
     (case fst r of
        Inl e \<Rightarrow> (Inl (client_error proxy_hint cl e), snd r)
      | Inr v \<Rightarrow> (Inr v, snd r))"

text \<open>The query texts of \<open>get_work_items\<close>, \<open>search_work_items_by_title\<close> and
  \<open>get_work_items_by_state\<close>.\<close>

definition list_query :: "client \<Rightarrow> string \<Rightarrow> string" where
  "list_query cl wi_type = wiql_text cl wi_type []"

definition title_query :: "client \<Rightarrow> string \<Rightarrow> string \<Rightarrow> string" where
  "title_query cl search_term wi_type =
     wiql_text cl wi_type
       (''                    AND [System.Title] CONTAINS '' @ quoted search_term @ [newline])"

definition state_query :: "client \<Rightarrow> string \<Rightarrow> string \<Rightarrow> string" where
  "state_query cl state_name wi_type =
     wiql_text cl wi_type
       (''                    AND [System.State] = '' @ quoted state_name @ [newline])"

definition get_work_items ::
  "remote \<Rightarrow> client \<Rightarrow> string \<Rightarrow> int \<Rightarrow> request list \<Rightarrow> (error + pyval) \<times> request list" where
  "get_work_items net cl wi_type top_n log =
     finish '' (HTTP_PROXY, HTTPS_PROXY)'' cl
       (run_query net cl (list_query cl wi_type) top_n log)"

definition search_work_items_by_title ::
  "remote \<Rightarrow> client \<Rightarrow> string \<Rightarrow> string \<Rightarrow> int \<Rightarrow> request list
   \<Rightarrow> (error + pyval) \<times> request list" where
  "search_work_items_by_title net cl search_term wi_type top_n log =
     finish [] cl (run_query net cl (title_query cl search_term wi_type) top_n log)"

definition get_work_items_by_state ::
  "remote \<Rightarrow> client \<Rightarrow> string \<Rightarrow> string \<Rightarrow> int \<Rightarrow> request list
   \<Rightarrow> (error + pyval) \<times> request list" where
  "get_work_items_by_state net cl state_name wi_type top_n log =
     finish [] cl (run_query net cl (state_query cl state_name wi_type) top_n log)"

subsection \<open>Fetch by identifier, update, create\<close>

definition item_url :: "client \<Rightarrow> string \<Rightarrow> string" where
  "item_url cl suffix = base_url cl @ ''/'' @ project cl @ ''/_apis/wit/workitems/'' @ suffix"

definition get_item_request :: "client \<Rightarrow> int \<Rightarrow> request" where
  "get_item_request cl work_item_id =
     \<lparr> verb = GET,
       url = item_url cl (str_int work_item_id),
       params = [(''api-version'', API_VERSION), (''$expand'', ''fields'')],
       req_headers = headers cl,
       json_body = None,
       req_timeout = timeout cl \<rparr>"

definition get_work_item_by_id ::
  "remote \<Rightarrow> client \<Rightarrow> int \<Rightarrow> request list \<Rightarrow> (error + pyval) \<times> request list" where
  "get_work_item_by_id net cl work_item_id log =
     (let (r, log1) = send net (get_item_request cl work_item_id) log
      in case ebnd r (\<lambda>response.
              if status_code response = 404 then Inr PyNone
              else ebnd (raise_for_status response) (\<lambda>_. response_json response)) of
           Inr v \<Rightarrow> (Inr v, log1)
         | Inl (HTTPError code body) \<Rightarrow>
             if code = 404 then (Inr PyNone, log1)
             else (Inl (client_error [] cl (HTTPError code body)), log1)
         | Inl e \<Rightarrow> (Inl (client_error [] cl e), log1))"

definition patch_operation :: "string \<Rightarrow> string \<Rightarrow> pyval \<Rightarrow> pyval" where
  "patch_operation op field_path v =
     PyDict [(''op'', PyStr op), (''path'', PyStr (''/fields/'' @ field_path)), (''value'', v)]"

definition patch_headers :: "client \<Rightarrow> (string \<times> string) list" where
  "patch_headers cl = dict_set (headers cl) ''Content-Type'' ''application/json-patch+json''"

definition update_request :: "client \<Rightarrow> int \<Rightarrow> (string \<times> pyval) list \<Rightarrow> request" where
  "update_request cl work_item_id updates =
     \<lparr> verb = PATCH,
       url = item_url cl (str_int work_item_id),
       params = [(''api-version'', API_VERSION)],
       req_headers = patch_headers cl,
       json_body = Some (PyList
         (map (\<lambda>kv. patch_operation ''replace'' (fst kv) (snd kv)) updates)),
       req_timeout = timeout cl \<rparr>"

definition update_work_item ::
  "remote \<Rightarrow> client \<Rightarrow> int \<Rightarrow> (string \<times> pyval) list \<Rightarrow> request list
   \<Rightarrow> (error + pyval) \<times> request list" where
  "update_work_item net cl work_item_id updates log =
     (let (r, log1) = send net (update_request cl work_item_id updates) log
      in finish [] cl
           (ebnd r (\<lambda>response.
              if status_code response = 404
              then Inl (Other (''Work item '' @ str_int work_item_id @ '' not found''))
              else ebnd (raise_for_status response) (\<lambda>_. response_json response)), log1))"

definition create_operations :: "string \<Rightarrow> string \<Rightarrow> (string \<times> pyval) list \<Rightarrow> pyval list" where
  "create_operations wi_type title_text flds =
     [patch_operation ''add'' ''System.Title'' (PyStr title_text),
      patch_operation ''add'' ''System.WorkItemType'' (PyStr wi_type)]
     @ map (\<lambda>kv. patch_operation ''add'' (fst kv) (snd kv))
           (filter (\<lambda>kv. snd kv \<noteq> PyNone) flds)"

definition create_request :: "client \<Rightarrow> string \<Rightarrow> string \<Rightarrow> (string \<times> pyval) list \<Rightarrow> request" where
  "create_request cl wi_type title_text flds =
     \<lparr> verb = POST,
       url = item_url cl (''$'' @ wi_type),
       params = [(''api-version'', API_VERSION)],
       req_headers = patch_headers cl,
       json_body = Some (PyList (create_operations wi_type title_text flds)),
       req_timeout = timeout cl \<rparr>"

definition create_work_item ::
  "remote \<Rightarrow> client \<Rightarrow> string \<Rightarrow> string \<Rightarrow> (string \<times> pyval) list \<Rightarrow> request list
   \<Rightarrow> (error + pyval) \<times> request list" where
  "create_work_item net cl wi_type title_text flds log =
     (let (r, log1) = send net (create_request cl wi_type title_text flds) log
      in finish [] cl
           (ebnd r (\<lambda>response.
              ebnd (raise_for_status response) (\<lambda>_. response_json response)), log1))"

section \<open>The tool handlers (user_story_tools.py, test_case_tools.py)\<close>

text \<open>
  A handler is a function the dispatch framework calls with validated arguments. Its
  whole body stands in \<open>try: ... except Exception as e: return "Error ...: " + str(e)\<close>;
  the result of a call is the text returned or the exception raised, and the log of the
  requests sent.
\<close>

definition try_except ::
  "(error + string) \<times> request list \<Rightarrow> (error \<Rightarrow> string) \<Rightarrow> (error + string) \<times> request list" where
  "try_except r handler =
     (case fst r of
        Inl e \<Rightarrow> (Inr (handler e), snd r)
      | Inr t \<Rightarrow> (Inr t, snd r))"

text \<open>
  The loop of the list, search and filter handlers: each raw record is parsed and the
  dictionary of the parsed record appended; a record whose parsing raises is skipped
  (\<open>except Exception: continue\<close>).
\<close>

definition parse_each :: "(pyval \<Rightarrow> error + 'a) \<Rightarrow> ('a \<Rightarrow> pyval) \<Rightarrow> pyval list \<Rightarrow> pyval list" where
  "parse_each parse to_dict items =
     foldl (\<lambda>acc item_data.
              case parse item_data of
                Inl e \<Rightarrow> acc
              | Inr item \<Rightarrow> acc @ [to_dict item])
           [] items"

text \<open>
  The type-tag of a fetched record, as the handlers read it:
  \<open>item.get("fields", {}).get("System.WorkItemType", "")\<close>.
\<close>

definition type_tag :: "pyval \<Rightarrow> error + pyval" where
  "type_tag item =
     bnd (py_get item ''fields'' (PyDict [])) (\<lambda>flds.
       py_get flds ''System.WorkItemType'' (PyStr []))"

text \<open>\<open>if v is not None: d[k] = v\<close>.\<close>

definition set_present :: "(string \<times> pyval) list \<Rightarrow> string \<times> pyval \<Rightarrow> (string \<times> pyval) list" where
  "set_present d kv = (if snd kv \<noteq> PyNone then dict_set d (fst kv) (snd kv) else d)"

subsection \<open>User stories\<close>

definition get_user_stories ::
  "pydantic \<Rightarrow> remote \<Rightarrow> client \<Rightarrow> int \<Rightarrow> request list \<Rightarrow> (error + string) \<times> request list" where
  "get_user_stories P net cl limit log =
     try_except
       (let limit_c = min (max 1 limit) 200;
            (r, log1) = get_work_items net cl ''User Story'' limit_c log
        in (bnd r (\<lambda>work_items_data.
            bnd (py_iter work_items_data) (\<lambda>items.
              let parsed = parse_each (parse_work_item P) WorkItem_dict items
              in Inr (''Retrieved '' @ str_int (int (length parsed)) @ '' user stories:'' @
                  [newline] @ py_str (PyList parsed)))), log1))
       (\<lambda>e. ''Error retrieving user stories: '' @ str_exc e)"

definition get_story_details ::
  "pydantic \<Rightarrow> remote \<Rightarrow> client \<Rightarrow> int \<Rightarrow> request list \<Rightarrow> (error + string) \<times> request list" where
  "get_story_details P net cl story_id log =
     try_except
       (let (r, log1) = get_work_item_by_id net cl story_id log
        in (bnd r (\<lambda>work_item_data.
            if work_item_data = PyNone then
              Inr (''Work item with ID '' @ str_int story_id @ '' not found'')
            else
              bnd (parse_work_item P work_item_data) (\<lambda>item.
                Inr (''Story Details:'' @ [newline] @ py_str (WorkItem_dict item)))), log1))
       (\<lambda>e. ''Error retrieving story details: '' @ str_exc e)"

definition search_stories_by_title ::
  "pydantic \<Rightarrow> remote \<Rightarrow> client \<Rightarrow> string \<Rightarrow> int \<Rightarrow> request list \<Rightarrow> (error + string) \<times> request list" where
  "search_stories_by_title P net cl search_term limit log =
     try_except
       (let limit_c = min (max 1 limit) 100;
            (r, log1) = search_work_items_by_title net cl search_term ''User Story'' limit_c log
        in (bnd r (\<lambda>work_items_data.
            bnd (py_iter work_items_data) (\<lambda>items.
              let parsed = parse_each (parse_work_item P) WorkItem_dict items
              in Inr (''Found '' @ str_int (int (length parsed)) @ '' stories matching '' @
                  quoted search_term @ '':'' @ [newline] @ py_str (PyList parsed)))), log1))
       (\<lambda>e. ''Error searching stories: '' @ str_exc e)"

definition get_stories_by_state ::
  "pydantic \<Rightarrow> remote \<Rightarrow> client \<Rightarrow> string \<Rightarrow> int \<Rightarrow> request list \<Rightarrow> (error + string) \<times> request list" where
  "get_stories_by_state P net cl state_name limit log =
     try_except
       (let limit_c = min (max 1 limit) 200;
            (r, log1) = get_work_items_by_state net cl state_name ''User Story'' limit_c log
        in (bnd r (\<lambda>work_items_data.
            bnd (py_iter work_items_data) (\<lambda>items.
              let parsed = parse_each (parse_work_item P) WorkItem_dict items
              in Inr (''Found '' @ str_int (int (length parsed)) @ '' stories in state '' @
                  quoted state_name @ '':'' @ [newline] @ py_str (PyList parsed)))), log1))
       (\<lambda>e. ''Error retrieving stories by state: '' @ str_exc e)"

text \<open>
  The optional parameters of the update and create handlers are written \<open>a_title\<close>,
  \<open>a_state\<close> and so on. The field mapping of an update handler lists, in the order of the
  source, the remote field name and the value of each parameter.
\<close>

definition update_story_mapping ::
  "string option \<Rightarrow> string option \<Rightarrow> string option \<Rightarrow> string option \<Rightarrow> int option \<Rightarrow> int option \<Rightarrow>
      string option \<Rightarrow> string option \<Rightarrow> string option \<Rightarrow> (string \<times> pyval) list" where
  "update_story_mapping a_title a_state a_assigned_to a_description a_priority a_story_points
      a_tags a_area_path a_iteration_path =
     [(''System.Title'', opt_str a_title),
      (''System.State'', opt_str a_state),
      (''System.AssignedTo'', opt_str a_assigned_to),
      (''System.Description'', opt_str a_description),
      (''Microsoft.VSTS.Common.Priority'', opt_int a_priority),
      (''Microsoft.VSTS.Scheduling.StoryPoints'', opt_int a_story_points),
      (''System.Tags'', opt_str a_tags),
      (''System.AreaPath'', opt_str a_area_path),
      (''System.IterationPath'', opt_str a_iteration_path)]"

definition update_story ::
  "pydantic \<Rightarrow> remote \<Rightarrow> client \<Rightarrow> int \<Rightarrow> string option \<Rightarrow> string option \<Rightarrow> string option \<Rightarrow> string
      option \<Rightarrow> int option \<Rightarrow> int option \<Rightarrow> string option \<Rightarrow> string option \<Rightarrow> string option \<Rightarrow>
      request list \<Rightarrow> (error + string) \<times> request list" where
  "update_story P net cl story_id a_title a_state a_assigned_to a_description a_priority
      a_story_points a_tags a_area_path a_iteration_path log =
     try_except
       (let (r, log1) = get_work_item_by_id net cl story_id log
        in case r of
             Inl e \<Rightarrow> (Inl e, log1)
           | Inr existing_item \<Rightarrow>
               if existing_item = PyNone then
                 (Inr (''User story with ID '' @ str_int story_id @ '' not found''), log1)
               else
                 (case type_tag existing_item of
                    Inl e \<Rightarrow> (Inl e, log1)
                  | Inr wi_type \<Rightarrow>
                      if wi_type \<noteq> PyStr ''User Story'' then
                        (Inr (''Work item '' @ str_int story_id @ '' is not a user story (it''
                              @ [squote] @ ''s a '' @ py_str wi_type @ '')''), log1)
                      else
                        (let updates = foldl set_present [] (update_story_mapping a_title
                            a_state a_assigned_to a_description a_priority a_story_points
                            a_tags a_area_path a_iteration_path)
                         in if updates = [] then
                              (Inr (''No fields provided for update. ''
                                    @ ''Please specify at least one field to update.''), log1)
                            else
                              (let (r2, log2) = update_work_item net cl story_id updates log1
                               in (bnd r2 (\<lambda>updated_item.
                                   bnd (parse_work_item P updated_item) (\<lambda>updated.
                                     Inr (''Successfully updated user story '' @ str_int story_id
                                          @ '':'' @ [newline] @ py_str (WorkItem_dict updated)))),
                                   log2)))))
       (\<lambda>e. ''Error updating user story '' @ str_int story_id @ '': '' @ str_exc e)"

definition create_user_story_caller_fields ::
  "string option \<Rightarrow> int option \<Rightarrow> int option \<Rightarrow> string option \<Rightarrow> string option \<Rightarrow> string option \<Rightarrow>
      string option \<Rightarrow> (string \<times> pyval) list" where
  "create_user_story_caller_fields a_description a_priority a_story_points a_assigned_to
      a_area_path a_iteration_path a_tags =
     foldl set_present []
       [(''System.Description'', opt_str a_description),
        (''Microsoft.VSTS.Common.Priority'', opt_int a_priority),
        (''Microsoft.VSTS.Scheduling.StoryPoints'', opt_int a_story_points),
        (''System.AssignedTo'', opt_str a_assigned_to),
        (''System.AreaPath'', opt_str a_area_path),
        (''System.IterationPath'', opt_str a_iteration_path),
        (''System.Tags'', opt_str a_tags)]"

definition create_user_story_fields ::
  "string option \<Rightarrow> int option \<Rightarrow> int option \<Rightarrow> string option \<Rightarrow> string option \<Rightarrow> string option \<Rightarrow>
      string option \<Rightarrow> (string \<times> pyval) list" where
  "create_user_story_fields a_description a_priority a_story_points a_assigned_to a_area_path
      a_iteration_path a_tags =
     dict_set (create_user_story_caller_fields a_description a_priority a_story_points
         a_assigned_to a_area_path a_iteration_path a_tags)
       ''System.State'' (PyStr ''New'')"

definition create_user_story ::
  "pydantic \<Rightarrow> remote \<Rightarrow> client \<Rightarrow> string \<Rightarrow> string option \<Rightarrow> int option \<Rightarrow> int option \<Rightarrow> string
      option \<Rightarrow> string option \<Rightarrow> string option \<Rightarrow> string option \<Rightarrow> request list \<Rightarrow> (error + string)
      \<times> request list" where
  "create_user_story P net cl a_title a_description a_priority a_story_points a_assigned_to
      a_area_path a_iteration_path a_tags log =
     try_except
       (let flds = create_user_story_fields a_description a_priority a_story_points
           a_assigned_to a_area_path a_iteration_path a_tags;
            (r, log1) = create_work_item net cl ''User Story'' a_title flds log
        in (bnd r (\<lambda>created_item.
            bnd (parse_work_item P created_item) (\<lambda>created.
              Inr (''Successfully created user story '' @ str_int (id' created) @ '':''
                   @ [newline] @ py_str (WorkItem_dict created)))), log1))
       (\<lambda>e. ''Error creating user story: '' @ str_exc e)"

subsection \<open>Test cases\<close>

definition get_test_cases ::
  "pydantic \<Rightarrow> remote \<Rightarrow> client \<Rightarrow> int \<Rightarrow> request list \<Rightarrow> (error + string) \<times> request list" where
  "get_test_cases P net cl limit log =
     try_except
       (let limit_c = min (max 1 limit) 200;
            (r, log1) = get_work_items net cl ''Test Case'' limit_c log
        in (bnd r (\<lambda>work_items_data.
            bnd (py_iter work_items_data) (\<lambda>items.
              let parsed = parse_each (parse_test_case P) TestCase_dict items
              in Inr (''Retrieved '' @ str_int (int (length parsed)) @ '' test cases:'' @
                  [newline] @ py_str (PyList parsed)))), log1))
       (\<lambda>e. ''Error retrieving test cases: '' @ str_exc e)"

definition get_test_case_details ::
  "pydantic \<Rightarrow> remote \<Rightarrow> client \<Rightarrow> int \<Rightarrow> request list \<Rightarrow> (error + string) \<times> request list" where
  "get_test_case_details P net cl test_case_id log =
     try_except
       (let (r, log1) = get_work_item_by_id net cl test_case_id log
        in (bnd r (\<lambda>work_item_data.
            if work_item_data = PyNone then
              Inr (''Test case with ID '' @ str_int test_case_id @ '' not found'')
            else
              bnd (type_tag work_item_data) (\<lambda>wi_type.
                if wi_type \<noteq> PyStr ''Test Case'' then
                  Inr (''Work item '' @ str_int test_case_id @ '' is not a test case (it''
                       @ [squote] @ ''s a '' @ py_str wi_type @ '')'')
                else
                  bnd (parse_test_case P work_item_data) (\<lambda>item.
                    Inr (''Test Case Details:'' @ [newline] @ py_str (TestCase_dict item))))),
                        log1))
       (\<lambda>e. ''Error retrieving test case details: '' @ str_exc e)"

definition search_test_cases_by_title ::
  "pydantic \<Rightarrow> remote \<Rightarrow> client \<Rightarrow> string \<Rightarrow> int \<Rightarrow> request list \<Rightarrow> (error + string) \<times> request list" where
  "search_test_cases_by_title P net cl search_term limit log =
     try_except
       (let limit_c = min (max 1 limit) 100;
            (r, log1) = search_work_items_by_title net cl search_term ''Test Case'' limit_c log
        in (bnd r (\<lambda>work_items_data.
            bnd (py_iter work_items_data) (\<lambda>items.
              let parsed = parse_each (parse_test_case P) TestCase_dict items
              in Inr (''Found '' @ str_int (int (length parsed)) @ '' test cases matching '' @
                  quoted search_term @ '':'' @ [newline] @ py_str (PyList parsed)))), log1))
       (\<lambda>e. ''Error searching test cases: '' @ str_exc e)"

definition get_test_cases_by_state ::
  "pydantic \<Rightarrow> remote \<Rightarrow> client \<Rightarrow> string \<Rightarrow> int \<Rightarrow> request list \<Rightarrow> (error + string) \<times> request list" where
  "get_test_cases_by_state P net cl state_name limit log =
     try_except
       (let limit_c = min (max 1 limit) 200;
            (r, log1) = get_work_items_by_state net cl state_name ''Test Case'' limit_c log
        in (bnd r (\<lambda>work_items_data.
            bnd (py_iter work_items_data) (\<lambda>items.
              let parsed = parse_each (parse_test_case P) TestCase_dict items
              in Inr (''Found '' @ str_int (int (length parsed)) @ '' test cases in state '' @
                  quoted state_name @ '':'' @ [newline] @ py_str (PyList parsed)))), log1))
       (\<lambda>e. ''Error retrieving test cases by state: '' @ str_exc e)"

definition update_test_case_mapping ::
  "string option \<Rightarrow> string option \<Rightarrow> string option \<Rightarrow> string option \<Rightarrow> string option \<Rightarrow> int option \<Rightarrow>
      string option \<Rightarrow> string option \<Rightarrow> string option \<Rightarrow> string option \<Rightarrow> (string \<times> pyval) list"
      where
  "update_test_case_mapping a_title a_state a_assigned_to a_description a_test_steps a_priority
      a_automation_status a_tags a_area_path a_iteration_path =
     [(''System.Title'', opt_str a_title),
      (''System.State'', opt_str a_state),
      (''System.AssignedTo'', opt_str a_assigned_to),
      (''System.Description'', opt_str a_description),
      (''Microsoft.VSTS.TCM.Steps'', opt_str a_test_steps),
      (''Microsoft.VSTS.Common.Priority'', opt_int a_priority),
      (''Microsoft.VSTS.TCM.AutomationStatus'', opt_str a_automation_status),
      (''System.Tags'', opt_str a_tags),
      (''System.AreaPath'', opt_str a_area_path),
      (''System.IterationPath'', opt_str a_iteration_path)]"

definition update_test_case ::
  "pydantic \<Rightarrow> remote \<Rightarrow> client \<Rightarrow> int \<Rightarrow> string option \<Rightarrow> string option \<Rightarrow> string option \<Rightarrow> string
      option \<Rightarrow> string option \<Rightarrow> int option \<Rightarrow> string option \<Rightarrow> string option \<Rightarrow> string option \<Rightarrow>
      string option \<Rightarrow> request list \<Rightarrow> (error + string) \<times> request list" where
  "update_test_case P net cl test_case_id a_title a_state a_assigned_to a_description
      a_test_steps a_priority a_automation_status a_tags a_area_path a_iteration_path log =
     try_except
       (let (r, log1) = get_work_item_by_id net cl test_case_id log
        in case r of
             Inl e \<Rightarrow> (Inl e, log1)
           | Inr existing_item \<Rightarrow>
               if existing_item = PyNone then
                 (Inr (''Test case with ID '' @ str_int test_case_id @ '' not found''), log1)
               else
                 (case type_tag existing_item of
                    Inl e \<Rightarrow> (Inl e, log1)
                  | Inr wi_type \<Rightarrow>
                      if wi_type \<noteq> PyStr ''Test Case'' then
                        (Inr (''Work item '' @ str_int test_case_id @ '' is not a test case (it''
                              @ [squote] @ ''s a '' @ py_str wi_type @ '')''), log1)
                      else
                        (let updates = foldl set_present [] (update_test_case_mapping a_title
                            a_state a_assigned_to a_description a_test_steps a_priority
                            a_automation_status a_tags a_area_path a_iteration_path)
                         in if updates = [] then
                              (Inr (''No fields provided for update. ''
                                    @ ''Please specify at least one field to update.''), log1)
                            else
                              (let (r2, log2) = update_work_item net cl test_case_id updates log1
                               in (bnd r2 (\<lambda>updated_item.
                                   bnd (parse_test_case P updated_item) (\<lambda>updated.
                                     Inr (''Successfully updated test case '' @ str_int test_case_id
                                          @ '':'' @ [newline] @ py_str (TestCase_dict updated)))),
                                   log2)))))
       (\<lambda>e. ''Error updating test case '' @ str_int test_case_id @ '': '' @ str_exc e)"

definition create_test_case_caller_fields ::
  "string option \<Rightarrow> string option \<Rightarrow> int option \<Rightarrow> string option \<Rightarrow> string option \<Rightarrow> string option \<Rightarrow>
      string option \<Rightarrow> string option \<Rightarrow> (string \<times> pyval) list" where
  "create_test_case_caller_fields a_description a_test_steps a_priority a_assigned_to
      a_area_path a_iteration_path a_automation_status a_tags =
     foldl set_present []
       [(''System.Description'', opt_str a_description),
        (''Microsoft.VSTS.TCM.Steps'', opt_str a_test_steps),
        (''Microsoft.VSTS.Common.Priority'', opt_int a_priority),
        (''System.AssignedTo'', opt_str a_assigned_to),
        (''System.AreaPath'', opt_str a_area_path),
        (''System.IterationPath'', opt_str a_iteration_path),
        (''Microsoft.VSTS.TCM.AutomationStatus'', opt_str a_automation_status),
        (''System.Tags'', opt_str a_tags)]"

definition create_test_case_fields ::
  "string option \<Rightarrow> string option \<Rightarrow> int option \<Rightarrow> string option \<Rightarrow> string option \<Rightarrow> string option \<Rightarrow>
      string option \<Rightarrow> string option \<Rightarrow> (string \<times> pyval) list" where
  "create_test_case_fields a_description a_test_steps a_priority a_assigned_to a_area_path
      a_iteration_path a_automation_status a_tags =
     dict_set (create_test_case_caller_fields a_description a_test_steps a_priority
         a_assigned_to a_area_path a_iteration_path a_automation_status a_tags)
       ''System.State'' (PyStr ''Design'')"

definition create_test_case ::
  "pydantic \<Rightarrow> remote \<Rightarrow> client \<Rightarrow> string \<Rightarrow> string option \<Rightarrow> string option \<Rightarrow> int option \<Rightarrow> string
      option \<Rightarrow> string option \<Rightarrow> string option \<Rightarrow> string option \<Rightarrow> string option \<Rightarrow> request list \<Rightarrow>
      (error + string) \<times> request list" where
  "create_test_case P net cl a_title a_description a_test_steps a_priority a_assigned_to
      a_area_path a_iteration_path a_automation_status a_tags log =
     try_except
       (let flds = create_test_case_fields a_description a_test_steps a_priority a_assigned_to
           a_area_path a_iteration_path a_automation_status a_tags;
            (r, log1) = create_work_item net cl ''Test Case'' a_title flds log
        in (bnd r (\<lambda>created_item.
            bnd (parse_test_case P created_item) (\<lambda>created.
              Inr (''Successfully created test case '' @ str_int (id' created) @ '':''
                   @ [newline] @ py_str (TestCase_dict created)))), log1))
       (\<lambda>e. ''Error creating test case: '' @ str_exc e)"

section \<open>Notions of the specification\<close>

text \<open>
  The records of a batch that parse, in their original order: what the specification
  calls the successfully parsed records.
\<close>

fun parsed_ok :: "(pyval \<Rightarrow> error + 'a) \<Rightarrow> pyval list \<Rightarrow> 'a list" where
  "parsed_ok parse [] = []"
| "parsed_ok parse (x # xs) =
     (case parse x of Inl e \<Rightarrow> parsed_ok parse xs | Inr item \<Rightarrow> item # parsed_ok parse xs)"

text \<open>
  The field dictionary of a raw record: empty when the record has no \<open>fields\<close> entry,
  undefined when the entry is not a dictionary.
\<close>

definition fields_of :: "(string \<times> pyval) list \<Rightarrow> (string \<times> pyval) list option" where
  "fields_of kvs =
     (case map_of kvs ''fields'' of
        None \<Rightarrow> Some []
      | Some (PyDict fs) \<Rightarrow> Some fs
      | Some _ \<Rightarrow> None)"

text \<open>
  A field has its declared type: a required string is absent or a string, an optional
  string or integer may also be \<open>None\<close>, the assignee is absent, \<open>None\<close>, a string, or a
  dictionary whose \<open>displayName\<close> is an optional string.
\<close>

definition str_ok :: "(string \<times> pyval) list \<Rightarrow> string \<Rightarrow> bool" where
  "str_ok fs k = (case map_of fs k of None \<Rightarrow> True | Some (PyStr s) \<Rightarrow> True | Some _ \<Rightarrow> False)"

definition opt_str_ok :: "(string \<times> pyval) list \<Rightarrow> string \<Rightarrow> bool" where
  "opt_str_ok fs k =
     (case map_of fs k of
        None \<Rightarrow> True | Some PyNone \<Rightarrow> True | Some (PyStr s) \<Rightarrow> True | Some _ \<Rightarrow> False)"

definition opt_int_ok :: "(string \<times> pyval) list \<Rightarrow> string \<Rightarrow> bool" where
  "opt_int_ok fs k =
     (case map_of fs k of
        None \<Rightarrow> True | Some PyNone \<Rightarrow> True | Some (PyInt i) \<Rightarrow> True | Some _ \<Rightarrow> False)"

definition assignee_ok :: "(string \<times> pyval) list \<Rightarrow> bool" where
  "assignee_ok fs =
     (case map_of fs ''System.AssignedTo'' of
        None \<Rightarrow> True
      | Some PyNone \<Rightarrow> True
      | Some (PyStr s) \<Rightarrow> True
      | Some (PyDict a) \<Rightarrow> opt_str_ok a ''displayName''
      | Some _ \<Rightarrow> False)"

definition work_item_typed :: "(string \<times> pyval) list \<Rightarrow> bool" where
  "work_item_typed fs =
     (str_ok fs ''System.Title'' \<and> str_ok fs ''System.WorkItemType''
      \<and> str_ok fs ''System.State'' \<and> assignee_ok fs
      \<and> str_ok fs ''System.AreaPath'' \<and> str_ok fs ''System.IterationPath''
      \<and> opt_str_ok fs ''System.Description'' \<and> str_ok fs ''System.CreatedDate''
      \<and> str_ok fs ''System.ChangedDate'' \<and> opt_str_ok fs ''System.Tags'')"

definition test_case_typed :: "(string \<times> pyval) list \<Rightarrow> bool" where
  "test_case_typed fs =
     (work_item_typed fs \<and> opt_str_ok fs ''Microsoft.VSTS.TCM.Steps''
      \<and> opt_int_ok fs ''Microsoft.VSTS.Common.Priority''
      \<and> opt_str_ok fs ''Microsoft.VSTS.TCM.AutomationStatus'')"

text \<open>
  What the specification gives a field: a missing required string is the empty
  string, a missing optional field is absent.
\<close>

definition str_field :: "(string \<times> pyval) list \<Rightarrow> string \<Rightarrow> string" where
  "str_field fs k = (case map_of fs k of Some (PyStr s) \<Rightarrow> s | _ \<Rightarrow> [])"

definition opt_str_field :: "(string \<times> pyval) list \<Rightarrow> string \<Rightarrow> string option" where
  "opt_str_field fs k = (case map_of fs k of Some (PyStr s) \<Rightarrow> Some s | _ \<Rightarrow> None)"

definition opt_int_field :: "(string \<times> pyval) list \<Rightarrow> string \<Rightarrow> int option" where
  "opt_int_field fs k = (case map_of fs k of Some (PyInt i) \<Rightarrow> Some i | _ \<Rightarrow> None)"

definition assignee :: "(string \<times> pyval) list \<Rightarrow> string option" where
  "assignee fs =
     (case map_of fs ''System.AssignedTo'' of
        Some (PyStr s) \<Rightarrow> Some s
      | Some (PyDict a) \<Rightarrow> opt_str_field a ''displayName''
      | _ \<Rightarrow> None)"

definition expected_work_item :: "int \<Rightarrow> (string \<times> pyval) list \<Rightarrow> WorkItem" where
  "expected_work_item i fs =
     \<lparr> id' = i,
       title = str_field fs ''System.Title'',
       work_item_type = str_field fs ''System.WorkItemType'',
       state = str_field fs ''System.State'',
       assigned_to = assignee fs,
       area_path = str_field fs ''System.AreaPath'',
       iteration_path = str_field fs ''System.IterationPath'',
       description = opt_str_field fs ''System.Description'',
       created_date = str_field fs ''System.CreatedDate'',
       changed_date = str_field fs ''System.ChangedDate'',
       tags = opt_str_field fs ''System.Tags'' \<rparr>"

definition expected_test_case :: "int \<Rightarrow> (string \<times> pyval) list \<Rightarrow> TestCase" where
  "expected_test_case i fs =
     WorkItem.extend (expected_work_item i fs)
       \<lparr> test_steps = opt_str_field fs ''Microsoft.VSTS.TCM.Steps'',
         priority = opt_int_field fs ''Microsoft.VSTS.Common.Priority'',
         automation_status = opt_str_field fs ''Microsoft.VSTS.TCM.AutomationStatus'' \<rparr>"

section \<open>Concrete inputs\<close>

text \<open>
  A validation library without lax conversions, a client, an environment, two raw
  records, and remote services that answer every request alike.
\<close>

definition P0 :: pydantic where
  "P0 = \<lparr> lax_int = (\<lambda>v. None), lax_str = (\<lambda>v. None),
          error_text = (\<lambda>name errs. ''validation error for '' @ name) \<rparr>"

definition E0 :: env where
  "E0 = \<lparr> getenv = (\<lambda>name. if name = ''AZURE_DEVOPS_PAT'' then Some ''secret'' else None),
          path_exists = (\<lambda>path. False), certifi_where = None \<rparr>"

definition E_empty :: env where
  "E_empty = \<lparr> getenv = (\<lambda>name. if name = ''AZURE_DEVOPS_PAT'' then Some [] else None),
               path_exists = (\<lambda>path. False), certifi_where = None \<rparr>"

definition cfg0 :: config where
  "cfg0 = \<lparr> AZURE_DEVOPS_ORG = ''executeauto'', AZURE_DEVOPS_PROJECT = ''Udemy'',
            AZURE_DEVOPS_PAT = ''secret'', DISABLE_SSL_VERIFY = False \<rparr>"

definition cl0 :: client where
  "cl0 = \<lparr> organization = ''org'', project = ''proj'',
           base_url = ''https://dev.azure.com/org'',
           headers = [(''Authorization'', ''Basic Og==''),
                      (''Content-Type'', ''application/json''),
                      (''User-Agent'', ''Azure-DevOps-MCP-Server/1.0'')],
           max_retries = \<lparr> total = 3, backoff_factor = 1,
                           status_forcelist = [429, 500, 502, 503, 504] \<rparr>,
           verify = VerifyDefault, timeout = 30 \<rparr>"

definition story1 :: pyval where
  "story1 =
     PyDict [(''id'', PyInt 101),
             (''fields'', PyDict [(''System.Title'', PyStr ''Login flow''),
                                  (''System.WorkItemType'', PyStr ''User Story''),
                                  (''System.State'', PyStr ''Active''),
                                  (''System.AssignedTo'',
                                   PyDict [(''displayName'', PyStr ''Alice'')])])]"

definition case1 :: pyval where
  "case1 =
     PyDict [(''id'', PyInt 7),
             (''fields'', PyDict [(''System.Title'', PyStr ''Login works''),
                                  (''System.WorkItemType'', PyStr ''Test Case''),
                                  (''System.State'', PyStr ''Design''),
                                  (''Microsoft.VSTS.Common.Priority'', PyInt 2)])]"

definition no_id :: pyval where
  "no_id = PyDict [(''fields'', PyDict [(''System.Title'', PyStr ''Untitled'')])]"

definition null_fields :: pyval where
  "null_fields = PyDict [(''id'', PyInt 1), (''fields'', PyNone)]"

definition ok_response :: "pyval \<Rightarrow> response" where
  "ok_response v = \<lparr> status_code = 200, text_body = [], json = Inr v \<rparr>"

definition net_item :: "pyval \<Rightarrow> remote" where
  "net_item v log req = Inr (ok_response v)"

definition net_404 :: remote where
  "net_404 log req =
     Inr \<lparr> status_code = 404, text_body = ''Not Found'', json = Inl ''Expecting value'' \<rparr>"

definition net_down :: remote where
  "net_down log req = Inl (ConnectionError ''refused'')"

text \<open>A service that answers every GET with the given record and times out on the rest.\<close>

definition net_read_only :: "pyval \<Rightarrow> remote" where
  "net_read_only v log req = (if verb req = GET then Inr (ok_response v) else Inl Timeout)"

text \<open>
  A service whose query finds three identifiers and whose batch fetch returns the given
  records.
\<close>

definition net_list :: "pyval list \<Rightarrow> remote" where
  "net_list records log req =
     (if verb req = POST
      then Inr (ok_response (PyDict [(''workItems'',
             PyList [PyDict [(''id'', PyInt 101)], PyDict [(''id'', PyInt 102)],
                     PyDict [(''id'', PyInt 103)]])]))
      else Inr (ok_response (PyDict [(''value'', PyList records)])))"

section \<open>Properties\<close>

subsection \<open>Auxiliary facts\<close>

lemma clamp_idem: "min (max 1 (min (max 1 l) b)) b = min (max (1::int) l) b"
  by (simp add: min_def max_def)

lemma fst_try_except:
  "fst (try_except r h) = (case fst r of Inl e \<Rightarrow> Inr (h e) | Inr t \<Rightarrow> Inr t)"
  by (simp add: try_except_def split: sum.splits)

lemma snd_try_except: "snd (try_except r h) = snd r"
  by (simp add: try_except_def split: sum.splits)

lemma snd_get_work_item_by_id:
  "snd (get_work_item_by_id net cl wid log) = log @ [get_item_request cl wid]"
  by (simp add: get_work_item_by_id_def send_def split: sum.splits exc.splits)

lemma get_work_item_by_id_pair:
  "fst (get_work_item_by_id net cl wid log) = r \<Longrightarrow>
   get_work_item_by_id net cl wid log = (r, log @ [get_item_request cl wid])"
  using snd_get_work_item_by_id [of net cl wid log]
  by (cases "get_work_item_by_id net cl wid log") simp

lemma get_by_id_404:
  assumes "net log (get_item_request cl wid) = Inr r" and "status_code r = 404"
  shows "get_work_item_by_id net cl wid log = (Inr PyNone, log @ [get_item_request cl wid])"
  using assms by (simp add: get_work_item_by_id_def send_def ebnd_def)

lemma update_404:
  assumes "net log (update_request cl wid updates) = Inr r" and "status_code r = 404"
  shows "update_work_item net cl wid updates log =
     (Inl (Exception (''Unexpected error: Work item '' @ str_int wid @ '' not found'')),
      log @ [update_request cl wid updates])"
  using assms by (simp add: update_work_item_def send_def ebnd_def finish_def client_error_def)

subsection \<open>Nonexistent identifiers\<close>

text \<open>
  C3. When the remote service answers 404, \<open>get_work_item_by_id\<close> returns \<open>None\<close> and does
  not raise, and \<open>update_work_item\<close> raises an error whose text says that the work item
  was not found (wrapped by the last \<open>except\<close> clause as an unexpected error); the two
  results differ for every identifier.
\<close>

theorem not_found_sentinel_versus_error:
  assumes "net log (get_item_request cl wid) = Inr r1" and "status_code r1 = 404"
    and "net log (update_request cl wid updates) = Inr r2" and "status_code r2 = 404"
  shows "fst (get_work_item_by_id net cl wid log) = Inr PyNone
     \<and> fst (update_work_item net cl wid updates log)
         = Inl (Exception (''Unexpected error: Work item '' @ str_int wid @ '' not found''))
     \<and> fst (get_work_item_by_id net cl wid log) \<noteq> fst (update_work_item net cl wid updates log)"
  using get_by_id_404 [of net log cl wid r1] update_404 [of net log cl wid updates r2] assms
  by simp

theorem not_found_sentinel_versus_error_witness:
  "fst (get_work_item_by_id net_404 cl0 42 []) = Inr PyNone
   \<and> fst (update_work_item net_404 cl0 42 [(''System.State'', PyStr ''Closed'')] [])
       = Inl (Exception ''Unexpected error: Work item 42 not found'')"
  using not_found_sentinel_versus_error [where net = net_404 and log = "[]" and cl = cl0
      and wid = 42 and updates = "[(''System.State'', PyStr ''Closed'')]"
      and ?r1.0 = "\<lparr> status_code = 404, text_body = ''Not Found'', json = Inl ''Expecting value'' \<rparr>"
      and ?r2.0 = "\<lparr> status_code = 404, text_body = ''Not Found'', json = Inl
          ''Expecting value'' \<rparr>"]
  by (simp add: net_404_def str_int_def str_nat.simps digit_def)

subsection \<open>Limits\<close>

lemma snd_finish: "snd (finish hint cl r) = snd r"
  by (simp add: finish_def split: sum.splits)

lemma run_query_requests:
  assumes "read_ids (net log (wiql_request cl q)) = Inr ids" and "ids \<noteq> []"
  shows "snd (run_query net cl q n log)
     = log @ [wiql_request cl q, details_request cl (join '','' (map py_str (slice_to ids n)))]"
  using assms by (simp add: run_query_def send_def Let_def)

lemma slice_to_take: "0 \<le> n \<Longrightarrow> slice_to ids n = take (nat n) ids"
  by (simp add: slice_to_def)

lemma get_user_stories_log:
  "snd (get_user_stories P net cl limit log)
     = snd (get_work_items net cl ''User Story'' (min (max 1 limit) 200) log)"
  by (simp add: get_user_stories_def snd_try_except split_beta Let_def)

lemma get_user_stories_requests:
  assumes "read_ids (net log (wiql_request cl (list_query cl ''User Story''))) = Inr ids" and
      "ids \<noteq> []"
  shows "snd (get_user_stories P net cl limit log)
     = log @ [wiql_request cl (list_query cl ''User Story''),
               details_request cl (join '','' (map py_str (take (nat (min (max 1 limit) 200))
                   ids)))]"
  using assms run_query_requests [where net = net and log = log and cl = cl and ids = ids
        and n = "min (max 1 limit) 200"]
    slice_to_take [of "min (max 1 limit) 200" ids]
  by (simp add: get_user_stories_log get_work_items_def snd_finish)

lemma get_stories_by_state_log:
  "snd (get_stories_by_state P net cl st limit log)
     = snd (get_work_items_by_state net cl st ''User Story'' (min (max 1 limit) 200) log)"
  by (simp add: get_stories_by_state_def snd_try_except split_beta Let_def)

lemma get_stories_by_state_requests:
  assumes "read_ids (net log (wiql_request cl (state_query cl st ''User Story''))) = Inr ids"
      and "ids \<noteq> []"
  shows "snd (get_stories_by_state P net cl st limit log)
     = log @ [wiql_request cl (state_query cl st ''User Story''),
               details_request cl (join '','' (map py_str (take (nat (min (max 1 limit) 200))
                   ids)))]"
  using assms run_query_requests [where net = net and log = log and cl = cl and ids = ids
        and n = "min (max 1 limit) 200"]
    slice_to_take [of "min (max 1 limit) 200" ids]
  by (simp add: get_stories_by_state_log get_work_items_by_state_def snd_finish)

lemma get_test_cases_log:
  "snd (get_test_cases P net cl limit log)
     = snd (get_work_items net cl ''Test Case'' (min (max 1 limit) 200) log)"
  by (simp add: get_test_cases_def snd_try_except split_beta Let_def)

lemma get_test_cases_requests:
  assumes "read_ids (net log (wiql_request cl (list_query cl ''Test Case''))) = Inr ids" and
      "ids \<noteq> []"
  shows "snd (get_test_cases P net cl limit log)
     = log @ [wiql_request cl (list_query cl ''Test Case''),
               details_request cl (join '','' (map py_str (take (nat (min (max 1 limit) 200))
                   ids)))]"
  using assms run_query_requests [where net = net and log = log and cl = cl and ids = ids
        and n = "min (max 1 limit) 200"]
    slice_to_take [of "min (max 1 limit) 200" ids]
  by (simp add: get_test_cases_log get_work_items_def snd_finish)

lemma get_test_cases_by_state_log:
  "snd (get_test_cases_by_state P net cl st limit log)
     = snd (get_work_items_by_state net cl st ''Test Case'' (min (max 1 limit) 200) log)"
  by (simp add: get_test_cases_by_state_def snd_try_except split_beta Let_def)

lemma get_test_cases_by_state_requests:
  assumes "read_ids (net log (wiql_request cl (state_query cl st ''Test Case''))) = Inr ids"
      and "ids \<noteq> []"
  shows "snd (get_test_cases_by_state P net cl st limit log)
     = log @ [wiql_request cl (state_query cl st ''Test Case''),
               details_request cl (join '','' (map py_str (take (nat (min (max 1 limit) 200))
                   ids)))]"
  using assms run_query_requests [where net = net and log = log and cl = cl and ids = ids
        and n = "min (max 1 limit) 200"]
    slice_to_take [of "min (max 1 limit) 200" ids]
  by (simp add: get_test_cases_by_state_log get_work_items_by_state_def snd_finish)

lemma search_stories_by_title_log:
  "snd (search_stories_by_title P net cl needle limit log)
     = snd (search_work_items_by_title net cl needle ''User Story'' (min (max 1 limit) 100) log)"
  by (simp add: search_stories_by_title_def snd_try_except split_beta Let_def)

lemma search_stories_by_title_requests:
  assumes "read_ids (net log (wiql_request cl (title_query cl needle ''User Story''))) = Inr
      ids" and "ids \<noteq> []"
  shows "snd (search_stories_by_title P net cl needle limit log)
     = log @ [wiql_request cl (title_query cl needle ''User Story''),
               details_request cl (join '','' (map py_str (take (nat (min (max 1 limit) 100))
                   ids)))]"
  using assms run_query_requests [where net = net and log = log and cl = cl and ids = ids
        and n = "min (max 1 limit) 100"]
    slice_to_take [of "min (max 1 limit) 100" ids]
  by (simp add: search_stories_by_title_log search_work_items_by_title_def snd_finish)

lemma search_test_cases_by_title_log:
  "snd (search_test_cases_by_title P net cl needle limit log)
     = snd (search_work_items_by_title net cl needle ''Test Case'' (min (max 1 limit) 100) log)"
  by (simp add: search_test_cases_by_title_def snd_try_except split_beta Let_def)

lemma search_test_cases_by_title_requests:
  assumes "read_ids (net log (wiql_request cl (title_query cl needle ''Test Case''))) = Inr
      ids" and "ids \<noteq> []"
  shows "snd (search_test_cases_by_title P net cl needle limit log)
     = log @ [wiql_request cl (title_query cl needle ''Test Case''),
               details_request cl (join '','' (map py_str (take (nat (min (max 1 limit) 100))
                   ids)))]"
  using assms run_query_requests [where net = net and log = log and cl = cl and ids = ids
        and n = "min (max 1 limit) 100"]
    slice_to_take [of "min (max 1 limit) 100" ids]
  by (simp add: search_test_cases_by_title_log search_work_items_by_title_def snd_finish)

lemma net_list_ids:
  "read_ids (net_list records [] (wiql_request cl0 q))
     = Inr [PyInt 101, PyInt 102, PyInt 103]"
  by (simp add: read_ids_def net_list_def wiql_request_def ok_response_def ebnd_def
      raise_for_status_def response_json_def lift_def py_get_def lookup_or_def py_iter_def
      py_getitem_def bnd_def)

text \<open>
  C6. For every integer limit, the list and filter-by-state handlers clamp it into the
  range from 1 to 200 and the search handlers into the range from 1 to 100 before
  querying: the requests a handler sends are those of the query operation at the
  clamped limit, and when the query finds identifiers, the batch request asks for the
  first \<open>min (max 1 limit) 200\<close> of them (100 for search). A limit of 0 behaves as 1,
  and a limit of 9999 as 200 for list and filter and as 100 for search.
\<close>

theorem limit_clamped:
  "(get_user_stories P net cl limit log = get_user_stories P net cl (min (max 1 limit) 200) log
    \<and> get_stories_by_state P net cl st limit log
       = get_stories_by_state P net cl st (min (max 1 limit) 200) log
    \<and> get_test_cases P net cl limit log = get_test_cases P net cl (min (max 1 limit) 200) log
    \<and> get_test_cases_by_state P net cl st limit log
       = get_test_cases_by_state P net cl st (min (max 1 limit) 200) log
    \<and> search_stories_by_title P net cl needle limit log
       = search_stories_by_title P net cl needle (min (max 1 limit) 100) log
    \<and> search_test_cases_by_title P net cl needle limit log
       = search_test_cases_by_title P net cl needle (min (max 1 limit) 100) log
    \<and> 1 \<le> min (max 1 limit) 200 \<and> min (max 1 limit) 200 \<le> 200
    \<and> 1 \<le> min (max 1 limit) 100 \<and> min (max 1 limit) 100 \<le> 100
    \<and> get_user_stories P net cl 0 log = get_user_stories P net cl 1 log
    \<and> get_user_stories P net cl 9999 log = get_user_stories P net cl 200 log
    \<and> get_stories_by_state P net cl st 0 log = get_stories_by_state P net cl st 1 log
    \<and> get_stories_by_state P net cl st 9999 log = get_stories_by_state P net cl st 200 log
    \<and> search_stories_by_title P net cl needle 0 log
       = search_stories_by_title P net cl needle 1 log
    \<and> search_stories_by_title P net cl needle 9999 log
       = search_stories_by_title P net cl needle 100 log)
   \<and> (snd (get_user_stories P net cl limit log)
       = snd (get_work_items net cl ''User Story'' (min (max 1 limit) 200) log)
    \<and> snd (get_stories_by_state P net cl st limit log)
       = snd (get_work_items_by_state net cl st ''User Story'' (min (max 1 limit) 200) log)
    \<and> snd (get_test_cases P net cl limit log)
       = snd (get_work_items net cl ''Test Case'' (min (max 1 limit) 200) log)
    \<and> snd (get_test_cases_by_state P net cl st limit log)
       = snd (get_work_items_by_state net cl st ''Test Case'' (min (max 1 limit) 200) log)
    \<and> snd (search_stories_by_title P net cl needle limit log)
       = snd (search_work_items_by_title net cl needle ''User Story'' (min (max 1 limit) 100) log)
    \<and> snd (search_test_cases_by_title P net cl needle limit log)
       = snd (search_work_items_by_title net cl needle ''Test Case'' (min (max 1 limit) 100) log))
   \<and> ((read_ids (net log (wiql_request cl (list_query cl ''User Story''))) = Inr ids \<and> ids \<noteq> [] \<longrightarrow>
      snd (get_user_stories P net cl limit log)
        = log @ [wiql_request cl (list_query cl ''User Story''),
               details_request cl (join '','' (map py_str (take (nat (min (max 1 limit) 200))
                   ids)))]
      \<and> snd (get_user_stories P net cl 0 log)
        = log @ [wiql_request cl (list_query cl ''User Story''),
               details_request cl (join '','' (map py_str (take 1 ids)))]
      \<and> snd (get_user_stories P net cl 9999 log)
        = log @ [wiql_request cl (list_query cl ''User Story''),
               details_request cl (join '','' (map py_str (take 200 ids)))])
    \<and> (read_ids (net log (wiql_request cl (state_query cl st ''User Story''))) = Inr ids \<and> ids
        \<noteq> [] \<longrightarrow>
      snd (get_stories_by_state P net cl st limit log)
        = log @ [wiql_request cl (state_query cl st ''User Story''),
               details_request cl (join '','' (map py_str (take (nat (min (max 1 limit) 200))
                   ids)))]
      \<and> snd (get_stories_by_state P net cl st 0 log)
        = log @ [wiql_request cl (state_query cl st ''User Story''),
               details_request cl (join '','' (map py_str (take 1 ids)))]
      \<and> snd (get_stories_by_state P net cl st 9999 log)
        = log @ [wiql_request cl (state_query cl st ''User Story''),
               details_request cl (join '','' (map py_str (take 200 ids)))])
    \<and> (read_ids (net log (wiql_request cl (list_query cl ''Test Case''))) = Inr ids \<and> ids \<noteq> [] \<longrightarrow>
      snd (get_test_cases P net cl limit log)
        = log @ [wiql_request cl (list_query cl ''Test Case''),
               details_request cl (join '','' (map py_str (take (nat (min (max 1 limit) 200))
                   ids)))]
      \<and> snd (get_test_cases P net cl 0 log)
        = log @ [wiql_request cl (list_query cl ''Test Case''),
               details_request cl (join '','' (map py_str (take 1 ids)))]
      \<and> snd (get_test_cases P net cl 9999 log)
        = log @ [wiql_request cl (list_query cl ''Test Case''),
               details_request cl (join '','' (map py_str (take 200 ids)))])
    \<and> (read_ids (net log (wiql_request cl (state_query cl st ''Test Case''))) = Inr ids \<and> ids \<noteq> [] \<longrightarrow>
      snd (get_test_cases_by_state P net cl st limit log)
        = log @ [wiql_request cl (state_query cl st ''Test Case''),
               details_request cl (join '','' (map py_str (take (nat (min (max 1 limit) 200))
                   ids)))]
      \<and> snd (get_test_cases_by_state P net cl st 0 log)
        = log @ [wiql_request cl (state_query cl st ''Test Case''),
               details_request cl (join '','' (map py_str (take 1 ids)))]
      \<and> snd (get_test_cases_by_state P net cl st 9999 log)
        = log @ [wiql_request cl (state_query cl st ''Test Case''),
               details_request cl (join '','' (map py_str (take 200 ids)))])
    \<and> (read_ids (net log (wiql_request cl (title_query cl needle ''User Story''))) = Inr ids \<and>
        ids \<noteq> [] \<longrightarrow>
      snd (search_stories_by_title P net cl needle limit log)
        = log @ [wiql_request cl (title_query cl needle ''User Story''),
               details_request cl (join '','' (map py_str (take (nat (min (max 1 limit) 100))
                   ids)))]
      \<and> snd (search_stories_by_title P net cl needle 0 log)
        = log @ [wiql_request cl (title_query cl needle ''User Story''),
               details_request cl (join '','' (map py_str (take 1 ids)))]
      \<and> snd (search_stories_by_title P net cl needle 9999 log)
        = log @ [wiql_request cl (title_query cl needle ''User Story''),
               details_request cl (join '','' (map py_str (take 100 ids)))])
    \<and> (read_ids (net log (wiql_request cl (title_query cl needle ''Test Case''))) = Inr ids \<and>
        ids \<noteq> [] \<longrightarrow>
      snd (search_test_cases_by_title P net cl needle limit log)
        = log @ [wiql_request cl (title_query cl needle ''Test Case''),
               details_request cl (join '','' (map py_str (take (nat (min (max 1 limit) 100))
                   ids)))]
      \<and> snd (search_test_cases_by_title P net cl needle 0 log)
        = log @ [wiql_request cl (title_query cl needle ''Test Case''),
               details_request cl (join '','' (map py_str (take 1 ids)))]
      \<and> snd (search_test_cases_by_title P net cl needle 9999 log)
        = log @ [wiql_request cl (title_query cl needle ''Test Case''),
               details_request cl (join '','' (map py_str (take 100 ids)))]))"
proof -
  have a: "get_user_stories P net cl l log = get_user_stories P net cl (min (max 1 l) 200) log"
    for l
    unfolding get_user_stories_def clamp_idem ..
  have b: "get_stories_by_state P net cl st l log
       = get_stories_by_state P net cl st (min (max 1 l) 200) log" for l
    unfolding get_stories_by_state_def clamp_idem ..
  have c: "get_test_cases P net cl limit log = get_test_cases P net cl (min (max 1 limit) 200) log"
    unfolding get_test_cases_def clamp_idem ..
  have d: "get_test_cases_by_state P net cl st limit log
       = get_test_cases_by_state P net cl st (min (max 1 limit) 200) log"
    unfolding get_test_cases_by_state_def clamp_idem ..
  have e: "search_stories_by_title P net cl needle l log
       = search_stories_by_title P net cl needle (min (max 1 l) 100) log" for l
    unfolding search_stories_by_title_def clamp_idem ..
  have f: "search_test_cases_by_title P net cl needle limit log
       = search_test_cases_by_title P net cl needle (min (max 1 limit) 100) log"
    unfolding search_test_cases_by_title_def clamp_idem ..
  have g: "get_user_stories P net cl 0 log = get_user_stories P net cl 1 log"
    using a [of 0] by simp
  have h: "get_user_stories P net cl 9999 log = get_user_stories P net cl 200 log"
    using a [of 9999] by simp
  have i: "search_stories_by_title P net cl needle 0 log
       = search_stories_by_title P net cl needle 1 log"
    using e [of 0] by simp
  have j: "search_stories_by_title P net cl needle 9999 log
       = search_stories_by_title P net cl needle 100 log"
    using e [of 9999] by simp
  have k: "get_stories_by_state P net cl st 0 log = get_stories_by_state P net cl st 1 log"
    using b [of 0] by simp
  have l: "get_stories_by_state P net cl st 9999 log = get_stories_by_state P net cl st 200 log"
    using b [of 9999] by simp
  have 1: "get_user_stories P net cl limit log = get_user_stories P net cl (min (max 1 limit)
      200) log
        \<and> get_stories_by_state P net cl st limit log
           = get_stories_by_state P net cl st (min (max 1 limit) 200) log
        \<and> get_test_cases P net cl limit log = get_test_cases P net cl (min (max 1 limit) 200) log
        \<and> get_test_cases_by_state P net cl st limit log
           = get_test_cases_by_state P net cl st (min (max 1 limit) 200) log
        \<and> search_stories_by_title P net cl needle limit log
           = search_stories_by_title P net cl needle (min (max 1 limit) 100) log
        \<and> search_test_cases_by_title P net cl needle limit log
           = search_test_cases_by_title P net cl needle (min (max 1 limit) 100) log
        \<and> 1 \<le> min (max 1 limit) 200 \<and> min (max 1 limit) 200 \<le> 200
        \<and> 1 \<le> min (max 1 limit) 100 \<and> min (max 1 limit) 100 \<le> 100
        \<and> get_user_stories P net cl 0 log = get_user_stories P net cl 1 log
        \<and> get_user_stories P net cl 9999 log = get_user_stories P net cl 200 log
        \<and> get_stories_by_state P net cl st 0 log = get_stories_by_state P net cl st 1 log
        \<and> get_stories_by_state P net cl st 9999 log = get_stories_by_state P net cl st 200 log
        \<and> search_stories_by_title P net cl needle 0 log
           = search_stories_by_title P net cl needle 1 log
        \<and> search_stories_by_title P net cl needle 9999 log
           = search_stories_by_title P net cl needle 100 log"
    using a [of limit] b [of limit] c d e [of limit] f g h i j k l by simp
  have 2: "(snd (get_user_stories P net cl limit log)
           = snd (get_work_items net cl ''User Story'' (min (max 1 limit) 200) log)
        \<and> snd (get_stories_by_state P net cl st limit log)
           = snd (get_work_items_by_state net cl st ''User Story'' (min (max 1 limit) 200) log)
        \<and> snd (get_test_cases P net cl limit log)
           = snd (get_work_items net cl ''Test Case'' (min (max 1 limit) 200) log)
        \<and> snd (get_test_cases_by_state P net cl st limit log)
           = snd (get_work_items_by_state net cl st ''Test Case'' (min (max 1 limit) 200) log)
        \<and> snd (search_stories_by_title P net cl needle limit log)
           = snd (search_work_items_by_title net cl needle ''User Story'' (min (max 1 limit)
               100) log)
        \<and> snd (search_test_cases_by_title P net cl needle limit log)
           = snd (search_work_items_by_title net cl needle ''Test Case'' (min (max 1 limit)
               100) log))"
    using get_user_stories_log [of P net cl limit log]
      get_stories_by_state_log [of P net cl st limit log]
      get_test_cases_log [of P net cl limit log]
      get_test_cases_by_state_log [of P net cl st limit log]
      search_stories_by_title_log [of P net cl needle limit log]
      search_test_cases_by_title_log [of P net cl needle limit log]
    by simp
  have r0: "(read_ids (net log (wiql_request cl (list_query cl ''User Story''))) = Inr ids \<and>
      ids \<noteq> [] \<longrightarrow>
          snd (get_user_stories P net cl limit log)
            = log @ [wiql_request cl (list_query cl ''User Story''),
                   details_request cl (join '','' (map py_str (take (nat (min (max 1 limit)
                       200)) ids)))]
          \<and> snd (get_user_stories P net cl 0 log)
            = log @ [wiql_request cl (list_query cl ''User Story''),
                   details_request cl (join '','' (map py_str (take 1 ids)))]
          \<and> snd (get_user_stories P net cl 9999 log)
            = log @ [wiql_request cl (list_query cl ''User Story''),
                   details_request cl (join '','' (map py_str (take 200 ids)))])"
    using get_user_stories_requests [of net log cl ids P limit]
      get_user_stories_requests [of net log cl ids P 0]
      get_user_stories_requests [of net log cl ids P 9999]
    by simp
  have r1: "(read_ids (net log (wiql_request cl (state_query cl st ''User Story''))) = Inr ids
      \<and> ids \<noteq> [] \<longrightarrow>
          snd (get_stories_by_state P net cl st limit log)
            = log @ [wiql_request cl (state_query cl st ''User Story''),
                   details_request cl (join '','' (map py_str (take (nat (min (max 1 limit)
                       200)) ids)))]
          \<and> snd (get_stories_by_state P net cl st 0 log)
            = log @ [wiql_request cl (state_query cl st ''User Story''),
                   details_request cl (join '','' (map py_str (take 1 ids)))]
          \<and> snd (get_stories_by_state P net cl st 9999 log)
            = log @ [wiql_request cl (state_query cl st ''User Story''),
                   details_request cl (join '','' (map py_str (take 200 ids)))])"
    using get_stories_by_state_requests [of net log cl st ids P limit]
      get_stories_by_state_requests [of net log cl st ids P 0]
      get_stories_by_state_requests [of net log cl st ids P 9999]
    by simp
  have r2: "(read_ids (net log (wiql_request cl (list_query cl ''Test Case''))) = Inr ids \<and> ids
      \<noteq> [] \<longrightarrow>
          snd (get_test_cases P net cl limit log)
            = log @ [wiql_request cl (list_query cl ''Test Case''),
                   details_request cl (join '','' (map py_str (take (nat (min (max 1 limit)
                       200)) ids)))]
          \<and> snd (get_test_cases P net cl 0 log)
            = log @ [wiql_request cl (list_query cl ''Test Case''),
                   details_request cl (join '','' (map py_str (take 1 ids)))]
          \<and> snd (get_test_cases P net cl 9999 log)
            = log @ [wiql_request cl (list_query cl ''Test Case''),
                   details_request cl (join '','' (map py_str (take 200 ids)))])"
    using get_test_cases_requests [of net log cl ids P limit]
      get_test_cases_requests [of net log cl ids P 0]
      get_test_cases_requests [of net log cl ids P 9999]
    by simp
  have r3: "(read_ids (net log (wiql_request cl (state_query cl st ''Test Case''))) = Inr ids \<and>
      ids \<noteq> [] \<longrightarrow>
          snd (get_test_cases_by_state P net cl st limit log)
            = log @ [wiql_request cl (state_query cl st ''Test Case''),
                   details_request cl (join '','' (map py_str (take (nat (min (max 1 limit)
                       200)) ids)))]
          \<and> snd (get_test_cases_by_state P net cl st 0 log)
            = log @ [wiql_request cl (state_query cl st ''Test Case''),
                   details_request cl (join '','' (map py_str (take 1 ids)))]
          \<and> snd (get_test_cases_by_state P net cl st 9999 log)
            = log @ [wiql_request cl (state_query cl st ''Test Case''),
                   details_request cl (join '','' (map py_str (take 200 ids)))])"
    using get_test_cases_by_state_requests [of net log cl st ids P limit]
      get_test_cases_by_state_requests [of net log cl st ids P 0]
      get_test_cases_by_state_requests [of net log cl st ids P 9999]
    by simp
  have r4: "(read_ids (net log (wiql_request cl (title_query cl needle ''User Story''))) = Inr
      ids \<and> ids \<noteq> [] \<longrightarrow>
          snd (search_stories_by_title P net cl needle limit log)
            = log @ [wiql_request cl (title_query cl needle ''User Story''),
                   details_request cl (join '','' (map py_str (take (nat (min (max 1 limit)
                       100)) ids)))]
          \<and> snd (search_stories_by_title P net cl needle 0 log)
            = log @ [wiql_request cl (title_query cl needle ''User Story''),
                   details_request cl (join '','' (map py_str (take 1 ids)))]
          \<and> snd (search_stories_by_title P net cl needle 9999 log)
            = log @ [wiql_request cl (title_query cl needle ''User Story''),
                   details_request cl (join '','' (map py_str (take 100 ids)))])"
    using search_stories_by_title_requests [of net log cl needle ids P limit]
      search_stories_by_title_requests [of net log cl needle ids P 0]
      search_stories_by_title_requests [of net log cl needle ids P 9999]
    by simp
  have r5: "(read_ids (net log (wiql_request cl (title_query cl needle ''Test Case''))) = Inr
      ids \<and> ids \<noteq> [] \<longrightarrow>
          snd (search_test_cases_by_title P net cl needle limit log)
            = log @ [wiql_request cl (title_query cl needle ''Test Case''),
                   details_request cl (join '','' (map py_str (take (nat (min (max 1 limit)
                       100)) ids)))]
          \<and> snd (search_test_cases_by_title P net cl needle 0 log)
            = log @ [wiql_request cl (title_query cl needle ''Test Case''),
                   details_request cl (join '','' (map py_str (take 1 ids)))]
          \<and> snd (search_test_cases_by_title P net cl needle 9999 log)
            = log @ [wiql_request cl (title_query cl needle ''Test Case''),
                   details_request cl (join '','' (map py_str (take 100 ids)))])"
    using search_test_cases_by_title_requests [of net log cl needle ids P limit]
      search_test_cases_by_title_requests [of net log cl needle ids P 0]
      search_test_cases_by_title_requests [of net log cl needle ids P 9999]
    by simp
  have 3: "((read_ids (net log (wiql_request cl (list_query cl ''User Story''))) = Inr ids \<and>
      ids \<noteq> [] \<longrightarrow>
          snd (get_user_stories P net cl limit log)
            = log @ [wiql_request cl (list_query cl ''User Story''),
                   details_request cl (join '','' (map py_str (take (nat (min (max 1 limit)
                       200)) ids)))]
          \<and> snd (get_user_stories P net cl 0 log)
            = log @ [wiql_request cl (list_query cl ''User Story''),
                   details_request cl (join '','' (map py_str (take 1 ids)))]
          \<and> snd (get_user_stories P net cl 9999 log)
            = log @ [wiql_request cl (list_query cl ''User Story''),
                   details_request cl (join '','' (map py_str (take 200 ids)))])
        \<and> (read_ids (net log (wiql_request cl (state_query cl st ''User Story''))) = Inr ids \<and>
            ids \<noteq> [] \<longrightarrow>
          snd (get_stories_by_state P net cl st limit log)
            = log @ [wiql_request cl (state_query cl st ''User Story''),
                   details_request cl (join '','' (map py_str (take (nat (min (max 1 limit)
                       200)) ids)))]
          \<and> snd (get_stories_by_state P net cl st 0 log)
            = log @ [wiql_request cl (state_query cl st ''User Story''),
                   details_request cl (join '','' (map py_str (take 1 ids)))]
          \<and> snd (get_stories_by_state P net cl st 9999 log)
            = log @ [wiql_request cl (state_query cl st ''User Story''),
                   details_request cl (join '','' (map py_str (take 200 ids)))])
        \<and> (read_ids (net log (wiql_request cl (list_query cl ''Test Case''))) = Inr ids \<and> ids \<noteq> [] \<longrightarrow>
          snd (get_test_cases P net cl limit log)
            = log @ [wiql_request cl (list_query cl ''Test Case''),
                   details_request cl (join '','' (map py_str (take (nat (min (max 1 limit)
                       200)) ids)))]
          \<and> snd (get_test_cases P net cl 0 log)
            = log @ [wiql_request cl (list_query cl ''Test Case''),
                   details_request cl (join '','' (map py_str (take 1 ids)))]
          \<and> snd (get_test_cases P net cl 9999 log)
            = log @ [wiql_request cl (list_query cl ''Test Case''),
                   details_request cl (join '','' (map py_str (take 200 ids)))])
        \<and> (read_ids (net log (wiql_request cl (state_query cl st ''Test Case''))) = Inr ids \<and>
            ids \<noteq> [] \<longrightarrow>
          snd (get_test_cases_by_state P net cl st limit log)
            = log @ [wiql_request cl (state_query cl st ''Test Case''),
                   details_request cl (join '','' (map py_str (take (nat (min (max 1 limit)
                       200)) ids)))]
          \<and> snd (get_test_cases_by_state P net cl st 0 log)
            = log @ [wiql_request cl (state_query cl st ''Test Case''),
                   details_request cl (join '','' (map py_str (take 1 ids)))]
          \<and> snd (get_test_cases_by_state P net cl st 9999 log)
            = log @ [wiql_request cl (state_query cl st ''Test Case''),
                   details_request cl (join '','' (map py_str (take 200 ids)))])
        \<and> (read_ids (net log (wiql_request cl (title_query cl needle ''User Story''))) = Inr
            ids \<and> ids \<noteq> [] \<longrightarrow>
          snd (search_stories_by_title P net cl needle limit log)
            = log @ [wiql_request cl (title_query cl needle ''User Story''),
                   details_request cl (join '','' (map py_str (take (nat (min (max 1 limit)
                       100)) ids)))]
          \<and> snd (search_stories_by_title P net cl needle 0 log)
            = log @ [wiql_request cl (title_query cl needle ''User Story''),
                   details_request cl (join '','' (map py_str (take 1 ids)))]
          \<and> snd (search_stories_by_title P net cl needle 9999 log)
            = log @ [wiql_request cl (title_query cl needle ''User Story''),
                   details_request cl (join '','' (map py_str (take 100 ids)))])
        \<and> (read_ids (net log (wiql_request cl (title_query cl needle ''Test Case''))) = Inr ids
            \<and> ids \<noteq> [] \<longrightarrow>
          snd (search_test_cases_by_title P net cl needle limit log)
            = log @ [wiql_request cl (title_query cl needle ''Test Case''),
                   details_request cl (join '','' (map py_str (take (nat (min (max 1 limit)
                       100)) ids)))]
          \<and> snd (search_test_cases_by_title P net cl needle 0 log)
            = log @ [wiql_request cl (title_query cl needle ''Test Case''),
                   details_request cl (join '','' (map py_str (take 1 ids)))]
          \<and> snd (search_test_cases_by_title P net cl needle 9999 log)
            = log @ [wiql_request cl (title_query cl needle ''Test Case''),
                   details_request cl (join '','' (map py_str (take 100 ids)))]))"
    using r0 r1 r2 r3 r4 r5 by (intro conjI)
  show ?thesis
    using 1 2 3 by (rule conjI [OF _ conjI])
qed

theorem limit_clamped_witness:
  "snd (get_user_stories P0 (net_list [story1]) cl0 0 [])
     = [wiql_request cl0 (list_query cl0 ''User Story''), details_request cl0 ''101'']
   \<and> snd (get_user_stories P0 (net_list [story1]) cl0 2 [])
     = [wiql_request cl0 (list_query cl0 ''User Story''), details_request cl0 ''101,102'']
   \<and> snd (search_stories_by_title P0 (net_list [story1]) cl0 ''Login'' 9999 [])
     = [wiql_request cl0 (title_query cl0 ''Login'' ''User Story''),
        details_request cl0 ''101,102,103'']"
  using limit_clamped [where P = P0 and net = "net_list [story1]" and cl = cl0
      and limit = 2 and log = "[]" and needle = "''Login''"
      and ids = "[PyInt 101, PyInt 102, PyInt 103]",
      THEN conjunct2, THEN conjunct2]
    net_list_ids [of "[story1]"]
  by (simp add: py_str_def str_int_def str_nat.simps digit_def)

subsection \<open>Update handlers\<close>

lemma update_story_not_found:
  assumes "fst (get_work_item_by_id net cl wid log) = Inr PyNone"
  shows "update_story P net cl wid a b c d e f g h i log
     = (Inr (''User story with ID '' @ str_int wid @ '' not found''),
        log @ [get_item_request cl wid])"
  using get_work_item_by_id_pair [OF assms] by (simp add: update_story_def try_except_def)

lemma update_story_wrong_type:
  assumes "fst (get_work_item_by_id net cl wid log) = Inr item" and "item \<noteq> PyNone"
    and "type_tag item = Inr t" and "t \<noteq> PyStr ''User Story''"
  shows "update_story P net cl wid a b c d e f g h i log
     = (Inr (''Work item '' @ str_int wid @ '' is not a user story (it'' @ [squote]
             @ ''s a '' @ py_str t @ '')''),
        log @ [get_item_request cl wid])"
  using get_work_item_by_id_pair [OF assms(1)] assms(2-4)
  by (simp add: update_story_def try_except_def)

lemma update_story_no_fields:
  assumes "fst (get_work_item_by_id net cl wid log) = Inr item" and "item \<noteq> PyNone"
    and "type_tag item = Inr (PyStr ''User Story'')"
  shows "update_story P net cl wid None None None None None None None None None log
     = (Inr ''No fields provided for update. Please specify at least one field to update.'',
        log @ [get_item_request cl wid])"
  using get_work_item_by_id_pair [OF assms(1)] assms(2-3)
  by (simp add: update_story_def try_except_def update_story_mapping_def set_present_def
      opt_str_def opt_int_def)

lemma update_test_case_not_found:
  assumes "fst (get_work_item_by_id net cl wid log) = Inr PyNone"
  shows "update_test_case P net cl wid a b c d e f g h i j log
     = (Inr (''Test case with ID '' @ str_int wid @ '' not found''),
        log @ [get_item_request cl wid])"
  using get_work_item_by_id_pair [OF assms] by (simp add: update_test_case_def try_except_def)

lemma update_test_case_wrong_type:
  assumes "fst (get_work_item_by_id net cl wid log) = Inr item" and "item \<noteq> PyNone"
    and "type_tag item = Inr t" and "t \<noteq> PyStr ''Test Case''"
  shows "update_test_case P net cl wid a b c d e f g h i j log
     = (Inr (''Work item '' @ str_int wid @ '' is not a test case (it'' @ [squote]
             @ ''s a '' @ py_str t @ '')''),
        log @ [get_item_request cl wid])"
  using get_work_item_by_id_pair [OF assms(1)] assms(2-4)
  by (simp add: update_test_case_def try_except_def)

lemma update_test_case_no_fields:
  assumes "fst (get_work_item_by_id net cl wid log) = Inr item" and "item \<noteq> PyNone"
    and "type_tag item = Inr (PyStr ''Test Case'')"
  shows "update_test_case P net cl wid None None None None None None None None None None log
     = (Inr ''No fields provided for update. Please specify at least one field to update.'',
        log @ [get_item_request cl wid])"
  using get_work_item_by_id_pair [OF assms(1)] assms(2-3)
  by (simp add: update_test_case_def try_except_def update_test_case_mapping_def set_present_def
      opt_str_def opt_int_def)

lemma snd_update_work_item:
  "snd (update_work_item net cl wid updates log) = log @ [update_request cl wid updates]"
  by (simp add: update_work_item_def send_def finish_def split: sum.splits)

lemma fetch_item:
  "fst (get_work_item_by_id (net_item v) cl0 7 []) = Inr v"
  by (simp add: get_work_item_by_id_def send_def net_item_def ok_response_def ebnd_def
      raise_for_status_def response_json_def)

lemma tag_story1: "type_tag story1 = Inr (PyStr ''User Story'')"
  by (simp add: type_tag_def story1_def py_get_def lookup_or_def bnd_def)

lemma tag_case1: "type_tag case1 = Inr (PyStr ''Test Case'')"
  by (simp add: type_tag_def case1_def py_get_def lookup_or_def bnd_def)

text \<open>
  C5. An update handler fetches the record first. When the fetch returns \<open>None\<close>, the
  handler returns its not-found message, and when the type-tag read from the fetched
  record differs from the kind the handler expects (\<open>User Story\<close> for \<open>update_story\<close>,
  \<open>Test Case\<close> for \<open>update_test_case\<close>), it returns its wrong-type message; in both cases
  the only request sent is the GET of the fetch, whereas a call of the transport
  update operation always sends a PATCH request.
\<close>

theorem update_guarded_by_fetch:
  "(fst (get_work_item_by_id net cl wid log) = Inr PyNone \<longrightarrow>
      update_story P net cl wid a b c d e f g h i log
        = (Inr (''User story with ID '' @ str_int wid @ '' not found''),
           log @ [get_item_request cl wid])
    \<and> update_test_case P net cl wid a b c d s e k g h i log
        = (Inr (''Test case with ID '' @ str_int wid @ '' not found''),
           log @ [get_item_request cl wid]))
   \<and> (fst (get_work_item_by_id net cl wid log) = Inr item \<and> item \<noteq> PyNone
        \<and> type_tag item = Inr t \<and> t \<noteq> PyStr ''User Story'' \<longrightarrow>
      update_story P net cl wid a b c d e f g h i log
        = (Inr (''Work item '' @ str_int wid @ '' is not a user story (it'' @ [squote]
                @ ''s a '' @ py_str t @ '')''),
           log @ [get_item_request cl wid]))
   \<and> (fst (get_work_item_by_id net cl wid log) = Inr item \<and> item \<noteq> PyNone
        \<and> type_tag item = Inr t \<and> t \<noteq> PyStr ''Test Case'' \<longrightarrow>
      update_test_case P net cl wid a b c d s e k g h i log
        = (Inr (''Work item '' @ str_int wid @ '' is not a test case (it'' @ [squote]
                @ ''s a '' @ py_str t @ '')''),
           log @ [get_item_request cl wid]))
   \<and> verb (get_item_request cl wid) = GET
   \<and> snd (update_work_item net cl wid updates log1) = log1 @ [update_request cl wid updates]
   \<and> verb (update_request cl wid updates) = PATCH"
  using update_story_not_found [of net cl wid log P a b c d e f g h i]
    update_test_case_not_found [of net cl wid log P a b c d s e k g h i]
    update_story_wrong_type [of net cl wid log item t P a b c d e f g h i]
    update_test_case_wrong_type [of net cl wid log item t P a b c d s e k g h i]
    snd_update_work_item [of net cl wid updates log1]
  by (simp add: get_item_request_def update_request_def)

theorem update_guarded_by_fetch_witness:
  "update_story P0 net_404 cl0 7 (Some ''Renamed'') None None None None None None None None []
     = (Inr ''User story with ID 7 not found'', [get_item_request cl0 7])
   \<and> update_test_case P0 (net_item story1) cl0 7 (Some ''Renamed'') None None None None None
       None None None None []
     = (Inr (''Work item 7 is not a test case (it'' @ [squote] @ ''s a User Story)''),
        [get_item_request cl0 7])"
proof -
  have n: "fst (get_work_item_by_id net_404 cl0 7 []) = Inr PyNone"
    by (simp add: get_work_item_by_id_def send_def net_404_def ebnd_def)
  have s: "story1 \<noteq> PyNone"
    by (simp add: story1_def)
  show ?thesis
    using update_guarded_by_fetch [where net = net_404 and cl = cl0 and wid = 7 and log = "[]"
        and P = P0 and a = "Some ''Renamed''" and b = None and c = None and d = None
        and e = None and f = None and g = None and h = None and i = None]
      update_guarded_by_fetch [where net = "net_item story1" and cl = cl0 and wid = 7
        and log = "[]" and item = story1 and t = "PyStr ''User Story''"
        and P = P0 and a = "Some ''Renamed''" and b = None and c = None and d = None
        and s = None and e = None and k = None and g = None and h = None and i = None]
      n fetch_item [of story1] tag_story1 s
    by (simp add: py_str_def str_int_def str_nat.simps digit_def)
qed

text \<open>
  C10. When every optional parameter of an update handler is absent and the record
  exists with the expected type-tag, the handler returns the message that no fields
  were provided, and the only request sent is the GET of the fetch: the transport
  update operation is not called.
\<close>

theorem update_without_fields:
  "(fst (get_work_item_by_id net cl wid log) = Inr item \<and> item \<noteq> PyNone
      \<and> type_tag item = Inr (PyStr ''User Story'') \<longrightarrow>
    update_story P net cl wid None None None None None None None None None log
      = (Inr ''No fields provided for update. Please specify at least one field to update.'',
         log @ [get_item_request cl wid]))
   \<and> (fst (get_work_item_by_id net cl wid log) = Inr item \<and> item \<noteq> PyNone
      \<and> type_tag item = Inr (PyStr ''Test Case'') \<longrightarrow>
    update_test_case P net cl wid None None None None None None None None None None log
      = (Inr ''No fields provided for update. Please specify at least one field to update.'',
         log @ [get_item_request cl wid]))
   \<and> verb (get_item_request cl wid) = GET"
  using update_story_no_fields [of net cl wid log item P]
    update_test_case_no_fields [of net cl wid log item P]
  by (simp add: get_item_request_def)

theorem update_without_fields_witness:
  "update_story P0 (net_item story1) cl0 7 None None None None None None None None None []
     = (Inr ''No fields provided for update. Please specify at least one field to update.'',
        [get_item_request cl0 7])
   \<and> update_test_case P0 (net_item case1) cl0 7 None None None None None None None None None
       None []
     = (Inr ''No fields provided for update. Please specify at least one field to update.'',
        [get_item_request cl0 7])"
proof -
  have c: "case1 \<noteq> PyNone" and s: "story1 \<noteq> PyNone"
    by (simp_all add: case1_def story1_def)
  show ?thesis
    using update_without_fields [where net = "net_item story1" and cl = cl0 and wid = 7
        and log = "[]" and item = story1 and P = P0]
      update_without_fields [where net = "net_item case1" and cl = cl0 and wid = 7
        and log = "[]" and item = case1 and P = P0]
      fetch_item [of case1] fetch_item [of story1] tag_story1 tag_case1 c s
    by simp
qed

subsection \<open>Detail handlers\<close>

lemma parse_case1_as_work_item:
  "parse_work_item P0 case1 =
     Inr \<lparr> id' = 7, title = ''Login works'', work_item_type = ''Test Case'',
           state = ''Design'', assigned_to = None, area_path = [], iteration_path = [],
           description = None, created_date = [], changed_date = [], tags = None \<rparr>"
  by (simp add: parse_work_item_def case1_def bnd_def py_get_def lookup_or_def py_getitem_def
      extract_assigned_to_def py_in_def WorkItem_init_def WorkItem_fields_def
      validate_int_def validate_str_def validate_opt_str_def)

lemma story_details_any_type:
  assumes "fst (get_work_item_by_id net cl wid log) = Inr item" and "item \<noteq> PyNone"
    and "parse_work_item P item = Inr w"
  shows "get_story_details P net cl wid log
     = (Inr (''Story Details:'' @ [newline] @ py_str (WorkItem_dict w)),
        log @ [get_item_request cl wid])"
  using get_work_item_by_id_pair [OF assms(1)] assms(2-3)
  by (simp add: get_story_details_def try_except_def bnd_def)

lemma test_case_details_wrong_type:
  assumes "fst (get_work_item_by_id net cl wid log) = Inr item" and "item \<noteq> PyNone"
    and "type_tag item = Inr t" and "t \<noteq> PyStr ''Test Case''"
  shows "get_test_case_details P net cl wid log
     = (Inr (''Work item '' @ str_int wid @ '' is not a test case (it'' @ [squote]
             @ ''s a '' @ py_str t @ '')''),
        log @ [get_item_request cl wid])"
  using get_work_item_by_id_pair [OF assms(1)] assms(2-4)
  by (simp add: get_test_case_details_def try_except_def bnd_def)

text \<open>
  C9. \<open>get_story_details\<close> does not look at the type-tag: for a fetched record of any
  type-tag that parses it returns the rendered detail view. \<open>get_test_case_details\<close>
  returns its wrong-type message when the type-tag is not \<open>Test Case\<close>.
\<close>

theorem story_details_skip_type_check:
  "(fst (get_work_item_by_id net cl wid log) = Inr item \<and> item \<noteq> PyNone
      \<and> parse_work_item P item = Inr w \<longrightarrow>
    fst (get_story_details P net cl wid log)
      = Inr (''Story Details:'' @ [newline] @ py_str (WorkItem_dict w)))
   \<and> (fst (get_work_item_by_id net cl wid log) = Inr item \<and> item \<noteq> PyNone
      \<and> type_tag item = Inr t \<and> t \<noteq> PyStr ''Test Case'' \<longrightarrow>
    fst (get_test_case_details P net cl wid log)
      = Inr (''Work item '' @ str_int wid @ '' is not a test case (it'' @ [squote]
             @ ''s a '' @ py_str t @ '')''))"
  using story_details_any_type [of net cl wid log item P w]
    test_case_details_wrong_type [of net cl wid log item t P]
  by simp

theorem story_details_skip_type_check_witness:
  "fst (get_story_details P0 (net_item case1) cl0 7 [])
     = Inr (''Story Details:'' @ [newline] @ py_str (WorkItem_dict
         \<lparr> id' = 7, title = ''Login works'', work_item_type = ''Test Case'',
           state = ''Design'', assigned_to = None, area_path = [], iteration_path = [],
           description = None, created_date = [], changed_date = [], tags = None \<rparr>))
   \<and> fst (get_test_case_details P0 (net_item story1) cl0 7 [])
     = Inr (''Work item 7 is not a test case (it'' @ [squote] @ ''s a User Story)'')"
proof -
  have c: "case1 \<noteq> PyNone" and s: "story1 \<noteq> PyNone"
    by (simp_all add: case1_def story1_def)
  show ?thesis
    using story_details_skip_type_check [where net = "net_item case1" and cl = cl0 and wid = 7
        and log = "[]" and item = case1 and P = P0
        and w = "\<lparr> id' = 7, title = ''Login works'', work_item_type = ''Test Case'',
           state = ''Design'', assigned_to = None, area_path = [], iteration_path = [],
           description = None, created_date = [], changed_date = [], tags = None \<rparr>"]
      story_details_skip_type_check [where net = "net_item story1" and cl = cl0 and wid = 7
        and log = "[]" and item = story1 and P = P0 and t = "PyStr ''User Story''"]
      fetch_item [of case1] fetch_item [of story1] parse_case1_as_work_item tag_story1 c s
    by (simp add: py_str_def str_int_def str_nat.simps digit_def)
qed

subsection \<open>Batches\<close>

lemma foldl_parse_step:
  "foldl (\<lambda>acc item_data.
            case parse item_data of Inl e \<Rightarrow> acc | Inr item \<Rightarrow> acc @ [to_dict item])
     acc items = acc @ map to_dict (parsed_ok parse items)"
proof (induction items arbitrary: acc)
  case Nil
  then show ?case by simp
next
  case (Cons x xs)
  show ?case
  proof (cases "parse x")
    case (Inl e)
    then show ?thesis using Cons.IH [where acc = acc] by simp
  next
    case (Inr item)
    then show ?thesis using Cons.IH [where acc = "acc @ [to_dict item]"] by simp
  qed
qed

lemma parse_each_parsed_ok:
  "parse_each parse to_dict items = map to_dict (parsed_ok parse items)"
  unfolding parse_each_def
  using foldl_parse_step [where parse = parse and to_dict = to_dict and acc = "[]"
      and items = items]
  by simp

lemma parsed_ok_filter:
  "map Inr (parsed_ok parse items) = filter (\<lambda>r. \<not> isl r) (map parse items)"
  by (induction items) (auto split: sum.splits)

lemma parsed_ok_length:
  "length (parsed_ok parse items) = length (filter (\<lambda>x. \<not> isl (parse x)) items)"
  by (induction items) (auto split: sum.splits)

lemma get_user_stories_batch:
  assumes "get_work_items net cl ''User Story'' (min (max 1 limit) 200) log = (Inr data, log1)"
    and "py_iter data = Inr items"
  shows "get_user_stories P net cl limit log =
     (Inr (''Retrieved '' @ str_int (int (length (parsed_ok (parse_work_item P) items))) @
         '' user stories:'' @ [newline]
           @ py_str (PyList (map WorkItem_dict (parsed_ok (parse_work_item P) items)))), log1)"
  using assms
  by (simp add: get_user_stories_def try_except_def bnd_def parse_each_parsed_ok Let_def)

lemma search_stories_by_title_batch:
  assumes "search_work_items_by_title net cl needle ''User Story'' (min (max 1 limit) 100) log
      = (Inr data, log1)"
    and "py_iter data = Inr items"
  shows "search_stories_by_title P net cl needle limit log =
     (Inr (''Found '' @ str_int (int (length (parsed_ok (parse_work_item P) items))) @
         '' stories matching '' @ quoted needle @ '':'' @ [newline]
           @ py_str (PyList (map WorkItem_dict (parsed_ok (parse_work_item P) items)))), log1)"
  using assms
  by (simp add: search_stories_by_title_def try_except_def bnd_def parse_each_parsed_ok Let_def)

lemma get_stories_by_state_batch:
  assumes "get_work_items_by_state net cl st ''User Story'' (min (max 1 limit) 200) log = (Inr
      data, log1)"
    and "py_iter data = Inr items"
  shows "get_stories_by_state P net cl st limit log =
     (Inr (''Found '' @ str_int (int (length (parsed_ok (parse_work_item P) items))) @
         '' stories in state '' @ quoted st @ '':'' @ [newline]
           @ py_str (PyList (map WorkItem_dict (parsed_ok (parse_work_item P) items)))), log1)"
  using assms
  by (simp add: get_stories_by_state_def try_except_def bnd_def parse_each_parsed_ok Let_def)

lemma get_test_cases_batch:
  assumes "get_work_items net cl ''Test Case'' (min (max 1 limit) 200) log = (Inr data, log1)"
    and "py_iter data = Inr items"
  shows "get_test_cases P net cl limit log =
     (Inr (''Retrieved '' @ str_int (int (length (parsed_ok (parse_test_case P) items))) @
         '' test cases:'' @ [newline]
           @ py_str (PyList (map TestCase_dict (parsed_ok (parse_test_case P) items)))), log1)"
  using assms
  by (simp add: get_test_cases_def try_except_def bnd_def parse_each_parsed_ok Let_def)

lemma search_test_cases_by_title_batch:
  assumes "search_work_items_by_title net cl needle ''Test Case'' (min (max 1 limit) 100) log =
      (Inr data, log1)"
    and "py_iter data = Inr items"
  shows "search_test_cases_by_title P net cl needle limit log =
     (Inr (''Found '' @ str_int (int (length (parsed_ok (parse_test_case P) items))) @
         '' test cases matching '' @ quoted needle @ '':'' @ [newline]
           @ py_str (PyList (map TestCase_dict (parsed_ok (parse_test_case P) items)))), log1)"
  using assms
  by (simp add: search_test_cases_by_title_def try_except_def bnd_def parse_each_parsed_ok Let_def)

lemma get_test_cases_by_state_batch:
  assumes "get_work_items_by_state net cl st ''Test Case'' (min (max 1 limit) 200) log = (Inr
      data, log1)"
    and "py_iter data = Inr items"
  shows "get_test_cases_by_state P net cl st limit log =
     (Inr (''Found '' @ str_int (int (length (parsed_ok (parse_test_case P) items))) @
         '' test cases in state '' @ quoted st @ '':'' @ [newline]
           @ py_str (PyList (map TestCase_dict (parsed_ok (parse_test_case P) items)))), log1)"
  using assms
  by (simp add: get_test_cases_by_state_def try_except_def bnd_def parse_each_parsed_ok Let_def)

lemma parse_story1:
  "parse_work_item P0 story1 =
     Inr \<lparr> id' = 101, title = ''Login flow'', work_item_type = ''User Story'',
           state = ''Active'', assigned_to = Some ''Alice'', area_path = [],
           iteration_path = [], description = None, created_date = [], changed_date = [],
           tags = None \<rparr>"
  by (simp add: parse_work_item_def story1_def bnd_def py_get_def lookup_or_def py_getitem_def
      extract_assigned_to_def py_in_def WorkItem_init_def WorkItem_fields_def
      validate_int_def validate_str_def validate_opt_str_def)

lemma parse_no_id: "parse_work_item P0 no_id = Inl (KeyError ''id'')"
  by (simp add: parse_work_item_def no_id_def bnd_def py_get_def lookup_or_def py_getitem_def
      extract_assigned_to_def py_in_def)

lemma parse_null_fields:
  "parse_work_item P0 null_fields
     = Inl (TypeError (''argument of type '' @ quoted ''NoneType'' @ '' is not iterable''))"
  by (simp add: parse_work_item_def null_fields_def bnd_def py_get_def lookup_or_def
      extract_assigned_to_def py_in_def type_name_def)

lemma get_work_items_net_list:
  "get_work_items (net_list records) cl0 ''User Story'' 50 []
     = (Inr (PyList records),
        [wiql_request cl0 (list_query cl0 ''User Story''),
         details_request cl0 ''101,102,103''])"
  by (simp add: get_work_items_def finish_def run_query_def read_ids_def send_def net_list_def
      ok_response_def ebnd_def raise_for_status_def response_json_def lift_def py_get_def
          lookup_or_def
      py_iter_def py_getitem_def bnd_def wiql_request_def details_request_def slice_to_def
      py_str_def str_int_def str_nat.simps digit_def Let_def)

text \<open>
  C7. In the list, search and filter handlers a record whose parsing raises is skipped
  and the batch goes on: the text returned counts and lists exactly the records that
  parse, in their original order.
\<close>

theorem batch_skips_unparseable:
  "(get_work_items net cl ''User Story'' (min (max 1 limit) 200) log = (Inr data, log1)
      \<and> py_iter data = Inr items \<longrightarrow>
    get_user_stories P net cl limit log =
     (Inr (''Retrieved '' @ str_int (int (length (parsed_ok (parse_work_item P) items))) @
         '' user stories:'' @ [newline]
           @ py_str (PyList (map WorkItem_dict (parsed_ok (parse_work_item P) items)))), log1))
   \<and> (search_work_items_by_title net cl needle ''User Story'' (min (max 1 limit) 100) log =
       (Inr data, log1)
      \<and> py_iter data = Inr items \<longrightarrow>
    search_stories_by_title P net cl needle limit log =
     (Inr (''Found '' @ str_int (int (length (parsed_ok (parse_work_item P) items))) @
         '' stories matching '' @ quoted needle @ '':'' @ [newline]
           @ py_str (PyList (map WorkItem_dict (parsed_ok (parse_work_item P) items)))), log1))
   \<and> (get_work_items_by_state net cl st ''User Story'' (min (max 1 limit) 200) log = (Inr data,
       log1)
      \<and> py_iter data = Inr items \<longrightarrow>
    get_stories_by_state P net cl st limit log =
     (Inr (''Found '' @ str_int (int (length (parsed_ok (parse_work_item P) items))) @
         '' stories in state '' @ quoted st @ '':'' @ [newline]
           @ py_str (PyList (map WorkItem_dict (parsed_ok (parse_work_item P) items)))), log1))
   \<and> (get_work_items net cl ''Test Case'' (min (max 1 limit) 200) log = (Inr data, log1)
      \<and> py_iter data = Inr items \<longrightarrow>
    get_test_cases P net cl limit log =
     (Inr (''Retrieved '' @ str_int (int (length (parsed_ok (parse_test_case P) items))) @
         '' test cases:'' @ [newline]
           @ py_str (PyList (map TestCase_dict (parsed_ok (parse_test_case P) items)))), log1))
   \<and> (search_work_items_by_title net cl needle ''Test Case'' (min (max 1 limit) 100) log = (Inr
       data, log1)
      \<and> py_iter data = Inr items \<longrightarrow>
    search_test_cases_by_title P net cl needle limit log =
     (Inr (''Found '' @ str_int (int (length (parsed_ok (parse_test_case P) items))) @
         '' test cases matching '' @ quoted needle @ '':'' @ [newline]
           @ py_str (PyList (map TestCase_dict (parsed_ok (parse_test_case P) items)))), log1))
   \<and> (get_work_items_by_state net cl st ''Test Case'' (min (max 1 limit) 200) log = (Inr data, log1)
      \<and> py_iter data = Inr items \<longrightarrow>
    get_test_cases_by_state P net cl st limit log =
     (Inr (''Found '' @ str_int (int (length (parsed_ok (parse_test_case P) items))) @
         '' test cases in state '' @ quoted st @ '':'' @ [newline]
           @ py_str (PyList (map TestCase_dict (parsed_ok (parse_test_case P) items)))), log1))
   \<and> map Inr (parsed_ok (parse_work_item P) items)
       = filter (\<lambda>r. \<not> isl r) (map (parse_work_item P) items)
   \<and> map Inr (parsed_ok (parse_test_case P) items)
       = filter (\<lambda>r. \<not> isl r) (map (parse_test_case P) items)
   \<and> length (parsed_ok (parse_work_item P) items)
       = length (filter (\<lambda>x. \<not> isl (parse_work_item P x)) items)
   \<and> length (parsed_ok (parse_test_case P) items)
       = length (filter (\<lambda>x. \<not> isl (parse_test_case P x)) items)"
  using get_user_stories_batch [of net cl limit log data log1 items P]
    search_stories_by_title_batch [of net cl needle limit log data log1 items P]
    get_stories_by_state_batch [of net cl st limit log data log1 items P]
    get_test_cases_batch [of net cl limit log data log1 items P]
    search_test_cases_by_title_batch [of net cl needle limit log data log1 items P]
    get_test_cases_by_state_batch [of net cl st limit log data log1 items P]
    parsed_ok_filter [of "parse_work_item P" items] parsed_ok_filter [of "parse_test_case P" items]
    parsed_ok_length [of "parse_work_item P" items] parsed_ok_length [of "parse_test_case P" items]
  by simp

theorem batch_skips_unparseable_witness:
  "get_user_stories P0 (net_list [story1, no_id, null_fields]) cl0 50 [] =
     (Inr (''Retrieved 1 user stories:'' @ [newline]
           @ py_str (PyList [WorkItem_dict
               \<lparr> id' = 101, title = ''Login flow'', work_item_type = ''User Story'',
                 state = ''Active'', assigned_to = Some ''Alice'', area_path = [],
                 iteration_path = [], description = None, created_date = [],
                 changed_date = [], tags = None \<rparr>])),
      [wiql_request cl0 (list_query cl0 ''User Story''),
       details_request cl0 ''101,102,103''])"
  using batch_skips_unparseable [where net = "net_list [story1, no_id, null_fields]"
      and cl = cl0 and limit = 50 and log = "[]"
      and data = "PyList [story1, no_id, null_fields]"
      and ?log1.0 = "[wiql_request cl0 (list_query cl0 ''User Story''),
                     details_request cl0 ''101,102,103'']"
      and items = "[story1, no_id, null_fields]" and P = P0]
    get_work_items_net_list [of "[story1, no_id, null_fields]"]
    parse_story1 parse_no_id parse_null_fields
  by (simp add: py_iter_def str_int_def str_nat.simps digit_def)

subsection \<open>Create handlers\<close>

lemma keys_dict_set: "fst ` set (dict_set d k v) = insert k (fst ` set d)"
proof (induction d)
  case Nil
  show ?case by simp
next
  case (Cons kv d)
  obtain k' v' where kv: "kv = (k', v')" by (cases kv)
  show ?case
  proof (cases "k' = k")
    case True
    then show ?thesis using kv by simp
  next
    case False
    then show ?thesis using kv Cons.IH by (simp add: insert_commute)
  qed
qed

lemma dict_set_new_key: "k \<notin> fst ` set d \<Longrightarrow> dict_set d k v = d @ [(k, v)]"
  by (induction d) auto

lemma keys_set_present: "fst ` set (set_present d kv) \<subseteq> insert (fst kv) (fst ` set d)"
  by (auto simp: set_present_def keys_dict_set)

lemma keys_foldl_set_present:
  "fst ` set (foldl set_present d kvs) \<subseteq> fst ` set d \<union> fst ` set kvs"
proof (induction kvs arbitrary: d)
  case Nil
  then show ?case by simp
next
  case (Cons kv kvs)
  have "fst ` set (foldl set_present (set_present d kv) kvs)
      \<subseteq> fst ` set (set_present d kv) \<union> fst ` set kvs"
    using Cons.IH [where d = "set_present d kv"] .
  then show ?case using keys_set_present [of d kv] by auto
qed

lemma user_story_caller_keys:
  "''System.State'' \<notin> fst ` set (create_user_story_caller_fields d p sp a ar it tg)"
  unfolding create_user_story_caller_fields_def
  using keys_foldl_set_present [where d = "[]" and kvs = "[(''System.Description'', opt_str d),
        (''Microsoft.VSTS.Common.Priority'', opt_int p),
        (''Microsoft.VSTS.Scheduling.StoryPoints'', opt_int sp),
        (''System.AssignedTo'', opt_str a),
        (''System.AreaPath'', opt_str ar),
        (''System.IterationPath'', opt_str it),
        (''System.Tags'', opt_str tg)]"]
  by auto

lemma test_case_caller_keys:
  "''System.State'' \<notin> fst ` set (create_test_case_caller_fields d ts p a ar it au tg)"
  unfolding create_test_case_caller_fields_def
  using keys_foldl_set_present [where d = "[]" and kvs = "[(''System.Description'', opt_str d),
        (''Microsoft.VSTS.TCM.Steps'', opt_str ts),
        (''Microsoft.VSTS.Common.Priority'', opt_int p),
        (''System.AssignedTo'', opt_str a),
        (''System.AreaPath'', opt_str ar),
        (''System.IterationPath'', opt_str it),
        (''Microsoft.VSTS.TCM.AutomationStatus'', opt_str au),
        (''System.Tags'', opt_str tg)]"]
  by auto

lemma path_of_operation:
  "py_get (patch_operation op k v) ''path'' PyNone = Inr (PyStr (''/fields/'' @ k))"
  by (simp add: patch_operation_def py_get_def lookup_or_def)

lemma no_state_operation:
  "''System.State'' \<notin> fst ` set kvs \<Longrightarrow>
   filter (\<lambda>op. py_get op ''path'' PyNone = Inr (PyStr ''/fields/System.State''))
     (map (\<lambda>kv. patch_operation ''add'' (fst kv) (snd kv)) kvs) = []"
  by (induction kvs) (auto simp: path_of_operation)

lemma state_operations:
  assumes "''System.State'' \<notin> fst ` set caller" and "v \<noteq> PyNone"
  shows "filter (\<lambda>op. py_get op ''path'' PyNone = Inr (PyStr ''/fields/System.State''))
           (create_operations wi_type title_text (caller @ [(''System.State'', v)]))
         = [patch_operation ''add'' ''System.State'' v]"
proof -
  have "''System.State'' \<notin> fst ` set (filter (\<lambda>kv. snd kv \<noteq> PyNone) caller)"
    using assms(1) by auto
  then show ?thesis
    using no_state_operation [of "filter (\<lambda>kv. snd kv \<noteq> PyNone) caller"] assms(2)
    by (simp add: create_operations_def path_of_operation)
qed

lemma last_operation:
  "v \<noteq> PyNone \<Longrightarrow>
   last (create_operations wi_type title_text (caller @ [(''System.State'', v)]))
     = patch_operation ''add'' ''System.State'' v"
  by (simp add: create_operations_def)

lemma snd_create_work_item:
  "snd (create_work_item net cl wi_type title_text flds log)
     = log @ [create_request cl wi_type title_text flds]"
  by (simp add: create_work_item_def send_def finish_def split: sum.splits)

lemma create_work_item_pair:
  "fst (create_work_item net cl wi_type title_text flds log) = r \<Longrightarrow>
   create_work_item net cl wi_type title_text flds log
     = (r, log @ [create_request cl wi_type title_text flds])"
  using snd_create_work_item [of net cl wi_type title_text flds log]
  by (cases "create_work_item net cl wi_type title_text flds log") simp

lemma snd_create_user_story:
  "snd (create_user_story P net cl title_text d p sp a ar it tg log)
     = log @ [create_request cl ''User Story'' title_text
                (create_user_story_fields d p sp a ar it tg)]"
  using snd_create_work_item [of net cl "''User Story''" title_text
      "create_user_story_fields d p sp a ar it tg" log]
  by (simp add: create_user_story_def snd_try_except split_beta Let_def)

lemma snd_create_test_case:
  "snd (create_test_case P net cl title_text d ts p a ar it au tg log)
     = log @ [create_request cl ''Test Case'' title_text
                (create_test_case_fields d ts p a ar it au tg)]"
  using snd_create_work_item [of net cl "''Test Case''" title_text
      "create_test_case_fields d ts p a ar it au tg" log]
  by (simp add: create_test_case_def snd_try_except split_beta Let_def)

lemma user_story_fields_eq:
  "create_user_story_fields d p sp a ar it tg
     = create_user_story_caller_fields d p sp a ar it tg @ [(''System.State'', PyStr ''New'')]"
  unfolding create_user_story_fields_def
  using user_story_caller_keys [of d p sp a ar it tg] by (rule dict_set_new_key)

lemma test_case_fields_eq:
  "create_test_case_fields d ts p a ar it au tg
     = create_test_case_caller_fields d ts p a ar it au tg
       @ [(''System.State'', PyStr ''Design'')]"
  unfolding create_test_case_fields_def
  using test_case_caller_keys [of d ts p a ar it au tg] by (rule dict_set_new_key)

lemma values_dict_set: "snd ` set (dict_set d k v) \<subseteq> insert v (snd ` set d)"
proof (induction d)
  case Nil
  show ?case by simp
next
  case (Cons kv d)
  obtain k' v' where kv: "kv = (k', v')" by (cases kv)
  show ?case
  proof (cases "k' = k")
    case True
    then show ?thesis using kv by auto
  next
    case False
    then show ?thesis using kv Cons.IH by auto
  qed
qed

lemma values_set_present:
  "PyNone \<notin> snd ` set d \<Longrightarrow> PyNone \<notin> snd ` set (set_present d kv)"
  using values_dict_set [of d "fst kv" "snd kv"] by (auto simp: set_present_def)

lemma values_foldl_set_present:
  "PyNone \<notin> snd ` set d \<Longrightarrow> PyNone \<notin> snd ` set (foldl set_present d kvs)"
proof (induction kvs arbitrary: d)
  case Nil
  then show ?case by simp
next
  case (Cons kv kvs)
  show ?case
    using Cons.IH [OF values_set_present [OF Cons.prems, of kv]] by simp
qed

lemma user_story_caller_values:
  "PyNone \<notin> snd ` set (create_user_story_caller_fields d p sp a ar it tg)"
  unfolding create_user_story_caller_fields_def
  by (rule values_foldl_set_present) simp

lemma test_case_caller_values:
  "PyNone \<notin> snd ` set (create_test_case_caller_fields d ts p a ar it au tg)"
  unfolding create_test_case_caller_fields_def
  by (rule values_foldl_set_present) simp

lemma create_operations_explicit:
  assumes "PyNone \<notin> snd ` set caller"
  shows "create_operations wi_type title_text (caller @ [(''System.State'', PyStr v)])
     = [PyDict [(''op'', PyStr ''add''), (''path'', PyStr ''/fields/System.Title''),
                (''value'', PyStr title_text)],
        PyDict [(''op'', PyStr ''add''), (''path'', PyStr ''/fields/System.WorkItemType''),
                (''value'', PyStr wi_type)]]
       @ map (\<lambda>kv. PyDict [(''op'', PyStr ''add''), (''path'', PyStr (''/fields/'' @ fst kv)),
                             (''value'', snd kv)]) caller
       @ [PyDict [(''op'', PyStr ''add''), (''path'', PyStr ''/fields/System.State''),
                  (''value'', PyStr v)]]"
proof -
  have "\<forall>kv \<in> set caller. snd kv \<noteq> PyNone"
    using assms by force
  then have "filter (\<lambda>kv. snd kv \<noteq> PyNone) caller = caller"
    by (intro filter_True)
  then show ?thesis
    by (simp add: create_operations_def patch_operation_def)
qed

lemma explicit_state_operation:
  assumes "''System.State'' \<notin> fst ` set caller"
  shows "filter (\<lambda>op. py_get op ''path'' PyNone = Inr (PyStr ''/fields/System.State''))
     ([PyDict [(''op'', PyStr ''add''), (''path'', PyStr ''/fields/System.Title''),
               (''value'', PyStr title_text)],
       PyDict [(''op'', PyStr ''add''), (''path'', PyStr ''/fields/System.WorkItemType''),
               (''value'', PyStr wi_type)]]
      @ map (\<lambda>kv. PyDict [(''op'', PyStr ''add''), (''path'', PyStr (''/fields/'' @ fst kv)),
                            (''value'', snd kv)]) caller
      @ [PyDict [(''op'', PyStr ''add''), (''path'', PyStr ''/fields/System.State''),
                 (''value'', PyStr v)]])
     = [PyDict [(''op'', PyStr ''add''), (''path'', PyStr ''/fields/System.State''),
                (''value'', PyStr v)]]"
proof -
  have "filter (\<lambda>op. py_get op ''path'' PyNone = Inr (PyStr ''/fields/System.State''))
          (map (\<lambda>kv. PyDict [(''op'', PyStr ''add''), (''path'', PyStr (''/fields/'' @ fst kv)),
                               (''value'', snd kv)]) caller) = []"
    using assms by (induction caller) (auto simp: py_get_def lookup_or_def)
  then show ?thesis
    by (simp add: py_get_def lookup_or_def)
qed

text \<open>
  C4. Whatever the caller's arguments, the field map a create handler submits to the
  transport create operation is the caller's fields followed by \<open>System.State\<close> with the
  default value (\<open>New\<close> for \<open>create_user_story\<close>, \<open>Design\<close> for \<open>create_test_case\<close>), and
  no caller field is \<open>System.State\<close>. The one request the handler sends is the POST
  whose body lists the add operations for the title, the type, each caller field (none
  of them \<open>None\<close>) and last \<open>/fields/System.State\<close> with the default value, which is the
  only operation of the body on that path.
\<close>

theorem create_forces_default_state:
  "(create_user_story_fields d p sp a ar it tg
      = create_user_story_caller_fields d p sp a ar it tg @ [(''System.State'', PyStr ''New'')]
    \<and> ''System.State'' \<notin> fst ` set (create_user_story_caller_fields d p sp a ar it tg)
    \<and> snd (create_user_story P net cl title_text d p sp a ar it tg log)
        = log @ [create_request cl ''User Story'' title_text
                   (create_user_story_fields d p sp a ar it tg)]
    \<and> filter (\<lambda>op. py_get op ''path'' PyNone = Inr (PyStr ''/fields/System.State''))
          (create_operations ''User Story'' title_text
             (create_user_story_fields d p sp a ar it tg))
        = [patch_operation ''add'' ''System.State'' (PyStr ''New'')]
    \<and> last (create_operations ''User Story'' title_text
               (create_user_story_fields d p sp a ar it tg))
        = patch_operation ''add'' ''System.State'' (PyStr ''New'')
    \<and> create_test_case_fields d ts p a ar it au tg
        = create_test_case_caller_fields d ts p a ar it au tg
          @ [(''System.State'', PyStr ''Design'')]
    \<and> ''System.State'' \<notin> fst ` set (create_test_case_caller_fields d ts p a ar it au tg)
    \<and> snd (create_test_case P net cl title_text d ts p a ar it au tg log)
        = log @ [create_request cl ''Test Case'' title_text
                   (create_test_case_fields d ts p a ar it au tg)]
    \<and> filter (\<lambda>op. py_get op ''path'' PyNone = Inr (PyStr ''/fields/System.State''))
          (create_operations ''Test Case'' title_text
             (create_test_case_fields d ts p a ar it au tg))
        = [patch_operation ''add'' ''System.State'' (PyStr ''Design'')]
    \<and> last (create_operations ''Test Case'' title_text
               (create_test_case_fields d ts p a ar it au tg))
        = patch_operation ''add'' ''System.State'' (PyStr ''Design''))
   \<and> (snd (create_user_story P net cl title_text d p sp a ar it tg log)
        = log @ [\<lparr> verb = POST,
            url = base_url cl @ ''/'' @ project cl @ ''/_apis/wit/workitems/$User Story'',
            params = [(''api-version'', ''7.1-preview.3'')],
            req_headers = dict_set (headers cl) ''Content-Type'' ''application/json-patch+json'',
            json_body = Some (PyList
             ([PyDict [(''op'', PyStr ''add''), (''path'', PyStr ''/fields/System.Title''),
                      (''value'', PyStr title_text)],
              PyDict [(''op'', PyStr ''add''), (''path'', PyStr ''/fields/System.WorkItemType''),
                      (''value'', PyStr ''User Story'')]]
             @ map (\<lambda>kv. PyDict [(''op'', PyStr ''add''), (''path'', PyStr (''/fields/'' @ fst kv)),
                             (''value'', snd kv)])
                 (create_user_story_caller_fields d p sp a ar it tg)
             @ [PyDict [(''op'', PyStr ''add''), (''path'', PyStr ''/fields/System.State''),
                      (''value'', PyStr ''New'')]])),
            req_timeout = timeout cl \<rparr>]
    \<and> filter (\<lambda>op. py_get op ''path'' PyNone = Inr (PyStr ''/fields/System.State''))
          ([PyDict [(''op'', PyStr ''add''), (''path'', PyStr ''/fields/System.Title''),
                      (''value'', PyStr title_text)],
              PyDict [(''op'', PyStr ''add''), (''path'', PyStr ''/fields/System.WorkItemType''),
                      (''value'', PyStr ''User Story'')]]
             @ map (\<lambda>kv. PyDict [(''op'', PyStr ''add''), (''path'', PyStr (''/fields/'' @ fst kv)),
                             (''value'', snd kv)])
                 (create_user_story_caller_fields d p sp a ar it tg)
             @ [PyDict [(''op'', PyStr ''add''), (''path'', PyStr ''/fields/System.State''),
                      (''value'', PyStr ''New'')]])
        = [PyDict [(''op'', PyStr ''add''), (''path'', PyStr ''/fields/System.State''),
                      (''value'', PyStr ''New'')]]
    \<and> PyNone \<notin> snd ` set (create_user_story_caller_fields d p sp a ar it tg)
    \<and> snd (create_test_case P net cl title_text d ts p a ar it au tg log)
        = log @ [\<lparr> verb = POST,
            url = base_url cl @ ''/'' @ project cl @ ''/_apis/wit/workitems/$Test Case'',
            params = [(''api-version'', ''7.1-preview.3'')],
            req_headers = dict_set (headers cl) ''Content-Type'' ''application/json-patch+json'',
            json_body = Some (PyList
             ([PyDict [(''op'', PyStr ''add''), (''path'', PyStr ''/fields/System.Title''),
                      (''value'', PyStr title_text)],
              PyDict [(''op'', PyStr ''add''), (''path'', PyStr ''/fields/System.WorkItemType''),
                      (''value'', PyStr ''Test Case'')]]
             @ map (\<lambda>kv. PyDict [(''op'', PyStr ''add''), (''path'', PyStr (''/fields/'' @ fst kv)),
                             (''value'', snd kv)])
                 (create_test_case_caller_fields d ts p a ar it au tg)
             @ [PyDict [(''op'', PyStr ''add''), (''path'', PyStr ''/fields/System.State''),
                      (''value'', PyStr ''Design'')]])),
            req_timeout = timeout cl \<rparr>]
    \<and> filter (\<lambda>op. py_get op ''path'' PyNone = Inr (PyStr ''/fields/System.State''))
          ([PyDict [(''op'', PyStr ''add''), (''path'', PyStr ''/fields/System.Title''),
                      (''value'', PyStr title_text)],
              PyDict [(''op'', PyStr ''add''), (''path'', PyStr ''/fields/System.WorkItemType''),
                      (''value'', PyStr ''Test Case'')]]
             @ map (\<lambda>kv. PyDict [(''op'', PyStr ''add''), (''path'', PyStr (''/fields/'' @ fst kv)),
                             (''value'', snd kv)])
                 (create_test_case_caller_fields d ts p a ar it au tg)
             @ [PyDict [(''op'', PyStr ''add''), (''path'', PyStr ''/fields/System.State''),
                      (''value'', PyStr ''Design'')]])
        = [PyDict [(''op'', PyStr ''add''), (''path'', PyStr ''/fields/System.State''),
                      (''value'', PyStr ''Design'')]]
    \<and> PyNone \<notin> snd ` set (create_test_case_caller_fields d ts p a ar it au tg))"
proof -
  note u = user_story_caller_keys [of d p sp a ar it tg]
  note t = test_case_caller_keys [of d ts p a ar it au tg]
  have 1: "filter (\<lambda>op. py_get op ''path'' PyNone = Inr (PyStr ''/fields/System.State''))
         (create_operations ''User Story'' title_text
            (create_user_story_fields d p sp a ar it tg))
       = [patch_operation ''add'' ''System.State'' (PyStr ''New'')]"
    unfolding user_story_fields_eq using u by (intro state_operations) simp_all
  have 2: "filter (\<lambda>op. py_get op ''path'' PyNone = Inr (PyStr ''/fields/System.State''))
         (create_operations ''Test Case'' title_text
            (create_test_case_fields d ts p a ar it au tg))
       = [patch_operation ''add'' ''System.State'' (PyStr ''Design'')]"
    unfolding test_case_fields_eq using t by (intro state_operations) simp_all
  have 3: "last (create_operations ''User Story'' title_text
              (create_user_story_fields d p sp a ar it tg))
       = patch_operation ''add'' ''System.State'' (PyStr ''New'')"
    unfolding user_story_fields_eq by (intro last_operation) simp
  have 4: "last (create_operations ''Test Case'' title_text
              (create_test_case_fields d ts p a ar it au tg))
       = patch_operation ''add'' ''System.State'' (PyStr ''Design'')"
    unfolding test_case_fields_eq by (intro last_operation) simp
  have A: "create_user_story_fields d p sp a ar it tg
         = create_user_story_caller_fields d p sp a ar it tg @ [(''System.State'', PyStr ''New'')]
       \<and> ''System.State'' \<notin> fst ` set (create_user_story_caller_fields d p sp a ar it tg)
       \<and> snd (create_user_story P net cl title_text d p sp a ar it tg log)
           = log @ [create_request cl ''User Story'' title_text
                      (create_user_story_fields d p sp a ar it tg)]
       \<and> filter (\<lambda>op. py_get op ''path'' PyNone = Inr (PyStr ''/fields/System.State''))
             (create_operations ''User Story'' title_text
                (create_user_story_fields d p sp a ar it tg))
           = [patch_operation ''add'' ''System.State'' (PyStr ''New'')]
       \<and> last (create_operations ''User Story'' title_text
                  (create_user_story_fields d p sp a ar it tg))
           = patch_operation ''add'' ''System.State'' (PyStr ''New'')
       \<and> create_test_case_fields d ts p a ar it au tg
           = create_test_case_caller_fields d ts p a ar it au tg
             @ [(''System.State'', PyStr ''Design'')]
       \<and> ''System.State'' \<notin> fst ` set (create_test_case_caller_fields d ts p a ar it au tg)
       \<and> snd (create_test_case P net cl title_text d ts p a ar it au tg log)
           = log @ [create_request cl ''Test Case'' title_text
                      (create_test_case_fields d ts p a ar it au tg)]
       \<and> filter (\<lambda>op. py_get op ''path'' PyNone = Inr (PyStr ''/fields/System.State''))
             (create_operations ''Test Case'' title_text
                (create_test_case_fields d ts p a ar it au tg))
           = [patch_operation ''add'' ''System.State'' (PyStr ''Design'')]
       \<and> last (create_operations ''Test Case'' title_text
                  (create_test_case_fields d ts p a ar it au tg))
           = patch_operation ''add'' ''System.State'' (PyStr ''Design'')"
    using u t 1 2 3 4 user_story_fields_eq [of d p sp a ar it tg]
      test_case_fields_eq [of d ts p a ar it au tg]
      snd_create_user_story [of P net cl title_text d p sp a ar it tg log]
      snd_create_test_case [of P net cl title_text d ts p a ar it au tg log]
    by simp
  have x0: "snd (create_user_story P net cl title_text d p sp a ar it tg log)
           = log @ [\<lparr> verb = POST,
               url = base_url cl @ ''/'' @ project cl @ ''/_apis/wit/workitems/$User Story'',
               params = [(''api-version'', ''7.1-preview.3'')],
               req_headers = dict_set (headers cl) ''Content-Type'' ''application/json-patch+json'',
               json_body = Some (PyList
                ([PyDict [(''op'', PyStr ''add''), (''path'', PyStr ''/fields/System.Title''),
                         (''value'', PyStr title_text)],
                 PyDict [(''op'', PyStr ''add''), (''path'', PyStr ''/fields/System.WorkItemType''),
                         (''value'', PyStr ''User Story'')]]
                @ map (\<lambda>kv. PyDict [(''op'', PyStr ''add''), (''path'', PyStr (''/fields/'' @
                    fst kv)),
                                (''value'', snd kv)])
                    (create_user_story_caller_fields d p sp a ar it tg)
                @ [PyDict [(''op'', PyStr ''add''), (''path'', PyStr ''/fields/System.State''),
                         (''value'', PyStr ''New'')]])),
               req_timeout = timeout cl \<rparr>]"
    using snd_create_user_story [of P net cl title_text d p sp a ar it tg log]
      create_operations_explicit [OF user_story_caller_values [of d p sp a ar it tg], of
          "''User Story''" title_text "''New''"]
    by (simp add: create_request_def user_story_fields_eq item_url_def patch_headers_def
        API_VERSION_def)
  have y0: "filter (\<lambda>op. py_get op ''path'' PyNone = Inr (PyStr ''/fields/System.State''))
             ([PyDict [(''op'', PyStr ''add''), (''path'', PyStr ''/fields/System.Title''),
                         (''value'', PyStr title_text)],
                 PyDict [(''op'', PyStr ''add''), (''path'', PyStr ''/fields/System.WorkItemType''),
                         (''value'', PyStr ''User Story'')]]
                @ map (\<lambda>kv. PyDict [(''op'', PyStr ''add''), (''path'', PyStr (''/fields/'' @
                    fst kv)),
                                (''value'', snd kv)])
                    (create_user_story_caller_fields d p sp a ar it tg)
                @ [PyDict [(''op'', PyStr ''add''), (''path'', PyStr ''/fields/System.State''),
                         (''value'', PyStr ''New'')]])
           = [PyDict [(''op'', PyStr ''add''), (''path'', PyStr ''/fields/System.State''),
                         (''value'', PyStr ''New'')]]"
    using explicit_state_operation [OF user_story_caller_keys [of d p sp a ar it tg], of
        title_text "''User Story''" "''New''"]
    by simp
  have x1: "snd (create_test_case P net cl title_text d ts p a ar it au tg log)
           = log @ [\<lparr> verb = POST,
               url = base_url cl @ ''/'' @ project cl @ ''/_apis/wit/workitems/$Test Case'',
               params = [(''api-version'', ''7.1-preview.3'')],
               req_headers = dict_set (headers cl) ''Content-Type'' ''application/json-patch+json'',
               json_body = Some (PyList
                ([PyDict [(''op'', PyStr ''add''), (''path'', PyStr ''/fields/System.Title''),
                         (''value'', PyStr title_text)],
                 PyDict [(''op'', PyStr ''add''), (''path'', PyStr ''/fields/System.WorkItemType''),
                         (''value'', PyStr ''Test Case'')]]
                @ map (\<lambda>kv. PyDict [(''op'', PyStr ''add''), (''path'', PyStr (''/fields/'' @
                    fst kv)),
                                (''value'', snd kv)])
                    (create_test_case_caller_fields d ts p a ar it au tg)
                @ [PyDict [(''op'', PyStr ''add''), (''path'', PyStr ''/fields/System.State''),
                         (''value'', PyStr ''Design'')]])),
               req_timeout = timeout cl \<rparr>]"
    using snd_create_test_case [of P net cl title_text d ts p a ar it au tg log]
      create_operations_explicit [OF test_case_caller_values [of d ts p a ar it au tg], of
          "''Test Case''" title_text "''Design''"]
    by (simp add: create_request_def test_case_fields_eq item_url_def patch_headers_def
        API_VERSION_def)
  have y1: "filter (\<lambda>op. py_get op ''path'' PyNone = Inr (PyStr ''/fields/System.State''))
             ([PyDict [(''op'', PyStr ''add''), (''path'', PyStr ''/fields/System.Title''),
                         (''value'', PyStr title_text)],
                 PyDict [(''op'', PyStr ''add''), (''path'', PyStr ''/fields/System.WorkItemType''),
                         (''value'', PyStr ''Test Case'')]]
                @ map (\<lambda>kv. PyDict [(''op'', PyStr ''add''), (''path'', PyStr (''/fields/'' @
                    fst kv)),
                                (''value'', snd kv)])
                    (create_test_case_caller_fields d ts p a ar it au tg)
                @ [PyDict [(''op'', PyStr ''add''), (''path'', PyStr ''/fields/System.State''),
                         (''value'', PyStr ''Design'')]])
           = [PyDict [(''op'', PyStr ''add''), (''path'', PyStr ''/fields/System.State''),
                         (''value'', PyStr ''Design'')]]"
    using explicit_state_operation [OF test_case_caller_keys [of d ts p a ar it au tg], of
        title_text "''Test Case''" "''Design''"]
    by simp
  have B: "snd (create_user_story P net cl title_text d p sp a ar it tg log)
           = log @ [\<lparr> verb = POST,
               url = base_url cl @ ''/'' @ project cl @ ''/_apis/wit/workitems/$User Story'',
               params = [(''api-version'', ''7.1-preview.3'')],
               req_headers = dict_set (headers cl) ''Content-Type'' ''application/json-patch+json'',
               json_body = Some (PyList
                ([PyDict [(''op'', PyStr ''add''), (''path'', PyStr ''/fields/System.Title''),
                         (''value'', PyStr title_text)],
                 PyDict [(''op'', PyStr ''add''), (''path'', PyStr ''/fields/System.WorkItemType''),
                         (''value'', PyStr ''User Story'')]]
                @ map (\<lambda>kv. PyDict [(''op'', PyStr ''add''), (''path'', PyStr (''/fields/'' @
                    fst kv)),
                                (''value'', snd kv)])
                    (create_user_story_caller_fields d p sp a ar it tg)
                @ [PyDict [(''op'', PyStr ''add''), (''path'', PyStr ''/fields/System.State''),
                         (''value'', PyStr ''New'')]])),
               req_timeout = timeout cl \<rparr>]
       \<and> filter (\<lambda>op. py_get op ''path'' PyNone = Inr (PyStr ''/fields/System.State''))
             ([PyDict [(''op'', PyStr ''add''), (''path'', PyStr ''/fields/System.Title''),
                         (''value'', PyStr title_text)],
                 PyDict [(''op'', PyStr ''add''), (''path'', PyStr ''/fields/System.WorkItemType''),
                         (''value'', PyStr ''User Story'')]]
                @ map (\<lambda>kv. PyDict [(''op'', PyStr ''add''), (''path'', PyStr (''/fields/'' @
                    fst kv)),
                                (''value'', snd kv)])
                    (create_user_story_caller_fields d p sp a ar it tg)
                @ [PyDict [(''op'', PyStr ''add''), (''path'', PyStr ''/fields/System.State''),
                         (''value'', PyStr ''New'')]])
           = [PyDict [(''op'', PyStr ''add''), (''path'', PyStr ''/fields/System.State''),
                         (''value'', PyStr ''New'')]]
       \<and> PyNone \<notin> snd ` set (create_user_story_caller_fields d p sp a ar it tg)
       \<and> snd (create_test_case P net cl title_text d ts p a ar it au tg log)
           = log @ [\<lparr> verb = POST,
               url = base_url cl @ ''/'' @ project cl @ ''/_apis/wit/workitems/$Test Case'',
               params = [(''api-version'', ''7.1-preview.3'')],
               req_headers = dict_set (headers cl) ''Content-Type'' ''application/json-patch+json'',
               json_body = Some (PyList
                ([PyDict [(''op'', PyStr ''add''), (''path'', PyStr ''/fields/System.Title''),
                         (''value'', PyStr title_text)],
                 PyDict [(''op'', PyStr ''add''), (''path'', PyStr ''/fields/System.WorkItemType''),
                         (''value'', PyStr ''Test Case'')]]
                @ map (\<lambda>kv. PyDict [(''op'', PyStr ''add''), (''path'', PyStr (''/fields/'' @
                    fst kv)),
                                (''value'', snd kv)])
                    (create_test_case_caller_fields d ts p a ar it au tg)
                @ [PyDict [(''op'', PyStr ''add''), (''path'', PyStr ''/fields/System.State''),
                         (''value'', PyStr ''Design'')]])),
               req_timeout = timeout cl \<rparr>]
       \<and> filter (\<lambda>op. py_get op ''path'' PyNone = Inr (PyStr ''/fields/System.State''))
             ([PyDict [(''op'', PyStr ''add''), (''path'', PyStr ''/fields/System.Title''),
                         (''value'', PyStr title_text)],
                 PyDict [(''op'', PyStr ''add''), (''path'', PyStr ''/fields/System.WorkItemType''),
                         (''value'', PyStr ''Test Case'')]]
                @ map (\<lambda>kv. PyDict [(''op'', PyStr ''add''), (''path'', PyStr (''/fields/'' @
                    fst kv)),
                                (''value'', snd kv)])
                    (create_test_case_caller_fields d ts p a ar it au tg)
                @ [PyDict [(''op'', PyStr ''add''), (''path'', PyStr ''/fields/System.State''),
                         (''value'', PyStr ''Design'')]])
           = [PyDict [(''op'', PyStr ''add''), (''path'', PyStr ''/fields/System.State''),
                         (''value'', PyStr ''Design'')]]
       \<and> PyNone \<notin> snd ` set (create_test_case_caller_fields d ts p a ar it au tg)"
    using x0 y0 user_story_caller_values [of d p sp a ar it tg]
      x1 y1 test_case_caller_values [of d ts p a ar it au tg]
    by (intro conjI)
  show ?thesis
    using A B by (rule conjI)
qed

theorem create_forces_default_state_witness:
  "create_test_case_fields (Some ''Steps to log in'') None (Some 1) None None None None None
     = [(''System.Description'', PyStr ''Steps to log in''),
        (''Microsoft.VSTS.Common.Priority'', PyInt 1),
        (''System.State'', PyStr ''Design'')]
   \<and> create_user_story_fields None None (Some 5) None None None (Some ''ui'')
     = [(''Microsoft.VSTS.Scheduling.StoryPoints'', PyInt 5),
        (''System.Tags'', PyStr ''ui''),
        (''System.State'', PyStr ''New'')]
   \<and> map json_body (snd (create_user_story P0 (net_item story1) cl0 ''Login'' None None
                              (Some 5) None None None (Some ''ui'') []))
     = [Some (PyList
          [PyDict [(''op'', PyStr ''add''), (''path'', PyStr ''/fields/System.Title''),
                   (''value'', PyStr ''Login'')],
           PyDict [(''op'', PyStr ''add''), (''path'', PyStr ''/fields/System.WorkItemType''),
                   (''value'', PyStr ''User Story'')],
           PyDict [(''op'', PyStr ''add''),
                   (''path'', PyStr ''/fields/Microsoft.VSTS.Scheduling.StoryPoints''),
                   (''value'', PyInt 5)],
           PyDict [(''op'', PyStr ''add''), (''path'', PyStr ''/fields/System.Tags''),
                   (''value'', PyStr ''ui'')],
           PyDict [(''op'', PyStr ''add''), (''path'', PyStr ''/fields/System.State''),
                   (''value'', PyStr ''New'')]])]"
proof -
  have 1: "create_test_case_fields (Some ''Steps to log in'') None (Some 1) None None None
             None None
     = [(''System.Description'', PyStr ''Steps to log in''),
        (''Microsoft.VSTS.Common.Priority'', PyInt 1),
        (''System.State'', PyStr ''Design'')]"
    using create_forces_default_state [where d = "Some ''Steps to log in''" and ts = None
        and p = "Some 1" and a = None and ar = None and it = None and au = None
        and tg = None, THEN conjunct1, THEN conjunct2, THEN conjunct2, THEN conjunct2,
        THEN conjunct2, THEN conjunct2, THEN conjunct1]
    by (simp add: create_test_case_caller_fields_def set_present_def opt_str_def
        opt_int_def)
  have 2: "create_user_story_fields None None (Some 5) None None None (Some ''ui'')
     = [(''Microsoft.VSTS.Scheduling.StoryPoints'', PyInt 5),
        (''System.Tags'', PyStr ''ui''),
        (''System.State'', PyStr ''New'')]"
    using create_forces_default_state [where d = None and p = None and sp = "Some 5"
        and a = None and ar = None and it = None and tg = "Some ''ui''",
        THEN conjunct1, THEN conjunct1]
    by (simp add: create_user_story_caller_fields_def set_present_def opt_str_def
        opt_int_def)
  have 3: "map json_body (snd (create_user_story P0 (net_item story1) cl0 ''Login'' None None
                              (Some 5) None None None (Some ''ui'') []))
     = [Some (PyList
          [PyDict [(''op'', PyStr ''add''), (''path'', PyStr ''/fields/System.Title''),
                   (''value'', PyStr ''Login'')],
           PyDict [(''op'', PyStr ''add''), (''path'', PyStr ''/fields/System.WorkItemType''),
                   (''value'', PyStr ''User Story'')],
           PyDict [(''op'', PyStr ''add''),
                   (''path'', PyStr ''/fields/Microsoft.VSTS.Scheduling.StoryPoints''),
                   (''value'', PyInt 5)],
           PyDict [(''op'', PyStr ''add''), (''path'', PyStr ''/fields/System.Tags''),
                   (''value'', PyStr ''ui'')],
           PyDict [(''op'', PyStr ''add''), (''path'', PyStr ''/fields/System.State''),
                   (''value'', PyStr ''New'')]])]"
    using create_forces_default_state [where d = None and p = None and sp = "Some 5"
        and a = None and ar = None and it = None and tg = "Some ''ui''" and P = P0
        and net = "net_item story1" and cl = cl0 and title_text = "''Login''"
        and log = "[]", THEN conjunct2, THEN conjunct1]
    by (simp add: create_user_story_caller_fields_def set_present_def opt_str_def
        opt_int_def)
  show ?thesis
    using 1 2 3 by (intro conjI)
qed

subsection \<open>The credential\<close>

lemma load_config_without_credential:
  assumes "getenv E ''AZURE_DEVOPS_PAT'' = None \<or> getenv E ''AZURE_DEVOPS_PAT'' = Some []"
  shows "load_config E = Inl (ValueError ''AZURE_DEVOPS_PAT environment variable is required'')"
  using assms by (auto simp: load_config_def)

lemma load_config_credential:
  assumes "load_config E = Inr cfg"
  shows "getenv E ''AZURE_DEVOPS_PAT'' = Some (AZURE_DEVOPS_PAT cfg) \<and> AZURE_DEVOPS_PAT cfg \<noteq> []"
  using assms by (auto simp: load_config_def split: option.splits if_splits)

lemma client_authorization:
  assumes "AzureDevOpsClient E cfg org proj pat = Inr cl"
  shows "map_of (headers cl) ''Authorization''
     = Some (''Basic '' @ b64encode (map of_char ('':'' @ pat)))"
  using assms
  by (auto simp: AzureDevOpsClient_def bnd_def encode_ascii_def Let_def split: if_splits)

lemma main_credential:
  assumes "main E = Inr cl"
  shows "\<exists>pat. getenv E ''AZURE_DEVOPS_PAT'' = Some pat \<and> pat \<noteq> []
     \<and> map_of (headers cl) ''Authorization''
         = Some (''Basic '' @ b64encode (map of_char ('':'' @ pat)))"
proof -
  from assms obtain cfg where c: "load_config E = Inr cfg"
    and k: "AzureDevOpsClient E cfg (AZURE_DEVOPS_ORG cfg) (AZURE_DEVOPS_PROJECT cfg)
              (AZURE_DEVOPS_PAT cfg) = Inr cl"
    by (auto simp: main_def bnd_def split: sum.splits)
  show ?thesis
    using load_config_credential [OF c] client_authorization [OF k] by blast
qed

lemma empty_credential_client:
  "AzureDevOpsClient E cfg org proj [] =
     Inr \<lparr> organization = org, project = proj,
           base_url = ''https://dev.azure.com/'' @ org,
           headers = [(''Authorization'', ''Basic Og==''),
                      (''Content-Type'', ''application/json''),
                      (''User-Agent'', ''Azure-DevOps-MCP-Server/1.0'')],
           max_retries = \<lparr> total = 3, backoff_factor = 1,
                           status_forcelist = [429, 500, 502, 503, 504] \<rparr>,
           verify = configure_ssl E cfg, timeout = 30 \<rparr>"
  by (simp add: AzureDevOpsClient_def bnd_def encode_ascii_def is_ascii_def b64_digit_def
      b64_alphabet_def RETRY_TOTAL_def RETRY_BACKOFF_FACTOR_def RETRY_STATUS_FORCELIST_def
      REQUEST_TIMEOUT_def)

text \<open>
  C8 as stated fails: the constructor does not look at the credential. Called with the
  empty string it returns a client, whose Basic authentication encodes the lone colon.
\<close>

theorem empty_credential_counterexample:
  "AzureDevOpsClient E0 cfg0 ''org'' ''proj'' [] = Inr cl0"
  by (simp add: empty_credential_client cl0_def configure_ssl_def cfg0_def E0_def py_or_def)

text \<open>
  C8, amended. Loading the configuration raises \<open>ValueError\<close> when the credential
  \<open>AZURE_DEVOPS_PAT\<close> is unset or empty, and then \<open>main\<close> raises it before any client is
  built; a configuration that loads has a non-empty credential, and a client built by
  \<open>main\<close> authenticates with it. The constructor itself accepts the empty credential
  and returns a client whose \<open>Authorization\<close> header is \<open>Basic Og==\<close>.
\<close>

theorem credential_checked_by_config:
  "(getenv E ''AZURE_DEVOPS_PAT'' = None \<or> getenv E ''AZURE_DEVOPS_PAT'' = Some [] \<longrightarrow>
      load_config E = Inl (ValueError ''AZURE_DEVOPS_PAT environment variable is required'')
      \<and> main E = Inl (ValueError ''AZURE_DEVOPS_PAT environment variable is required''))
   \<and> (load_config E = Inr cfg \<longrightarrow>
        getenv E ''AZURE_DEVOPS_PAT'' = Some (AZURE_DEVOPS_PAT cfg) \<and> AZURE_DEVOPS_PAT cfg \<noteq> [])
   \<and> (main E = Inr cl \<longrightarrow>
        (\<exists>pat. getenv E ''AZURE_DEVOPS_PAT'' = Some pat \<and> pat \<noteq> []
           \<and> map_of (headers cl) ''Authorization''
               = Some (''Basic '' @ b64encode (map of_char ('':'' @ pat)))))
   \<and> AzureDevOpsClient E cfg' org proj [] =
       Inr \<lparr> organization = org, project = proj,
             base_url = ''https://dev.azure.com/'' @ org,
             headers = [(''Authorization'', ''Basic Og==''),
                        (''Content-Type'', ''application/json''),
                        (''User-Agent'', ''Azure-DevOps-MCP-Server/1.0'')],
             max_retries = \<lparr> total = 3, backoff_factor = 1,
                             status_forcelist = [429, 500, 502, 503, 504] \<rparr>,
             verify = configure_ssl E cfg', timeout = 30 \<rparr>"
proof -
  have "main E = Inl (ValueError ''AZURE_DEVOPS_PAT environment variable is required'')"
    if "getenv E ''AZURE_DEVOPS_PAT'' = None \<or> getenv E ''AZURE_DEVOPS_PAT'' = Some []"
    using load_config_without_credential [OF that] by (simp add: main_def bnd_def)
  then show ?thesis
    using load_config_without_credential [of E] load_config_credential [of E cfg]
      main_credential [of E cl] empty_credential_client [of E cfg' org proj]
    by blast
qed

theorem credential_checked_by_config_witness:
  "load_config E_empty = Inl (ValueError ''AZURE_DEVOPS_PAT environment variable is required'')
   \<and> main E_empty = Inl (ValueError ''AZURE_DEVOPS_PAT environment variable is required'')"
  using credential_checked_by_config [where E = E_empty]
  by (simp add: E_empty_def)

subsection \<open>Parsing\<close>

lemma key_in_dict: "k \<in> fst ` set kvs \<longleftrightarrow> map_of kvs k \<noteq> None"
  by (simp add: map_of_eq_None_iff)

lemma py_get_dict: "py_get (PyDict kvs) k dflt = Inr (lookup_or kvs k dflt)"
  by (simp add: py_get_def)

lemma get_fields:
  "fields_of kvs = Some fs \<Longrightarrow> lookup_or kvs ''fields'' (PyDict []) = PyDict fs"
  by (auto simp: fields_of_def lookup_or_def split: option.splits pyval.splits)

lemma extract_assigned_to_dict:
  "\<exists>v. extract_assigned_to (PyDict fs) = Inr v"
  by (cases "map_of fs ''System.AssignedTo''")
    (auto simp: extract_assigned_to_def py_in_def key_in_dict bnd_def py_getitem_def
      py_get_def split: pyval.splits)

lemma extract_assigned_to_typed:
  assumes "assignee_ok fs"
  shows "\<exists>v. extract_assigned_to (PyDict fs) = Inr v \<and> validate_opt_str P v = Some (assignee fs)"
  using assms
  by (cases "map_of fs ''System.AssignedTo''")
    (auto simp: extract_assigned_to_def py_in_def key_in_dict bnd_def py_getitem_def
      py_get_def lookup_or_def assignee_ok_def assignee_def opt_str_ok_def opt_str_field_def
      validate_opt_str_def validate_str_def split: pyval.splits option.splits)

lemma validate_str_field:
  "str_ok fs k \<Longrightarrow> validate_str P (lookup_or fs k (PyStr [])) = Some (str_field fs k)"
  by (auto simp: str_ok_def lookup_or_def str_field_def validate_str_def
      split: option.splits pyval.splits)

lemma validate_opt_str_field:
  "opt_str_ok fs k \<Longrightarrow> validate_opt_str P (lookup_or fs k PyNone) = Some (opt_str_field fs k)"
  by (auto simp: opt_str_ok_def lookup_or_def opt_str_field_def validate_opt_str_def
      validate_str_def split: option.splits pyval.splits)

lemma validate_opt_int_field:
  "opt_int_ok fs k \<Longrightarrow> validate_opt_int P (lookup_or fs k PyNone) = Some (opt_int_field fs k)"
  by (auto simp: opt_int_ok_def lookup_or_def opt_int_field_def validate_opt_int_def
      validate_int_def split: option.splits pyval.splits)

lemma work_item_fields_typed:
  assumes "work_item_typed fs" and "validate_opt_str P v = Some (assignee fs)"
  shows "WorkItem_fields P (PyInt i) (lookup_or fs ''System.Title'' (PyStr []))
           (lookup_or fs ''System.WorkItemType'' (PyStr []))
           (lookup_or fs ''System.State'' (PyStr [])) v
           (lookup_or fs ''System.AreaPath'' (PyStr []))
           (lookup_or fs ''System.IterationPath'' (PyStr []))
           (lookup_or fs ''System.Description'' PyNone)
           (lookup_or fs ''System.CreatedDate'' (PyStr []))
           (lookup_or fs ''System.ChangedDate'' (PyStr []))
           (lookup_or fs ''System.Tags'' PyNone)
         = Some (expected_work_item i fs)"
  using assms
  by (simp add: work_item_typed_def WorkItem_fields_def validate_str_field
      validate_opt_str_field validate_int_def expected_work_item_def)

lemma parse_work_item_typed:
  assumes "map_of kvs ''id'' = Some (PyInt i)" and "fields_of kvs = Some fs"
    and "work_item_typed fs"
  shows "parse_work_item P (PyDict kvs) = Inr (expected_work_item i fs)"
proof -
  have a: "assignee_ok fs" using assms(3) by (simp add: work_item_typed_def)
  obtain v where v: "extract_assigned_to (PyDict fs) = Inr v"
    and w: "validate_opt_str P v = Some (assignee fs)"
    using extract_assigned_to_typed [OF a, of P] by blast
  show ?thesis
    using work_item_fields_typed [OF assms(3) w, of i]
    by (simp add: parse_work_item_def bnd_def get_fields [OF assms(2)] v py_getitem_def
        assms(1) py_get_dict WorkItem_init_def)
qed

lemma parse_test_case_typed:
  assumes "map_of kvs ''id'' = Some (PyInt i)" and "fields_of kvs = Some fs"
    and "test_case_typed fs"
  shows "parse_test_case P (PyDict kvs) = Inr (expected_test_case i fs)"
proof -
  have t: "work_item_typed fs" using assms(3) by (simp add: test_case_typed_def)
  then have a: "assignee_ok fs" by (simp add: work_item_typed_def)
  obtain v where v: "extract_assigned_to (PyDict fs) = Inr v"
    and w: "validate_opt_str P v = Some (assignee fs)"
    using extract_assigned_to_typed [OF a, of P] by blast
  show ?thesis
    using work_item_fields_typed [OF t w, of i] assms(3)
    by (simp add: parse_test_case_def bnd_def get_fields [OF assms(2)] v py_getitem_def
        assms(1) py_get_dict TestCase_init_def test_case_typed_def validate_opt_str_field
        validate_opt_int_field expected_test_case_def)
qed

lemma parse_without_id_raises:
  assumes "map_of kvs ''id'' = None"
  shows "isl (parse_work_item P (PyDict kvs))" and "isl (parse_test_case P (PyDict kvs))"
  using assms
  by (simp_all add: parse_work_item_def parse_test_case_def bnd_def py_get_def py_getitem_def
      split: sum.splits)

lemma parse_without_id_key_error:
  assumes "map_of kvs ''id'' = None" and "fields_of kvs = Some fs"
  shows "parse_work_item P (PyDict kvs) = Inl (KeyError ''id'')"
    and "parse_test_case P (PyDict kvs) = Inl (KeyError ''id'')"
proof -
  obtain v where v: "extract_assigned_to (PyDict fs) = Inr v"
    using extract_assigned_to_dict [of fs] by blast
  show "parse_work_item P (PyDict kvs) = Inl (KeyError ''id'')"
    by (simp add: parse_work_item_def bnd_def py_get_dict get_fields [OF assms(2)] v
        py_getitem_def assms(1))
  show "parse_test_case P (PyDict kvs) = Inl (KeyError ''id'')"
    by (simp add: parse_test_case_def bnd_def py_get_dict get_fields [OF assms(2)] v
        py_getitem_def assms(1))
qed

text \<open>
  C2 as stated fails: a record whose \<open>fields\<close> entry is \<open>None\<close> has its identifier and
  still fails to parse, since the membership test on the field dictionary raises.
\<close>

theorem parse_null_fields_counterexample:
  "py_getitem null_fields ''id'' = Inr (PyInt 1)
   \<and> isl (parse_work_item P0 null_fields) \<and> isl (parse_test_case P0 null_fields)"
  by (simp add: null_fields_def py_getitem_def parse_work_item_def parse_test_case_def bnd_def
      py_get_def lookup_or_def extract_assigned_to_def py_in_def)

text \<open>
  C2, amended. Parsing a raw record dictionary without the identifier key raises (a
  \<open>KeyError\<close> when the \<open>fields\<close> entry is absent or a dictionary). When the identifier is
  an integer, the \<open>fields\<close> entry is absent or a dictionary, and every field that is
  present has its declared type, parsing succeeds whichever fields are missing: a
  missing optional field (assignee, description, tags, test steps, priority, automation
  status) is absent in the result and a missing required string is the empty string.
\<close>

theorem parse_total_on_typed_records:
  "(map_of kvs ''id'' = None \<longrightarrow>
      isl (parse_work_item P (PyDict kvs)) \<and> isl (parse_test_case P (PyDict kvs)))
   \<and> (map_of kvs ''id'' = None \<and> fields_of kvs = Some fs \<longrightarrow>
      parse_work_item P (PyDict kvs) = Inl (KeyError ''id'')
      \<and> parse_test_case P (PyDict kvs) = Inl (KeyError ''id''))
   \<and> (map_of kvs ''id'' = Some (PyInt i) \<and> fields_of kvs = Some fs \<and> work_item_typed fs \<longrightarrow>
      parse_work_item P (PyDict kvs) = Inr (expected_work_item i fs))
   \<and> (map_of kvs ''id'' = Some (PyInt i) \<and> fields_of kvs = Some fs \<and> test_case_typed fs \<longrightarrow>
      parse_test_case P (PyDict kvs) = Inr (expected_test_case i fs))
   \<and> (map_of fs k = None \<longrightarrow>
      str_field fs k = [] \<and> opt_str_field fs k = None \<and> opt_int_field fs k = None)
   \<and> (map_of fs ''System.AssignedTo'' = None \<longrightarrow> assignee fs = None)"
  using parse_without_id_raises [of kvs P] parse_without_id_key_error [of kvs fs P]
    parse_work_item_typed [of kvs i fs P] parse_test_case_typed [of kvs i fs P]
  by (simp add: str_field_def opt_str_field_def opt_int_field_def assignee_def)

theorem parse_total_on_typed_records_witness:
  "parse_work_item P0 (PyDict [(''id'', PyInt 5)])
     = Inr \<lparr> id' = 5, title = [], work_item_type = [], state = [], assigned_to = None,
             area_path = [], iteration_path = [], description = None, created_date = [],
             changed_date = [], tags = None \<rparr>
   \<and> parse_test_case P0 case1
     = Inr \<lparr> id' = 7, title = ''Login works'', work_item_type = ''Test Case'',
             state = ''Design'', assigned_to = None, area_path = [], iteration_path = [],
             description = None, created_date = [], changed_date = [], tags = None,
             test_steps = None, priority = Some 2, automation_status = None \<rparr>
   \<and> parse_work_item P0 no_id = Inl (KeyError ''id'')"
  using parse_total_on_typed_records [where kvs = "[(''id'', PyInt 5)]" and i = 5
      and fs = "[]" and P = P0]
    parse_total_on_typed_records [where kvs = "[(''id'', PyInt 7),
             (''fields'', PyDict [(''System.Title'', PyStr ''Login works''),
                                  (''System.WorkItemType'', PyStr ''Test Case''),
                                  (''System.State'', PyStr ''Design''),
                                  (''Microsoft.VSTS.Common.Priority'', PyInt 2)])]" and i = 7
      and fs = "[(''System.Title'', PyStr ''Login works''),
                 (''System.WorkItemType'', PyStr ''Test Case''),
                 (''System.State'', PyStr ''Design''),
                 (''Microsoft.VSTS.Common.Priority'', PyInt 2)]" and P = P0]
    parse_total_on_typed_records [where kvs = "[(''fields'',
        PyDict [(''System.Title'', PyStr ''Untitled'')])]"
      and fs = "[(''System.Title'', PyStr ''Untitled'')]" and P = P0]
  by (simp add: case1_def no_id_def fields_of_def work_item_typed_def test_case_typed_def
      str_ok_def opt_str_ok_def opt_int_ok_def assignee_ok_def expected_work_item_def
      expected_test_case_def str_field_def opt_str_field_def opt_int_field_def assignee_def
      WorkItem.extend_def)

subsection \<open>Errors at the tool-call boundary\<close>

lemma get_user_stories_returns:
  shows "\<not> isl (fst (get_user_stories P net cl limit log))"
  by (simp add: get_user_stories_def fst_try_except split: sum.splits)

lemma search_stories_by_title_returns:
  shows "\<not> isl (fst (search_stories_by_title P net cl needle limit log))"
  by (simp add: search_stories_by_title_def fst_try_except split: sum.splits)

lemma get_stories_by_state_returns:
  shows "\<not> isl (fst (get_stories_by_state P net cl st limit log))"
  by (simp add: get_stories_by_state_def fst_try_except split: sum.splits)

lemma get_test_cases_returns:
  shows "\<not> isl (fst (get_test_cases P net cl limit log))"
  by (simp add: get_test_cases_def fst_try_except split: sum.splits)

lemma search_test_cases_by_title_returns:
  shows "\<not> isl (fst (search_test_cases_by_title P net cl needle limit log))"
  by (simp add: search_test_cases_by_title_def fst_try_except split: sum.splits)

lemma get_test_cases_by_state_returns:
  shows "\<not> isl (fst (get_test_cases_by_state P net cl st limit log))"
  by (simp add: get_test_cases_by_state_def fst_try_except split: sum.splits)

lemma get_story_details_returns:
  shows "\<not> isl (fst (get_story_details P net cl wid log))"
  by (simp add: get_story_details_def fst_try_except split: sum.splits)

lemma get_test_case_details_returns:
  shows "\<not> isl (fst (get_test_case_details P net cl wid log))"
  by (simp add: get_test_case_details_def fst_try_except split: sum.splits)

lemma update_story_returns:
  shows "\<not> isl (fst (update_story P net cl wid ut us ua ud up usp utg uar uit log))"
  by (simp add: update_story_def fst_try_except split: sum.splits)

lemma update_test_case_returns:
  shows "\<not> isl (fst (update_test_case P net cl wid ut us ua ud uts up uau utg uar uit log))"
  by (simp add: update_test_case_def fst_try_except split: sum.splits)

lemma create_user_story_returns:
  shows "\<not> isl (fst (create_user_story P net cl ttl cd cp csp ca car cit ctg log))"
  by (simp add: create_user_story_def fst_try_except split: sum.splits)

lemma create_test_case_returns:
  shows "\<not> isl (fst (create_test_case P net cl ttl cd cts cp ca car cit cau ctg log))"
  by (simp add: create_test_case_def fst_try_except split: sum.splits)

lemma get_user_stories_transport_error:
  assumes "fst (get_work_items net cl ''User Story'' (min (max 1 limit) 200) log) = Inl err"
  shows "fst (get_user_stories P net cl limit log) = Inr (''Error retrieving user stories: '' @
      str_exc err)"
  using assms by (cases "get_work_items net cl ''User Story'' (min (max 1 limit) 200) log")
    (simp add: get_user_stories_def try_except_def bnd_def)

lemma search_stories_by_title_transport_error:
  assumes "fst (search_work_items_by_title net cl needle ''User Story'' (min (max 1 limit) 100)
      log) = Inl err"
  shows "fst (search_stories_by_title P net cl needle limit log) = Inr
      (''Error searching stories: '' @ str_exc err)"
  using assms by (cases "search_work_items_by_title net cl needle ''User Story'' (min (max 1
      limit) 100) log")
    (simp add: search_stories_by_title_def try_except_def bnd_def)

lemma get_stories_by_state_transport_error:
  assumes "fst (get_work_items_by_state net cl st ''User Story'' (min (max 1 limit) 200) log) =
      Inl err"
  shows "fst (get_stories_by_state P net cl st limit log) = Inr
      (''Error retrieving stories by state: '' @ str_exc err)"
  using assms by (cases "get_work_items_by_state net cl st ''User Story'' (min (max 1 limit)
      200) log")
    (simp add: get_stories_by_state_def try_except_def bnd_def)

lemma get_test_cases_transport_error:
  assumes "fst (get_work_items net cl ''Test Case'' (min (max 1 limit) 200) log) = Inl err"
  shows "fst (get_test_cases P net cl limit log) = Inr (''Error retrieving test cases: '' @
      str_exc err)"
  using assms by (cases "get_work_items net cl ''Test Case'' (min (max 1 limit) 200) log")
    (simp add: get_test_cases_def try_except_def bnd_def)

lemma search_test_cases_by_title_transport_error:
  assumes "fst (search_work_items_by_title net cl needle ''Test Case'' (min (max 1 limit) 100)
      log) = Inl err"
  shows "fst (search_test_cases_by_title P net cl needle limit log) = Inr
      (''Error searching test cases: '' @ str_exc err)"
  using assms by (cases "search_work_items_by_title net cl needle ''Test Case'' (min (max 1
      limit) 100) log")
    (simp add: search_test_cases_by_title_def try_except_def bnd_def)

lemma get_test_cases_by_state_transport_error:
  assumes "fst (get_work_items_by_state net cl st ''Test Case'' (min (max 1 limit) 200) log) =
      Inl err"
  shows "fst (get_test_cases_by_state P net cl st limit log) = Inr
      (''Error retrieving test cases by state: '' @ str_exc err)"
  using assms by (cases "get_work_items_by_state net cl st ''Test Case'' (min (max 1 limit)
      200) log")
    (simp add: get_test_cases_by_state_def try_except_def bnd_def)

lemma get_story_details_transport_error:
  assumes "fst (get_work_item_by_id net cl wid log) = Inl err"
  shows "fst (get_story_details P net cl wid log) = Inr (''Error retrieving story details: '' @
      str_exc err)"
  using get_work_item_by_id_pair [OF assms]
  by (simp add: get_story_details_def try_except_def bnd_def)

lemma get_test_case_details_transport_error:
  assumes "fst (get_work_item_by_id net cl wid log) = Inl err"
  shows "fst (get_test_case_details P net cl wid log) = Inr
      (''Error retrieving test case details: '' @ str_exc err)"
  using get_work_item_by_id_pair [OF assms]
  by (simp add: get_test_case_details_def try_except_def bnd_def)

lemma update_story_fetch_failure:
  assumes "fst (get_work_item_by_id net cl wid log) = Inl err"
  shows "fst (update_story P net cl wid ut us ua ud up usp utg uar uit log) = Inr
      (''Error updating user story '' @ str_int wid @ '': '' @ str_exc err)"
  using get_work_item_by_id_pair [OF assms]
  by (simp add: update_story_def try_except_def)

lemma update_story_transport_error:
  assumes "fst (get_work_item_by_id net cl wid log) = Inr item"
    and "item \<noteq> PyNone"
    and "type_tag item = Inr (PyStr ''User Story'')"
    and "foldl set_present [] (update_story_mapping ut us ua ud up usp utg uar uit) \<noteq> []"
    and "fst (update_work_item net cl wid (foldl set_present [] (update_story_mapping ut us ua
        ud up usp utg uar uit))
             (log @ [get_item_request cl wid])) = Inl err"
  shows "fst (update_story P net cl wid ut us ua ud up usp utg uar uit log) = Inr
      (''Error updating user story '' @ str_int wid @ '': '' @ str_exc err)"
  using get_work_item_by_id_pair [OF assms(1)] assms(2-5)
  by (cases "update_work_item net cl wid (foldl set_present [] (update_story_mapping ut us ua
      ud up usp utg uar uit)) (log @ [get_item_request cl wid])")
    (simp add: update_story_def try_except_def bnd_def)

lemma update_story_parser_error:
  assumes "fst (get_work_item_by_id net cl wid log) = Inr item"
    and "item \<noteq> PyNone"
    and "type_tag item = Inr (PyStr ''User Story'')"
    and "foldl set_present [] (update_story_mapping ut us ua ud up usp utg uar uit) \<noteq> []"
    and "fst (update_work_item net cl wid (foldl set_present [] (update_story_mapping ut us ua
        ud up usp utg uar uit))
             (log @ [get_item_request cl wid])) = Inr updated"
    and "parse_work_item P updated = Inl err"
  shows "fst (update_story P net cl wid ut us ua ud up usp utg uar uit log) = Inr
      (''Error updating user story '' @ str_int wid @ '': '' @ str_exc err)"
  using get_work_item_by_id_pair [OF assms(1)] assms(2-6)
  by (cases "update_work_item net cl wid (foldl set_present [] (update_story_mapping ut us ua
      ud up usp utg uar uit)) (log @ [get_item_request cl wid])")
    (simp add: update_story_def try_except_def bnd_def)

lemma update_test_case_fetch_failure:
  assumes "fst (get_work_item_by_id net cl wid log) = Inl err"
  shows "fst (update_test_case P net cl wid ut us ua ud uts up uau utg uar uit log) = Inr
      (''Error updating test case '' @ str_int wid @ '': '' @ str_exc err)"
  using get_work_item_by_id_pair [OF assms]
  by (simp add: update_test_case_def try_except_def)

lemma update_test_case_transport_error:
  assumes "fst (get_work_item_by_id net cl wid log) = Inr item"
    and "item \<noteq> PyNone"
    and "type_tag item = Inr (PyStr ''Test Case'')"
    and "foldl set_present [] (update_test_case_mapping ut us ua ud uts up uau utg uar uit) \<noteq> []"
    and "fst (update_work_item net cl wid (foldl set_present [] (update_test_case_mapping ut us
        ua ud uts up uau utg uar uit))
             (log @ [get_item_request cl wid])) = Inl err"
  shows "fst (update_test_case P net cl wid ut us ua ud uts up uau utg uar uit log) = Inr
      (''Error updating test case '' @ str_int wid @ '': '' @ str_exc err)"
  using get_work_item_by_id_pair [OF assms(1)] assms(2-5)
  by (cases "update_work_item net cl wid (foldl set_present [] (update_test_case_mapping ut us
      ua ud uts up uau utg uar uit)) (log @ [get_item_request cl wid])")
    (simp add: update_test_case_def try_except_def bnd_def)

lemma update_test_case_parser_error:
  assumes "fst (get_work_item_by_id net cl wid log) = Inr item"
    and "item \<noteq> PyNone"
    and "type_tag item = Inr (PyStr ''Test Case'')"
    and "foldl set_present [] (update_test_case_mapping ut us ua ud uts up uau utg uar uit) \<noteq> []"
    and "fst (update_work_item net cl wid (foldl set_present [] (update_test_case_mapping ut us
        ua ud uts up uau utg uar uit))
             (log @ [get_item_request cl wid])) = Inr updated"
    and "parse_test_case P updated = Inl err"
  shows "fst (update_test_case P net cl wid ut us ua ud uts up uau utg uar uit log) = Inr
      (''Error updating test case '' @ str_int wid @ '': '' @ str_exc err)"
  using get_work_item_by_id_pair [OF assms(1)] assms(2-6)
  by (cases "update_work_item net cl wid (foldl set_present [] (update_test_case_mapping ut us
      ua ud uts up uau utg uar uit)) (log @ [get_item_request cl wid])")
    (simp add: update_test_case_def try_except_def bnd_def)

lemma create_user_story_transport_error:
  assumes "fst (create_work_item net cl ''User Story'' ttl
             (create_user_story_fields cd cp csp ca car cit ctg) log) = Inl err"
  shows "fst (create_user_story P net cl ttl cd cp csp ca car cit ctg log) = Inr
      (''Error creating user story: '' @ str_exc err)"
  using create_work_item_pair [OF assms]
  by (simp add: create_user_story_def try_except_def bnd_def)

lemma create_user_story_parser_error:
  assumes "fst (create_work_item net cl ''User Story'' ttl
             (create_user_story_fields cd cp csp ca car cit ctg) log) = Inr created"
    and "parse_work_item P created = Inl err"
  shows "fst (create_user_story P net cl ttl cd cp csp ca car cit ctg log) = Inr
      (''Error creating user story: '' @ str_exc err)"
  using create_work_item_pair [OF assms(1)] assms(2)
  by (simp add: create_user_story_def try_except_def bnd_def)

lemma create_test_case_transport_error:
  assumes "fst (create_work_item net cl ''Test Case'' ttl
             (create_test_case_fields cd cts cp ca car cit cau ctg) log) = Inl err"
  shows "fst (create_test_case P net cl ttl cd cts cp ca car cit cau ctg log) = Inr
      (''Error creating test case: '' @ str_exc err)"
  using create_work_item_pair [OF assms]
  by (simp add: create_test_case_def try_except_def bnd_def)

lemma create_test_case_parser_error:
  assumes "fst (create_work_item net cl ''Test Case'' ttl
             (create_test_case_fields cd cts cp ca car cit cau ctg) log) = Inr created"
    and "parse_test_case P created = Inl err"
  shows "fst (create_test_case P net cl ttl cd cts cp ca car cit cau ctg log) = Inr
      (''Error creating test case: '' @ str_exc err)"
  using create_work_item_pair [OF assms(1)] assms(2)
  by (simp add: create_test_case_def try_except_def bnd_def)

lemma get_story_details_parser_error:
  assumes "fst (get_work_item_by_id net cl wid log) = Inr item"
    and "item \<noteq> PyNone"
    and "parse_work_item P item = Inl err"
  shows "fst (get_story_details P net cl wid log) = Inr (''Error retrieving story details: '' @
      str_exc err)"
  using get_work_item_by_id_pair [OF assms(1)] assms(2-3)
  by (simp add: get_story_details_def try_except_def bnd_def)

lemma get_test_case_details_parser_error:
  assumes "fst (get_work_item_by_id net cl wid log) = Inr item"
    and "item \<noteq> PyNone"
    and "type_tag item = Inr (PyStr ''Test Case'')"
    and "parse_test_case P item = Inl err"
  shows "fst (get_test_case_details P net cl wid log) = Inr
      (''Error retrieving test case details: '' @ str_exc err)"
  using get_work_item_by_id_pair [OF assms(1)] assms(2-4)
  by (simp add: get_test_case_details_def try_except_def bnd_def)

lemma get_work_items_net_down:
  "fst (get_work_items net_down cl0 ''User Story'' 50 [])
     = Inl (Exception ''Connection Error: refused. Check your network connection'')"
  by (simp add: get_work_items_def finish_def run_query_def read_ids_def send_def net_down_def
      ebnd_def
      client_error_def)

text \<open>
  C1 as stated fails: in a list handler an error of the parser is not turned into an
  error message. The record is skipped and the handler returns its summary.
\<close>

theorem batch_parser_error_counterexample:
  "parse_work_item P0 no_id = Inl (KeyError ''id'')
   \<and> fst (get_user_stories P0 (net_list [no_id]) cl0 50 [])
       = Inr (''Retrieved 0 user stories:'' @ [newline] @ ''[]'')"
  using get_user_stories_batch [where net = "net_list [no_id]" and cl = cl0 and limit = 50
      and log = "[]" and data = "PyList [no_id]" and items = "[no_id]" and P = P0
      and ?log1.0 = "[wiql_request cl0 (list_query cl0 ''User Story''),
                     details_request cl0 ''101,102,103'']"]
    get_work_items_net_list [of "[no_id]"] parse_no_id
  by (simp add: py_iter_def py_str_def str_int_def str_nat.simps digit_def)

text \<open>
  C1, amended. Every tool handler returns a text and never raises. An error of the
  transport client is returned as the text \<open>Error <doing-X>: \<close> followed by the text of
  the error, in every handler; an error of the response parser is returned so in the
  get-by-id, update and create handlers. (In the list, search and filter handlers a
  record whose parsing raises is skipped.)
\<close>

theorem handlers_return_text:
  "(\<not> isl (fst (get_user_stories P net cl limit log))
    \<and> \<not> isl (fst (search_stories_by_title P net cl needle limit log))
    \<and> \<not> isl (fst (get_stories_by_state P net cl st limit log))
    \<and> \<not> isl (fst (get_test_cases P net cl limit log))
    \<and> \<not> isl (fst (search_test_cases_by_title P net cl needle limit log))
    \<and> \<not> isl (fst (get_test_cases_by_state P net cl st limit log))
    \<and> \<not> isl (fst (get_story_details P net cl wid log))
    \<and> \<not> isl (fst (get_test_case_details P net cl wid log))
    \<and> \<not> isl (fst (update_story P net cl wid ut us ua ud up usp utg uar uit log))
    \<and> \<not> isl (fst (update_test_case P net cl wid ut us ua ud uts up uau utg uar uit log))
    \<and> \<not> isl (fst (create_user_story P net cl ttl cd cp csp ca car cit ctg log))
    \<and> \<not> isl (fst (create_test_case P net cl ttl cd cts cp ca car cit cau ctg log)))
   \<and> ((fst (get_work_items net cl ''User Story'' (min (max 1 limit) 200) log) = Inl err \<longrightarrow>
    fst (get_user_stories P net cl limit log) = Inr (''Error retrieving user stories: '' @
        str_exc err))
    \<and> (fst (search_work_items_by_title net cl needle ''User Story'' (min (max 1 limit) 100)
        log) = Inl err \<longrightarrow>
    fst (search_stories_by_title P net cl needle limit log) = Inr
        (''Error searching stories: '' @ str_exc err))
    \<and> (fst (get_work_items_by_state net cl st ''User Story'' (min (max 1 limit) 200) log) = Inl
        err \<longrightarrow>
    fst (get_stories_by_state P net cl st limit log) = Inr
        (''Error retrieving stories by state: '' @ str_exc err))
    \<and> (fst (get_work_items net cl ''Test Case'' (min (max 1 limit) 200) log) = Inl err \<longrightarrow>
    fst (get_test_cases P net cl limit log) = Inr (''Error retrieving test cases: '' @ str_exc err))
    \<and> (fst (search_work_items_by_title net cl needle ''Test Case'' (min (max 1 limit) 100) log)
        = Inl err \<longrightarrow>
    fst (search_test_cases_by_title P net cl needle limit log) = Inr
        (''Error searching test cases: '' @ str_exc err))
    \<and> (fst (get_work_items_by_state net cl st ''Test Case'' (min (max 1 limit) 200) log) = Inl err \<longrightarrow>
    fst (get_test_cases_by_state P net cl st limit log) = Inr
        (''Error retrieving test cases by state: '' @ str_exc err))
    \<and> (fst (get_work_item_by_id net cl wid log) = Inl err \<longrightarrow>
    fst (get_story_details P net cl wid log) = Inr (''Error retrieving story details: '' @
        str_exc err))
    \<and> (fst (get_work_item_by_id net cl wid log) = Inl err \<longrightarrow>
    fst (get_test_case_details P net cl wid log) = Inr
        (''Error retrieving test case details: '' @ str_exc err))
    \<and> (fst (get_work_item_by_id net cl wid log) = Inl err \<longrightarrow>
    fst (update_story P net cl wid ut us ua ud up usp utg uar uit log) = Inr
        (''Error updating user story '' @ str_int wid @ '': '' @ str_exc err))
    \<and> (fst (get_work_item_by_id net cl wid log) = Inr item
      \<and> item \<noteq> PyNone
      \<and> type_tag item = Inr (PyStr ''User Story'')
      \<and> foldl set_present [] (update_story_mapping ut us ua ud up usp utg uar uit) \<noteq> []
      \<and> fst (update_work_item net cl wid (foldl set_present [] (update_story_mapping ut us ua
          ud up usp utg uar uit))
             (log @ [get_item_request cl wid])) = Inl err \<longrightarrow>
    fst (update_story P net cl wid ut us ua ud up usp utg uar uit log) = Inr
        (''Error updating user story '' @ str_int wid @ '': '' @ str_exc err))
    \<and> (fst (get_work_item_by_id net cl wid log) = Inl err \<longrightarrow>
    fst (update_test_case P net cl wid ut us ua ud uts up uau utg uar uit log) = Inr
        (''Error updating test case '' @ str_int wid @ '': '' @ str_exc err))
    \<and> (fst (get_work_item_by_id net cl wid log) = Inr item
      \<and> item \<noteq> PyNone
      \<and> type_tag item = Inr (PyStr ''Test Case'')
      \<and> foldl set_present [] (update_test_case_mapping ut us ua ud uts up uau utg uar uit) \<noteq> []
      \<and> fst (update_work_item net cl wid (foldl set_present [] (update_test_case_mapping ut us
          ua ud uts up uau utg uar uit))
             (log @ [get_item_request cl wid])) = Inl err \<longrightarrow>
    fst (update_test_case P net cl wid ut us ua ud uts up uau utg uar uit log) = Inr
        (''Error updating test case '' @ str_int wid @ '': '' @ str_exc err))
    \<and> (fst (create_work_item net cl ''User Story'' ttl
             (create_user_story_fields cd cp csp ca car cit ctg) log) = Inl err \<longrightarrow>
    fst (create_user_story P net cl ttl cd cp csp ca car cit ctg log) = Inr
        (''Error creating user story: '' @ str_exc err))
    \<and> (fst (create_work_item net cl ''Test Case'' ttl
             (create_test_case_fields cd cts cp ca car cit cau ctg) log) = Inl err \<longrightarrow>
    fst (create_test_case P net cl ttl cd cts cp ca car cit cau ctg log) = Inr
        (''Error creating test case: '' @ str_exc err)))
   \<and> ((fst (get_work_item_by_id net cl wid log) = Inr item
      \<and> item \<noteq> PyNone
      \<and> type_tag item = Inr (PyStr ''User Story'')
      \<and> foldl set_present [] (update_story_mapping ut us ua ud up usp utg uar uit) \<noteq> []
      \<and> fst (update_work_item net cl wid (foldl set_present [] (update_story_mapping ut us ua
          ud up usp utg uar uit))
             (log @ [get_item_request cl wid])) = Inr updated
      \<and> parse_work_item P updated = Inl err \<longrightarrow>
    fst (update_story P net cl wid ut us ua ud up usp utg uar uit log) = Inr
        (''Error updating user story '' @ str_int wid @ '': '' @ str_exc err))
    \<and> (fst (get_work_item_by_id net cl wid log) = Inr item
      \<and> item \<noteq> PyNone
      \<and> type_tag item = Inr (PyStr ''Test Case'')
      \<and> foldl set_present [] (update_test_case_mapping ut us ua ud uts up uau utg uar uit) \<noteq> []
      \<and> fst (update_work_item net cl wid (foldl set_present [] (update_test_case_mapping ut us
          ua ud uts up uau utg uar uit))
             (log @ [get_item_request cl wid])) = Inr updated
      \<and> parse_test_case P updated = Inl err \<longrightarrow>
    fst (update_test_case P net cl wid ut us ua ud uts up uau utg uar uit log) = Inr
        (''Error updating test case '' @ str_int wid @ '': '' @ str_exc err))
    \<and> (fst (create_work_item net cl ''User Story'' ttl
             (create_user_story_fields cd cp csp ca car cit ctg) log) = Inr created
      \<and> parse_work_item P created = Inl err \<longrightarrow>
    fst (create_user_story P net cl ttl cd cp csp ca car cit ctg log) = Inr
        (''Error creating user story: '' @ str_exc err))
    \<and> (fst (create_work_item net cl ''Test Case'' ttl
             (create_test_case_fields cd cts cp ca car cit cau ctg) log) = Inr created
      \<and> parse_test_case P created = Inl err \<longrightarrow>
    fst (create_test_case P net cl ttl cd cts cp ca car cit cau ctg log) = Inr
        (''Error creating test case: '' @ str_exc err))
    \<and> (fst (get_work_item_by_id net cl wid log) = Inr item
      \<and> item \<noteq> PyNone
      \<and> parse_work_item P item = Inl err \<longrightarrow>
    fst (get_story_details P net cl wid log) = Inr (''Error retrieving story details: '' @
        str_exc err))
    \<and> (fst (get_work_item_by_id net cl wid log) = Inr item
      \<and> item \<noteq> PyNone
      \<and> type_tag item = Inr (PyStr ''Test Case'')
      \<and> parse_test_case P item = Inl err \<longrightarrow>
    fst (get_test_case_details P net cl wid log) = Inr
        (''Error retrieving test case details: '' @ str_exc err)))"
proof -
  have n: "(\<not> isl (fst (get_user_stories P net cl limit log))
        \<and> \<not> isl (fst (search_stories_by_title P net cl needle limit log))
        \<and> \<not> isl (fst (get_stories_by_state P net cl st limit log))
        \<and> \<not> isl (fst (get_test_cases P net cl limit log))
        \<and> \<not> isl (fst (search_test_cases_by_title P net cl needle limit log))
        \<and> \<not> isl (fst (get_test_cases_by_state P net cl st limit log))
        \<and> \<not> isl (fst (get_story_details P net cl wid log))
        \<and> \<not> isl (fst (get_test_case_details P net cl wid log))
        \<and> \<not> isl (fst (update_story P net cl wid ut us ua ud up usp utg uar uit log))
        \<and> \<not> isl (fst (update_test_case P net cl wid ut us ua ud uts up uau utg uar uit log))
        \<and> \<not> isl (fst (create_user_story P net cl ttl cd cp csp ca car cit ctg log))
        \<and> \<not> isl (fst (create_test_case P net cl ttl cd cts cp ca car cit cau ctg log)))"
    using get_user_stories_returns [of P net cl limit log]
      search_stories_by_title_returns [of P net cl needle limit log]
      get_stories_by_state_returns [of P net cl st limit log]
      get_test_cases_returns [of P net cl limit log]
      search_test_cases_by_title_returns [of P net cl needle limit log]
      get_test_cases_by_state_returns [of P net cl st limit log]
      get_story_details_returns [of P net cl wid log]
      get_test_case_details_returns [of P net cl wid log]
      update_story_returns [of P net cl wid ut us ua ud up usp utg uar uit log]
      update_test_case_returns [of P net cl wid ut us ua ud uts up uau utg uar uit log]
      create_user_story_returns [of P net cl ttl cd cp csp ca car cit ctg log]
      create_test_case_returns [of P net cl ttl cd cts cp ca car cit cau ctg log]
    by blast
  have t: "((fst (get_work_items net cl ''User Story'' (min (max 1 limit) 200) log) = Inl err \<longrightarrow>
        fst (get_user_stories P net cl limit log) = Inr (''Error retrieving user stories: '' @
            str_exc err))
        \<and> (fst (search_work_items_by_title net cl needle ''User Story'' (min (max 1 limit) 100)
            log) = Inl err \<longrightarrow>
        fst (search_stories_by_title P net cl needle limit log) = Inr
            (''Error searching stories: '' @ str_exc err))
        \<and> (fst (get_work_items_by_state net cl st ''User Story'' (min (max 1 limit) 200) log) =
            Inl err \<longrightarrow>
        fst (get_stories_by_state P net cl st limit log) = Inr
            (''Error retrieving stories by state: '' @ str_exc err))
        \<and> (fst (get_work_items net cl ''Test Case'' (min (max 1 limit) 200) log) = Inl err \<longrightarrow>
        fst (get_test_cases P net cl limit log) = Inr (''Error retrieving test cases: '' @
            str_exc err))
        \<and> (fst (search_work_items_by_title net cl needle ''Test Case'' (min (max 1 limit) 100)
            log) = Inl err \<longrightarrow>
        fst (search_test_cases_by_title P net cl needle limit log) = Inr
            (''Error searching test cases: '' @ str_exc err))
        \<and> (fst (get_work_items_by_state net cl st ''Test Case'' (min (max 1 limit) 200) log) =
            Inl err \<longrightarrow>
        fst (get_test_cases_by_state P net cl st limit log) = Inr
            (''Error retrieving test cases by state: '' @ str_exc err))
        \<and> (fst (get_work_item_by_id net cl wid log) = Inl err \<longrightarrow>
        fst (get_story_details P net cl wid log) = Inr (''Error retrieving story details: '' @
            str_exc err))
        \<and> (fst (get_work_item_by_id net cl wid log) = Inl err \<longrightarrow>
        fst (get_test_case_details P net cl wid log) = Inr
            (''Error retrieving test case details: '' @ str_exc err))
        \<and> (fst (get_work_item_by_id net cl wid log) = Inl err \<longrightarrow>
        fst (update_story P net cl wid ut us ua ud up usp utg uar uit log) = Inr
            (''Error updating user story '' @ str_int wid @ '': '' @ str_exc err))
        \<and> (fst (get_work_item_by_id net cl wid log) = Inr item
          \<and> item \<noteq> PyNone
          \<and> type_tag item = Inr (PyStr ''User Story'')
          \<and> foldl set_present [] (update_story_mapping ut us ua ud up usp utg uar uit) \<noteq> []
          \<and> fst (update_work_item net cl wid (foldl set_present [] (update_story_mapping ut us
              ua ud up usp utg uar uit))
                 (log @ [get_item_request cl wid])) = Inl err \<longrightarrow>
        fst (update_story P net cl wid ut us ua ud up usp utg uar uit log) = Inr
            (''Error updating user story '' @ str_int wid @ '': '' @ str_exc err))
        \<and> (fst (get_work_item_by_id net cl wid log) = Inl err \<longrightarrow>
        fst (update_test_case P net cl wid ut us ua ud uts up uau utg uar uit log) = Inr
            (''Error updating test case '' @ str_int wid @ '': '' @ str_exc err))
        \<and> (fst (get_work_item_by_id net cl wid log) = Inr item
          \<and> item \<noteq> PyNone
          \<and> type_tag item = Inr (PyStr ''Test Case'')
          \<and> foldl set_present [] (update_test_case_mapping ut us ua ud uts up uau utg uar uit) \<noteq> []
          \<and> fst (update_work_item net cl wid (foldl set_present [] (update_test_case_mapping ut
              us ua ud uts up uau utg uar uit))
                 (log @ [get_item_request cl wid])) = Inl err \<longrightarrow>
        fst (update_test_case P net cl wid ut us ua ud uts up uau utg uar uit log) = Inr
            (''Error updating test case '' @ str_int wid @ '': '' @ str_exc err))
        \<and> (fst (create_work_item net cl ''User Story'' ttl
                 (create_user_story_fields cd cp csp ca car cit ctg) log) = Inl err \<longrightarrow>
        fst (create_user_story P net cl ttl cd cp csp ca car cit ctg log) = Inr
            (''Error creating user story: '' @ str_exc err))
        \<and> (fst (create_work_item net cl ''Test Case'' ttl
                 (create_test_case_fields cd cts cp ca car cit cau ctg) log) = Inl err \<longrightarrow>
        fst (create_test_case P net cl ttl cd cts cp ca car cit cau ctg log) = Inr
            (''Error creating test case: '' @ str_exc err)))"
    using get_user_stories_transport_error [of net cl limit log err P]
      search_stories_by_title_transport_error [of net cl needle limit log err P]
      get_stories_by_state_transport_error [of net cl st limit log err P]
      get_test_cases_transport_error [of net cl limit log err P]
      search_test_cases_by_title_transport_error [of net cl needle limit log err P]
      get_test_cases_by_state_transport_error [of net cl st limit log err P]
      get_story_details_transport_error [of net cl wid log err P]
      get_test_case_details_transport_error [of net cl wid log err P]
      update_story_fetch_failure [of net cl wid log err P ut us ua ud up usp utg uar uit]
      update_story_transport_error [of net cl wid log item ut us ua ud up usp utg uar uit err P]
      update_test_case_fetch_failure [of net cl wid log err P ut us ua ud uts up uau utg uar uit]
      update_test_case_transport_error [of net cl wid log item ut us ua ud uts up uau utg uar
          uit err P]
      create_user_story_transport_error [of net cl ttl cd cp csp ca car cit ctg log err P]
      create_test_case_transport_error [of net cl ttl cd cts cp ca car cit cau ctg log err P]
    by blast
  have p: "((fst (get_work_item_by_id net cl wid log) = Inr item
          \<and> item \<noteq> PyNone
          \<and> type_tag item = Inr (PyStr ''User Story'')
          \<and> foldl set_present [] (update_story_mapping ut us ua ud up usp utg uar uit) \<noteq> []
          \<and> fst (update_work_item net cl wid (foldl set_present [] (update_story_mapping ut us
              ua ud up usp utg uar uit))
                 (log @ [get_item_request cl wid])) = Inr updated
          \<and> parse_work_item P updated = Inl err \<longrightarrow>
        fst (update_story P net cl wid ut us ua ud up usp utg uar uit log) = Inr
            (''Error updating user story '' @ str_int wid @ '': '' @ str_exc err))
        \<and> (fst (get_work_item_by_id net cl wid log) = Inr item
          \<and> item \<noteq> PyNone
          \<and> type_tag item = Inr (PyStr ''Test Case'')
          \<and> foldl set_present [] (update_test_case_mapping ut us ua ud uts up uau utg uar uit) \<noteq> []
          \<and> fst (update_work_item net cl wid (foldl set_present [] (update_test_case_mapping ut
              us ua ud uts up uau utg uar uit))
                 (log @ [get_item_request cl wid])) = Inr updated
          \<and> parse_test_case P updated = Inl err \<longrightarrow>
        fst (update_test_case P net cl wid ut us ua ud uts up uau utg uar uit log) = Inr
            (''Error updating test case '' @ str_int wid @ '': '' @ str_exc err))
        \<and> (fst (create_work_item net cl ''User Story'' ttl
                 (create_user_story_fields cd cp csp ca car cit ctg) log) = Inr created
          \<and> parse_work_item P created = Inl err \<longrightarrow>
        fst (create_user_story P net cl ttl cd cp csp ca car cit ctg log) = Inr
            (''Error creating user story: '' @ str_exc err))
        \<and> (fst (create_work_item net cl ''Test Case'' ttl
                 (create_test_case_fields cd cts cp ca car cit cau ctg) log) = Inr created
          \<and> parse_test_case P created = Inl err \<longrightarrow>
        fst (create_test_case P net cl ttl cd cts cp ca car cit cau ctg log) = Inr
            (''Error creating test case: '' @ str_exc err))
        \<and> (fst (get_work_item_by_id net cl wid log) = Inr item
          \<and> item \<noteq> PyNone
          \<and> parse_work_item P item = Inl err \<longrightarrow>
        fst (get_story_details P net cl wid log) = Inr (''Error retrieving story details: '' @
            str_exc err))
        \<and> (fst (get_work_item_by_id net cl wid log) = Inr item
          \<and> item \<noteq> PyNone
          \<and> type_tag item = Inr (PyStr ''Test Case'')
          \<and> parse_test_case P item = Inl err \<longrightarrow>
        fst (get_test_case_details P net cl wid log) = Inr
            (''Error retrieving test case details: '' @ str_exc err)))"
    using update_story_parser_error [of net cl wid log item ut us ua ud up usp utg uar uit
        updated P err]
      update_test_case_parser_error [of net cl wid log item ut us ua ud uts up uau utg uar uit
          updated P err]
      create_user_story_parser_error [of net cl ttl cd cp csp ca car cit ctg log created P err]
      create_test_case_parser_error [of net cl ttl cd cts cp ca car cit cau ctg log created P err]
      get_story_details_parser_error [of net cl wid log item P err]
      get_test_case_details_parser_error [of net cl wid log item P err]
    by blast
  show ?thesis
    using n t p by (rule conjI [OF _ conjI])
qed

theorem handlers_return_text_witness:
  "fst (get_user_stories P0 net_down cl0 50 [])
     = Inr (''Error retrieving user stories: ''
            @ ''Connection Error: refused. Check your network connection'')
   \<and> fst (get_story_details P0 (net_item no_id) cl0 7 [])
     = Inr (''Error retrieving story details: '' @ quoted ''id'')
   \<and> fst (update_story P0 (net_read_only story1) cl0 7 None (Some ''Closed'') None None None
           None None None None [])
     = Inr ''Error updating user story 7: Request timed out after 30 seconds''
   \<and> fst (create_user_story P0 (net_item no_id) cl0 ''Login'' None None None None None None
           None [])
     = Inr (''Error creating user story: '' @ quoted ''id'')"
proof -
  have n: "no_id \<noteq> PyNone" and s: "story1 \<noteq> PyNone"
    by (simp_all add: no_id_def story1_def)
  have k: "str_exc (KeyError ''id'') = quoted ''id''"
    by (simp add: str_exc_def repr_str_def repr_char_def quoted_def squote_def dquote_def
        backslash_def printable_def Let_def)
  have 1: "fst (get_user_stories P0 net_down cl0 50 [])
     = Inr (''Error retrieving user stories: ''
            @ ''Connection Error: refused. Check your network connection'')"
    using handlers_return_text [where P = P0 and net = net_down and cl = cl0 and limit = 50
        and log = "[]"
        and err = "Exception ''Connection Error: refused. Check your network connection''",
        THEN conjunct2, THEN conjunct1, THEN conjunct1]
      get_work_items_net_down
    by (simp add: str_exc_def)
  have 2: "fst (get_story_details P0 (net_item no_id) cl0 7 [])
     = Inr (''Error retrieving story details: '' @ quoted ''id'')"
    using handlers_return_text [where P = P0 and net = "net_item no_id" and cl = cl0
        and wid = 7 and log = "[]" and item = no_id and err = "KeyError ''id''",
        THEN conjunct2, THEN conjunct2, THEN conjunct2, THEN conjunct2, THEN conjunct2,
        THEN conjunct2, THEN conjunct1]
      fetch_item [of no_id] parse_no_id n k
    by simp
  have f: "fst (get_work_item_by_id (net_read_only story1) cl0 7 []) = Inr story1"
    by (simp add: get_work_item_by_id_def send_def net_read_only_def get_item_request_def
        ok_response_def ebnd_def raise_for_status_def response_json_def)
  have u: "fst (update_work_item (net_read_only story1) cl0 7
                  [(''System.State'', PyStr ''Closed'')] [get_item_request cl0 7])
     = Inl (Exception ''Request timed out after 30 seconds'')"
    by (simp add: update_work_item_def send_def net_read_only_def update_request_def
        ebnd_def finish_def client_error_def cl0_def str_int_def str_nat.simps digit_def)
  have m: "foldl set_present []
             (update_story_mapping None (Some ''Closed'') None None None None None None None)
     = [(''System.State'', PyStr ''Closed'')]"
    by (simp add: update_story_mapping_def set_present_def opt_str_def opt_int_def)
  have 3: "fst (update_story P0 (net_read_only story1) cl0 7 None (Some ''Closed'') None None
                  None None None None None [])
     = Inr ''Error updating user story 7: Request timed out after 30 seconds''"
    using handlers_return_text [where P = P0 and net = "net_read_only story1" and cl = cl0
        and wid = 7 and log = "[]" and item = story1 and ut = None and us = "Some ''Closed''"
        and ua = None and ud = None and up = None and usp = None and utg = None
        and uar = None and uit = None
        and err = "Exception ''Request timed out after 30 seconds''",
        THEN conjunct2, THEN conjunct1, THEN conjunct2, THEN conjunct2, THEN conjunct2,
        THEN conjunct2, THEN conjunct2, THEN conjunct2, THEN conjunct2, THEN conjunct2,
        THEN conjunct2, THEN conjunct1]
      f u m tag_story1 s
    by (simp add: str_exc_def str_int_def str_nat.simps digit_def)
  have c: "fst (create_work_item (net_item no_id) cl0 ''User Story'' ''Login''
                  (create_user_story_fields None None None None None None None) [])
     = Inr no_id"
    by (simp add: create_work_item_def send_def net_item_def ok_response_def ebnd_def
        finish_def raise_for_status_def response_json_def)
  have 4: "fst (create_user_story P0 (net_item no_id) cl0 ''Login'' None None None None None
                  None None [])
     = Inr (''Error creating user story: '' @ quoted ''id'')"
    using handlers_return_text [where P = P0 and net = "net_item no_id" and cl = cl0
        and ttl = "''Login''" and log = "[]" and created = no_id and cd = None and cp = None
        and csp = None and ca = None and car = None and cit = None and ctg = None
        and err = "KeyError ''id''",
        THEN conjunct2, THEN conjunct2, THEN conjunct2, THEN conjunct2, THEN conjunct1]
      c parse_no_id k
    by simp
  show ?thesis
    using 1 2 3 4 by simp
qed

end
